theory Spec2Isabelle
  imports Complex_Main "HOL-Library.Sublist"
begin

section \<open>Time-table automation: the session scheduler\<close>

text \<open>
  A shallow embedding of the scheduling core of \<^verbatim>\<open>main_modified_full.py\<close>: the slot
  calendar, the feasibility check, the commit, the lunch placer, the two-phase session
  scheduler and the per-course session plan.

  Conventions of the embedding.
  \<^item> A time of day \<^verbatim>\<open>time(h, m)\<close> is the number of minutes after midnight; the order of
    \<^verbatim>\<open>datetime.time\<close> values is the order of these numbers.
  \<^item> A Python string is a \<^typ>\<open>string\<close>; \<^verbatim>\<open>a in b\<close> on strings is \<^const>\<open>sublist\<close>,
    \<^verbatim>\<open>b.startswith(a)\<close> is \<^const>\<open>prefix\<close>.
  \<^item> A dictionary whose keys are \<^verbatim>\<open>range(n)\<close> (the days of a grid, the slots of a day,
    the days of an availability entry) is a list of length \<open>n\<close>; reading or writing a key
    that is not there raises \<^verbatim>\<open>KeyError\<close>.
  \<^item> A dictionary keyed by names is a map \<open>string \<rightharpoonup> _\<close>.
  \<^item> The dictionaries and the worksheet that the functions mutate in place, and the
    state of the module \<^verbatim>\<open>random\<close>, are fields of one state record that every
    mutating function takes and returns.
  \<^item> A raised exception is the value \<open>Inl e\<close>; a normal return is \<open>Inr v\<close>.
\<close>

subsection \<open>Constants\<close>

datatype py_error = KeyError | ValueError | IndexError

definition time :: "nat \<Rightarrow> nat \<Rightarrow> nat" where
  "time h m = 60 * h + m"

definition DAYS :: "string list" where
  "DAYS = [''Monday'', ''Tuesday'', ''Wednesday'', ''Thursday'', ''Friday'']"

definition START_TIME :: nat where "START_TIME = time 9 0"
definition END_TIME :: nat where "END_TIME = time 18 30"
definition LECTURE_DURATION :: nat where "LECTURE_DURATION = 3"
definition LAB_DURATION :: nat where "LAB_DURATION = 4"
definition TUTORIAL_DURATION :: nat where "TUTORIAL_DURATION = 2"
definition MAX_SCHEDULING_ATTEMPTS :: nat where "MAX_SCHEDULING_ATTEMPTS = 5000"

subsection \<open>Slot calendar\<close>

type_synonym slot = "nat \<times> nat"

text \<open>
  The loop of \<^verbatim>\<open>generate_time_slots\<close>. \<open>current_time\<close> and \<open>end_time\<close> are
  \<^verbatim>\<open>datetime\<close> values of today, counted in minutes after today's midnight;
  \<^verbatim>\<open>.time()\<close> keeps the time of day.
\<close>

function slots_loop :: "nat \<Rightarrow> nat \<Rightarrow> slot list" where
  "slots_loop current_time end_time =
     (if current_time < end_time
      then (current_time mod 1440, (current_time + 30) mod 1440)
             # slots_loop (current_time + 30) end_time
      else [])"
  by pat_completeness auto
termination
  by (relation "measure (\<lambda>(current_time, end_time). end_time - current_time)") auto

declare slots_loop.simps [simp del]

definition generate_time_slots :: "slot list" where
  "generate_time_slots = slots_loop START_TIME END_TIME"

definition is_morning_break :: "slot \<Rightarrow> bool" where
  "is_morning_break slot = (case slot of (start, end) \<Rightarrow> time 10 30 \<le> start \<and> start < time 11 0)"

definition is_lunch_time :: "slot \<Rightarrow> bool" where
  "is_lunch_time slot = (case slot of (start, end) \<Rightarrow> time 12 30 \<le> start \<and> start < time 14 30)"

subsection \<open>Grid cells, courses and the scheduling state\<close>

text \<open>
  One cell of a grid: the dictionary with the keys \<^verbatim>\<open>type\<close>, \<^verbatim>\<open>code\<close>, \<^verbatim>\<open>name\<close>,
  \<^verbatim>\<open>faculty\<close>, \<^verbatim>\<open>classroom\<close>, \<^verbatim>\<open>duration\<close>, \<^verbatim>\<open>is_first\<close> and \<^verbatim>\<open>position\<close>.
\<close>

record cell =
  cell_type :: "string option"
  cell_code :: string
  cell_name :: string
  cell_faculty :: string
  cell_classroom :: string
  cell_duration :: nat
  cell_is_first :: bool
  cell_position :: nat

definition empty_cell :: cell where
  "empty_cell = \<lparr> cell_type = None, cell_code = '''', cell_name = '''', cell_faculty = '''',
     cell_classroom = '''', cell_duration = 0, cell_is_first = False, cell_position = 0 \<rparr>"

type_synonym grid = "cell list list"
type_synonym availability = "string \<rightharpoonup> nat set list"

text \<open>
  A course row as the scheduler reads it: the four strings
  \<^verbatim>\<open>str(course['Course Code'])\<close>, ..., and the three counts \<^verbatim>\<open>int(course['L'])\<close>,
  \<^verbatim>\<open>int(course['T'])\<close>, \<^verbatim>\<open>int(course['P'])\<close>.
\<close>

record course =
  Course_Code :: string
  Course_Name :: string
  Faculty :: string
  Classroom :: string
  L :: int
  T :: int
  P :: int

text \<open>
  The state: the two shared availability dictionaries, the grid that the current call
  works on, the rows of the summary sheet, the dictionary of all grids, the three
  counters of the driver, and the random source (its \<open>n\<close>-th raw draw is
  \<open>random_source n\<close>; \<open>random_calls\<close> counts the draws made so far).
\<close>

record state =
  professor_schedule :: availability
  classroom_schedule :: availability
  timetable :: grid
  summary_ws :: "string list list"
  all_timetables :: "string \<rightharpoonup> grid"
  total_courses :: nat
  scheduled_courses :: nat
  failed_courses :: nat
  random_source :: "nat \<Rightarrow> nat"
  random_calls :: nat

subsection \<open>Python library functions\<close>

text \<open>Reading key \<open>k\<close> of a dictionary with the keys \<^verbatim>\<open>range(n)\<close>.\<close>

definition dict_get :: "'a list \<Rightarrow> nat \<Rightarrow> py_error + 'a" where
  "dict_get d k = (if k < length d then Inr (d ! k) else Inl KeyError)"

text \<open>\<^verbatim>\<open>range(n)\<close> for an integer \<open>n\<close>: empty when \<open>n \<le> 0\<close>.\<close>

definition py_range :: "int \<Rightarrow> nat list" where
  "py_range n = [0..<nat n]"

text \<open>
  \<^verbatim>\<open>random.randint(a, b)\<close>: some integer of \<open>[a, b]\<close>, \<^verbatim>\<open>ValueError\<close> when the range is
  empty. Every integer of the range is the result for some raw draw.
\<close>

definition randint :: "int \<Rightarrow> int \<Rightarrow> state \<Rightarrow> py_error + (int \<times> state)" where
  "randint a b st =
     (if b < a then Inl ValueError
      else Inr (a + int (random_source st (random_calls st)) mod (b - a + 1),
                st\<lparr>random_calls := Suc (random_calls st)\<rparr>))"

text \<open>\<^verbatim>\<open>random.choice(seq)\<close>: some element of \<open>seq\<close>, \<^verbatim>\<open>IndexError\<close> when it is empty.\<close>

definition choice :: "'a list \<Rightarrow> state \<Rightarrow> py_error + ('a \<times> state)" where
  "choice seq st =
     (if seq = [] then Inl IndexError
      else Inr (seq ! (random_source st (random_calls st) mod length seq),
                st\<lparr>random_calls := Suc (random_calls st)\<rparr>))"

text \<open>\<^verbatim>\<open>s.replace('/', ',')\<close>, \<^verbatim>\<open>s.split(',')\<close> and \<^verbatim>\<open>s.strip()\<close>.\<close>

definition replace_char :: "char \<Rightarrow> char \<Rightarrow> string \<Rightarrow> string" where
  "replace_char old new s = map (\<lambda>c. if c = old then new else c) s"

fun split_char :: "char \<Rightarrow> string \<Rightarrow> string list" where
  "split_char sep [] = [[]]"
| "split_char sep (c # cs) =
     (if c = sep then [] # split_char sep cs
      else (case split_char sep cs of
              [] \<Rightarrow> [[c]]
            | p # ps \<Rightarrow> (c # p) # ps))"

text \<open>
  A string is the list of the bytes of its UTF-8 encoding, so the white space that
  \<^verbatim>\<open>str.strip()\<close> removes is a set of byte sequences: the encodings of the code points
  U+0009 to U+000D, U+001C to U+0020, U+0085, U+00A0, U+1680, U+2000 to U+200A, U+2028,
  U+2029, U+202F, U+205F and U+3000. No encoding of another code point starts or ends
  with one of them.
\<close>

definition WHITESPACE :: "string list" where
  "WHITESPACE =
     map (\<lambda>b. [b]) [CHR 0x09, CHR 0x0A, CHR 0x0B, CHR 0x0C, CHR 0x0D,
                     CHR 0x1C, CHR 0x1D, CHR 0x1E, CHR 0x1F, CHR 0x20]
     @ [[CHR 0xC2, CHR 0x85], [CHR 0xC2, CHR 0xA0], [CHR 0xE1, CHR 0x9A, CHR 0x80]]
     @ map (\<lambda>b. [CHR 0xE2, CHR 0x80, b])
         [CHR 0x80, CHR 0x81, CHR 0x82, CHR 0x83, CHR 0x84, CHR 0x85, CHR 0x86, CHR 0x87,
          CHR 0x88, CHR 0x89, CHR 0x8A, CHR 0xA8, CHR 0xA9, CHR 0xAF]
     @ [[CHR 0xE2, CHR 0x81, CHR 0x9F], [CHR 0xE3, CHR 0x80, CHR 0x80]]"

text \<open>The length of the sequence of \<open>ws\<close> that \<open>s\<close> starts with, 0 when there is none.\<close>

definition match_width :: "string list \<Rightarrow> string \<Rightarrow> nat" where
  "match_width ws s = (case find (\<lambda>w. prefix w s) ws of None \<Rightarrow> 0 | Some w \<Rightarrow> length w)"

function drop_matches :: "string list \<Rightarrow> string \<Rightarrow> string" where
  "drop_matches ws s =
     (if match_width ws s = 0 then s else drop_matches ws (drop (match_width ws s) s))"
  by pat_completeness auto

termination
proof (relation "measure (\<lambda>(ws, s). length s)")
  show "wf (measure (\<lambda>(ws, s). length s))" by simp
next
  fix ws :: "string list" and s :: string
  assume "match_width ws s \<noteq> 0"
  moreover have "match_width ws s \<le> length s"
    by (auto simp: match_width_def find_Some_iff prefix_length_le split: option.splits)
  ultimately show "((ws, drop (match_width ws s) s), (ws, s)) \<in> measure (\<lambda>(ws, s). length s)"
    by simp
qed

declare drop_matches.simps [simp del]

definition strip :: "string \<Rightarrow> string" where
  "strip s = rev (drop_matches (map rev WHITESPACE) (rev (drop_matches WHITESPACE s)))"

text \<open>\<^verbatim>\<open>t.strftime('%H:%M')\<close> and \<^verbatim>\<open>str(n)\<close> for a natural number.\<close>

definition digit :: "nat \<Rightarrow> char" where
  "digit n = ''0123456789'' ! (n mod 10)"

definition strftime_HM :: "nat \<Rightarrow> string" where
  "strftime_HM t = [digit (t div 60 div 10), digit (t div 60), CHR '':'',
                    digit (t mod 60 div 10), digit (t mod 60)]"

fun str_nat :: "nat \<Rightarrow> string" where
  "str_nat n = (if n < 10 then [digit n] else str_nat (n div 10) @ [digit n])"

declare str_nat.simps [simp del]

subsection \<open>Feasibility check\<close>

definition faculty_flexible :: "string \<Rightarrow> bool" where
  "faculty_flexible faculty \<longleftrightarrow> CHR ''/'' \<in> set faculty \<or> CHR '','' \<in> set faculty"

definition classroom_flexible :: "string \<Rightarrow> bool" where
  "classroom_flexible classroom \<longleftrightarrow>
     prefix ''TBD_'' classroom \<or> sublist ''Will be scheduled'' classroom"

text \<open>
  \<^verbatim>\<open>who in schedule and current_slot in schedule[who][day]\<close>: the second operand is
  evaluated only when the first holds, and raises \<^verbatim>\<open>KeyError\<close> when the entry has no
  such day.
\<close>

definition occupied :: "availability \<Rightarrow> string \<Rightarrow> nat \<Rightarrow> nat \<Rightarrow> py_error + bool" where
  "occupied schedule who day current_slot =
     (case schedule who of
        None \<Rightarrow> Inr False
      | Some days \<Rightarrow>
          (case dict_get days day of
             Inl e \<Rightarrow> Inl e
           | Inr slots \<Rightarrow> Inr (current_slot \<in> slots)))"

text \<open>
  One iteration of the loop of \<^verbatim>\<open>check_scheduling_possibility\<close>: \<open>Inr False\<close> when the
  iteration executes \<^verbatim>\<open>return False\<close>, \<open>Inr True\<close> when it falls through to the next one.
\<close>

definition check_slot ::
  "string \<Rightarrow> string \<Rightarrow> nat \<Rightarrow> nat \<Rightarrow> slot list \<Rightarrow> state \<Rightarrow> py_error + bool" where
  "check_slot faculty classroom day current_slot TIME_SLOTS st =
     (if current_slot \<ge> length TIME_SLOTS then Inr False
      else case dict_get (timetable st) day of
        Inl e \<Rightarrow> Inl e
      | Inr row \<Rightarrow>
        (case dict_get row current_slot of
           Inl e \<Rightarrow> Inl e
         | Inr c \<Rightarrow>
           if cell_type c \<noteq> None then Inr False
           else if is_morning_break (TIME_SLOTS ! current_slot) then Inr False
           else
             (case (if \<not> faculty_flexible faculty
                    then occupied (professor_schedule st) faculty day current_slot
                    else Inr False) of
                Inl e \<Rightarrow> Inl e
              | Inr busy \<Rightarrow>
                if busy then Inr False
                else
                  (case (if \<not> classroom_flexible classroom
                         then occupied (classroom_schedule st) classroom day current_slot
                         else Inr False) of
                     Inl e \<Rightarrow> Inl e
                   | Inr taken \<Rightarrow> Inr (\<not> taken)))))"

text \<open>A loop that returns \<open>False\<close> at the first iteration that does, and \<open>True\<close> after the last.\<close>

fun all_pass :: "('a \<Rightarrow> py_error + bool) \<Rightarrow> 'a list \<Rightarrow> py_error + bool" where
  "all_pass body [] = Inr True"
| "all_pass body (i # rest) =
     (case body i of
        Inl e \<Rightarrow> Inl e
      | Inr ok \<Rightarrow> if ok then all_pass body rest else Inr False)"

definition check_scheduling_possibility ::
  "string \<Rightarrow> string \<Rightarrow> nat \<Rightarrow> nat \<Rightarrow> nat \<Rightarrow> slot list \<Rightarrow> state \<Rightarrow> py_error + bool" where
  "check_scheduling_possibility faculty classroom day start_slot duration TIME_SLOTS st =
     all_pass (\<lambda>i. check_slot faculty classroom day (start_slot + i) TIME_SLOTS st)
       [0..<duration]"

subsection \<open>Commit\<close>

definition faculty_list :: "string \<Rightarrow> string list" where
  "faculty_list faculty =
     (if CHR ''/'' \<in> set faculty \<or> CHR '','' \<in> set faculty
      then map strip (split_char CHR '','' (replace_char CHR ''/'' CHR '','' faculty))
      else [faculty])"

text \<open>A loop over a list whose body updates a state or raises.\<close>

fun for_each :: "('a \<Rightarrow> 's \<Rightarrow> py_error + 's) \<Rightarrow> 'a list \<Rightarrow> 's \<Rightarrow> py_error + 's" where
  "for_each body [] s = Inr s"
| "for_each body (x # xs) s =
     (case body x s of
        Inl e \<Rightarrow> Inl e
      | Inr s' \<Rightarrow> for_each body xs s')"

text \<open>
  \<^verbatim>\<open>if who not in schedule: schedule[who] = {day: set() for day in range(len(DAYS))}\<close>
  followed by \<^verbatim>\<open>schedule[who][day].add(current_slot)\<close>.
\<close>

definition mark_occupied :: "availability \<Rightarrow> string \<Rightarrow> nat \<Rightarrow> nat \<Rightarrow> py_error + availability" where
  "mark_occupied schedule who day current_slot =
     (let days = (case schedule who of
                    None \<Rightarrow> replicate (length DAYS) {}
                  | Some days \<Rightarrow> days)
      in if day < length days
         then Inr (schedule(who \<mapsto> days[day := insert current_slot (days ! day)]))
         else Inl KeyError)"

text \<open>The eight assignments to the cell of iteration \<open>i\<close> of \<^verbatim>\<open>update_schedule\<close>.\<close>

definition session_cell ::
  "string \<Rightarrow> string \<Rightarrow> nat \<Rightarrow> string \<Rightarrow> string \<Rightarrow> string \<Rightarrow> nat \<Rightarrow> cell \<Rightarrow> cell" where
  "session_cell faculty classroom duration session_type code name i c =
     c\<lparr>cell_type := Some session_type,
       cell_code := (if i = 0 then code else []),
       cell_name := (if i = 0 then name else []),
       cell_faculty := (if i = 0 then faculty else []),
       cell_classroom := (if i = 0 then classroom else []),
       cell_duration := (if i = 0 then duration else 0),
       cell_is_first := (i = 0),
       cell_position := i\<rparr>"

text \<open>Iteration \<open>i\<close> of the loop of \<^verbatim>\<open>update_schedule\<close>.\<close>

definition update_slot ::
  "string \<Rightarrow> string \<Rightarrow> nat \<Rightarrow> nat \<Rightarrow> nat \<Rightarrow> string \<Rightarrow> string \<Rightarrow> string \<Rightarrow> nat \<Rightarrow> state
     \<Rightarrow> py_error + state" where
  "update_slot faculty classroom day start_slot duration session_type code name i st =
     (case for_each (\<lambda>single_faculty schedule.
                        mark_occupied schedule single_faculty day (start_slot + i))
             (faculty_list faculty) (professor_schedule st) of
        Inl e \<Rightarrow> Inl e
      | Inr ps \<Rightarrow>
        (case mark_occupied (classroom_schedule st) classroom day (start_slot + i) of
           Inl e \<Rightarrow> Inl e
         | Inr cs \<Rightarrow>
           (case dict_get (timetable st) day of
              Inl e \<Rightarrow> Inl e
            | Inr row \<Rightarrow>
              (case dict_get row (start_slot + i) of
                 Inl e \<Rightarrow> Inl e
               | Inr c \<Rightarrow>
                 Inr (st\<lparr>professor_schedule := ps,
                         classroom_schedule := cs,
                         timetable := (timetable st)[day := row[start_slot + i :=
                           session_cell faculty classroom duration session_type code name
                             i c]]\<rparr>)))))"

definition update_schedule ::
  "string \<Rightarrow> string \<Rightarrow> nat \<Rightarrow> nat \<Rightarrow> nat \<Rightarrow> string \<Rightarrow> string \<Rightarrow> string \<Rightarrow> state
     \<Rightarrow> py_error + state" where
  "update_schedule faculty classroom day start_slot duration session_type code name st =
     for_each (update_slot faculty classroom day start_slot duration session_type code name)
       [0..<duration] st"

subsection \<open>Lunch placer\<close>

definition lunch_start_indices :: "slot list \<Rightarrow> nat list" where
  "lunch_start_indices TIME_SLOTS =
     filter (\<lambda>slot_idx. time 12 30 \<le> fst (TIME_SLOTS ! slot_idx)
                        \<and> fst (TIME_SLOTS ! slot_idx) < time 14 0)
       [0..<length TIME_SLOTS]"

text \<open>The five assignments that mark one lunch cell.\<close>

definition lunch_cell :: "nat \<Rightarrow> nat \<Rightarrow> cell \<Rightarrow> cell" where
  "lunch_cell start_idx slot_idx c =
     c\<lparr>cell_type := Some ''LUNCH'',
       cell_code := ''LUNCH'',
       cell_name := ''LUNCH BREAK'',
       cell_is_first := (slot_idx = start_idx),
       cell_duration := (if slot_idx = start_idx then 2 else 0)\<rparr>"

definition mark_lunch :: "nat \<Rightarrow> nat \<Rightarrow> nat \<Rightarrow> state \<Rightarrow> py_error + state" where
  "mark_lunch day_idx start_idx slot_idx st =
     (case dict_get (timetable st) day_idx of
        Inl e \<Rightarrow> Inl e
      | Inr row \<Rightarrow>
        (case dict_get row slot_idx of
           Inl e \<Rightarrow> Inl e
         | Inr c \<Rightarrow>
           Inr (st\<lparr>timetable := (timetable st)[day_idx := row[slot_idx :=
                   lunch_cell start_idx slot_idx c]]\<rparr>)))"

text \<open>
  The loop over the days of \<^verbatim>\<open>schedule_random_lunch_breaks\<close>; the \<^verbatim>\<open>return\<close> inside
  the loop ends it.
\<close>

fun lunch_days :: "slot list \<Rightarrow> nat list \<Rightarrow> state \<Rightarrow> py_error + state" where
  "lunch_days TIME_SLOTS [] st = Inr st"
| "lunch_days TIME_SLOTS (day_idx # rest) st =
     (if lunch_start_indices TIME_SLOTS \<noteq> [] then
        (let max_start = min (int (length (lunch_start_indices TIME_SLOTS)) - 1)
                             (int (length TIME_SLOTS) - 2)
         in if max_start < 0 then Inr st
            else
              (case choice (take (nat (max_start + 1)) (lunch_start_indices TIME_SLOTS)) st of
                 Inl e \<Rightarrow> Inl e
               | Inr (start_idx, st1) \<Rightarrow>
                 (let end_idx = start_idx + 1 in
                  case for_each (mark_lunch day_idx start_idx) [start_idx..<end_idx + 1] st1 of
                    Inl e \<Rightarrow> Inl e
                  | Inr st2 \<Rightarrow> lunch_days TIME_SLOTS rest st2)))
      else lunch_days TIME_SLOTS rest st)"

definition schedule_random_lunch_breaks :: "slot list \<Rightarrow> state \<Rightarrow> py_error + state" where
  "schedule_random_lunch_breaks TIME_SLOTS st = lunch_days TIME_SLOTS [0..<length DAYS] st"

subsection \<open>Session scheduler\<close>

definition session_duration :: "string \<Rightarrow> nat" where
  "session_duration session_type =
     (if session_type = ''LAB'' then LAB_DURATION
      else if sublist ''LEC'' session_type then LECTURE_DURATION
      else TUTORIAL_DURATION)"

text \<open>
  The status texts of the summary sheet; the pictograph in front of each is written as
  its three UTF-8 bytes.
\<close>

definition STATUS_SCHEDULED :: string where
  "STATUS_SCHEDULED =
     [CHR 0xE2, CHR 0x9C, CHR 0x85] @ '' Scheduled''"

definition STATUS_FAILED :: string where
  "STATUS_FAILED =
     [CHR 0xE2, CHR 0x9D, CHR 0x8C] @ '' Failed''"

text \<open>The two rows that \<^verbatim>\<open>schedule_session\<close> appends to the summary sheet.\<close>

definition scheduled_row ::
  "string \<Rightarrow> string \<Rightarrow> course \<Rightarrow> string \<Rightarrow> nat \<Rightarrow> nat \<Rightarrow> slot list \<Rightarrow> string list" where
  "scheduled_row department semester course session_type day start_slot TIME_SLOTS =
     [department, semester, Course_Code course, Course_Name course, session_type,
      Faculty course, Classroom course, STATUS_SCHEDULED,
      DAYS ! day @ '' '' @ strftime_HM (fst (TIME_SLOTS ! start_slot))]"

definition failed_row :: "string \<Rightarrow> string \<Rightarrow> course \<Rightarrow> string \<Rightarrow> string list" where
  "failed_row department semester course session_type =
     [department, semester, Course_Code course, Course_Name course, session_type,
      Faculty course, Classroom course, STATUS_FAILED, ''N/A'']"

text \<open>
  \<^verbatim>\<open>day_load\<close>: the number of non-empty cells of each day of \<^verbatim>\<open>range(len(DAYS))\<close>;
  \<^verbatim>\<open>timetable[day]\<close> raises when the grid has fewer days.
\<close>

definition day_load :: "grid \<Rightarrow> py_error + nat list" where
  "day_load g =
     (if length DAYS \<le> length g
      then Inr (map (\<lambda>day. length (filter (\<lambda>slot. cell_type slot \<noteq> None) (g ! day)))
                  [0..<length DAYS])
      else Inl KeyError)"

text \<open>\<^verbatim>\<open>sorted(day_load.keys(), key=lambda d: day_load[d])\<close>: a stable sort of the days.\<close>

definition sorted_days :: "nat list \<Rightarrow> nat list" where
  "sorted_days load = sort_key (\<lambda>d. load ! d) [0..<length load]"

text \<open>The commit of a feasible candidate: \<^verbatim>\<open>update_schedule\<close>, then the summary row.\<close>

definition commit ::
  "string \<Rightarrow> string \<Rightarrow> course \<Rightarrow> string \<Rightarrow> nat \<Rightarrow> nat \<Rightarrow> slot list \<Rightarrow> state \<Rightarrow> py_error + state" where
  "commit department semester course session_type day start_slot TIME_SLOTS st =
     (case update_schedule (Faculty course) (Classroom course) day start_slot
             (session_duration session_type) session_type (Course_Code course)
             (Course_Name course) st of
        Inl e \<Rightarrow> Inl e
      | Inr st' \<Rightarrow>
        Inr (st'\<lparr>summary_ws := summary_ws st' @
               [scheduled_row department semester course session_type day start_slot
                  TIME_SLOTS]\<rparr>))"

text \<open>
  Phase 1, inner loop: the start slots of one day in increasing order; the first feasible
  one is committed and ends the loop. The result tells whether \<^verbatim>\<open>scheduled\<close> was set.
\<close>

fun phase1_slots ::
  "string \<Rightarrow> string \<Rightarrow> course \<Rightarrow> string \<Rightarrow> slot list \<Rightarrow> nat \<Rightarrow> nat list \<Rightarrow> state
     \<Rightarrow> py_error + (bool \<times> state)" where
  "phase1_slots department semester course session_type TIME_SLOTS day [] st = Inr (False, st)"
| "phase1_slots department semester course session_type TIME_SLOTS day (start_slot # rest) st =
     (case check_scheduling_possibility (Faculty course) (Classroom course) day start_slot
             (session_duration session_type) TIME_SLOTS st of
        Inl e \<Rightarrow> Inl e
      | Inr ok \<Rightarrow>
        if ok then
          (case commit department semester course session_type day start_slot TIME_SLOTS st of
             Inl e \<Rightarrow> Inl e
           | Inr st' \<Rightarrow> Inr (True, st'))
        else phase1_slots department semester course session_type TIME_SLOTS day rest st)"

text \<open>Phase 1, outer loop: the days in sorted order, until \<^verbatim>\<open>scheduled\<close> is set.\<close>

fun phase1_days ::
  "string \<Rightarrow> string \<Rightarrow> course \<Rightarrow> string \<Rightarrow> slot list \<Rightarrow> nat list \<Rightarrow> state
     \<Rightarrow> py_error + (bool \<times> state)" where
  "phase1_days department semester course session_type TIME_SLOTS [] st = Inr (False, st)"
| "phase1_days department semester course session_type TIME_SLOTS (day # rest) st =
     (case phase1_slots department semester course session_type TIME_SLOTS day
             (py_range (int (length TIME_SLOTS) - int (session_duration session_type) + 1)) st of
        Inl e \<Rightarrow> Inl e
      | Inr (scheduled, st') \<Rightarrow>
        if scheduled then Inr (True, st')
        else phase1_days department semester course session_type TIME_SLOTS rest st')"

text \<open>
  Phase 2: \<^verbatim>\<open>while not scheduled and attempts < attempt_limit\<close>, entered with
  \<^verbatim>\<open>scheduled\<close> false.
\<close>

function phase2 ::
  "string \<Rightarrow> string \<Rightarrow> course \<Rightarrow> string \<Rightarrow> slot list \<Rightarrow> nat \<Rightarrow> nat \<Rightarrow> state
     \<Rightarrow> py_error + (bool \<times> state)" where
  "phase2 department semester course session_type TIME_SLOTS attempts attempt_limit st =
     (if attempts < attempt_limit then
        (case randint 0 (int (length DAYS) - 1) st of
           Inl e \<Rightarrow> Inl e
         | Inr (day, st1) \<Rightarrow>
           (case randint 0 (int (length TIME_SLOTS) - int (session_duration session_type)) st1 of
              Inl e \<Rightarrow> Inl e
            | Inr (start_slot, st2) \<Rightarrow>
              (case check_scheduling_possibility (Faculty course) (Classroom course) (nat day)
                      (nat start_slot) (session_duration session_type) TIME_SLOTS st2 of
                 Inl e \<Rightarrow> Inl e
               | Inr ok \<Rightarrow>
                 if ok then
                   (case commit department semester course session_type (nat day)
                           (nat start_slot) TIME_SLOTS st2 of
                      Inl e \<Rightarrow> Inl e
                    | Inr st' \<Rightarrow> Inr (True, st'))
                 else phase2 department semester course session_type TIME_SLOTS
                        (attempts + 1) attempt_limit st2)))
      else Inr (False, st))"
  by pat_completeness auto
termination
  by (relation "measure (\<lambda>(department, semester, course, session_type, TIME_SLOTS, attempts,
                           attempt_limit, st). attempt_limit - attempts)") auto

declare phase2.simps [simp del]

definition schedule_session ::
  "string \<Rightarrow> string \<Rightarrow> course \<Rightarrow> string \<Rightarrow> slot list \<Rightarrow> nat \<Rightarrow> state
     \<Rightarrow> py_error + (bool \<times> state)" where
  "schedule_session department semester course session_type TIME_SLOTS attempt_limit st =
     (case day_load (timetable st) of
        Inl e \<Rightarrow> Inl e
      | Inr load \<Rightarrow>
        (case phase1_days department semester course session_type TIME_SLOTS
                (sorted_days load) st of
           Inl e \<Rightarrow> Inl e
         | Inr (scheduled, st1) \<Rightarrow>
           (case (if scheduled then Inr (True, st1)
                  else phase2 department semester course session_type TIME_SLOTS 0
                         attempt_limit st1) of
              Inl e \<Rightarrow> Inl e
            | Inr (scheduled, st2) \<Rightarrow>
              if \<not> scheduled
              then Inr (False, st2\<lparr>summary_ws := summary_ws st2 @
                                     [failed_row department semester course session_type]\<rparr>)
              else Inr (True, st2))))"

subsection \<open>Session plan of a course\<close>

text \<open>
  The loop body shared by the two loops of \<^verbatim>\<open>handle_lectures\<close>: lecture \<open>i\<close> is the
  request \<^verbatim>\<open>f'LEC {i+1}'\<close>; the pair counts \<^verbatim>\<open>total_scheduled\<close> and \<^verbatim>\<open>failed\<close>.
\<close>

fun lecture_loop ::
  "string \<Rightarrow> string \<Rightarrow> course \<Rightarrow> slot list \<Rightarrow> nat \<Rightarrow> nat list \<Rightarrow> nat \<times> nat \<Rightarrow> state
     \<Rightarrow> py_error + ((nat \<times> nat) \<times> state)" where
  "lecture_loop department semester course TIME_SLOTS attempt_limit [] counts st =
     Inr (counts, st)"
| "lecture_loop department semester course TIME_SLOTS attempt_limit (i # rest) counts st =
     (case schedule_session department semester course (''LEC '' @ str_nat (i + 1))
             TIME_SLOTS attempt_limit st of
        Inl e \<Rightarrow> Inl e
      | Inr (lec_scheduled, st') \<Rightarrow>
        (case counts of (total_scheduled, failed) \<Rightarrow>
           if lec_scheduled
           then lecture_loop department semester course TIME_SLOTS attempt_limit rest
                  (total_scheduled + 1, failed) st'
           else lecture_loop department semester course TIME_SLOTS attempt_limit rest
                  (total_scheduled, failed + 1) st'))"

definition handle_lectures ::
  "string \<Rightarrow> string \<Rightarrow> course \<Rightarrow> slot list \<Rightarrow> nat \<Rightarrow> state
     \<Rightarrow> py_error + ((nat \<times> nat) \<times> state)" where
  "handle_lectures department semester course TIME_SLOTS attempt_limit st =
     (let l = L course in
      if l = 3
      then lecture_loop department semester course TIME_SLOTS attempt_limit (py_range 2)
             (0, 0) st
      else lecture_loop department semester course TIME_SLOTS attempt_limit (py_range l)
             (0, 0) st)"

text \<open>
  One iteration of a tutorial loop of the driver: the request \<^verbatim>\<open>f'TUT {tutorial_idx+1}'\<close>
  and the three counters.
\<close>

definition schedule_tutorial ::
  "string \<Rightarrow> string \<Rightarrow> course \<Rightarrow> slot list \<Rightarrow> nat \<Rightarrow> nat \<Rightarrow> state \<Rightarrow> py_error + state" where
  "schedule_tutorial department semester course TIME_SLOTS current_attempt_limit
       tutorial_idx st =
     (case schedule_session department semester course (''TUT '' @ str_nat (tutorial_idx + 1))
             TIME_SLOTS current_attempt_limit (st\<lparr>total_courses := total_courses st + 1\<rparr>) of
        Inl e \<Rightarrow> Inl e
      | Inr (tut_scheduled, st') \<Rightarrow>
        if tut_scheduled
        then Inr (st'\<lparr>scheduled_courses := scheduled_courses st' + 1\<rparr>)
        else Inr (st'\<lparr>failed_courses := failed_courses st' + 1\<rparr>))"

text \<open>A lab request of the driver with its counters; the result tells whether it was placed.\<close>

definition schedule_lab ::
  "string \<Rightarrow> string \<Rightarrow> course \<Rightarrow> slot list \<Rightarrow> nat \<Rightarrow> state \<Rightarrow> py_error + (bool \<times> state)" where
  "schedule_lab department semester course TIME_SLOTS attempt_limit st =
     (case schedule_session department semester course ''LAB'' TIME_SLOTS attempt_limit
             (st\<lparr>total_courses := total_courses st + 1\<rparr>) of
        Inl e \<Rightarrow> Inl e
      | Inr (lab_scheduled, st') \<Rightarrow>
        if lab_scheduled
        then Inr (True, st'\<lparr>scheduled_courses := scheduled_courses st' + 1\<rparr>)
        else Inr (False, st'\<lparr>failed_courses := failed_courses st' + 1\<rparr>))"

text \<open>The lectures of a course in the driver (\<^verbatim>\<open>if l > 0: ...\<close>) with the counters.\<close>

definition schedule_lectures ::
  "string \<Rightarrow> string \<Rightarrow> course \<Rightarrow> slot list \<Rightarrow> nat \<Rightarrow> state \<Rightarrow> py_error + state" where
  "schedule_lectures department semester course TIME_SLOTS current_attempt_limit st =
     (let l = L course in
      if l > 0 then
        (case handle_lectures department semester course TIME_SLOTS current_attempt_limit st of
           Inl e \<Rightarrow> Inl e
         | Inr ((lectures_scheduled, lectures_failed), st') \<Rightarrow>
           Inr (st'\<lparr>total_courses := total_courses st' + (if l = 3 then 2 else nat l),
                    scheduled_courses := scheduled_courses st' + lectures_scheduled,
                    failed_courses := failed_courses st' + lectures_failed\<rparr>))
      else Inr st)"

text \<open>
  \<^verbatim>\<open>priority_multiplier = 1.5 if department in ['DSAI', 'ECE'] else 1\<close> and
  \<^verbatim>\<open>attempt_limit = int(MAX_SCHEDULING_ATTEMPTS * priority_multiplier)\<close>. Both factors
  and their product are exact in binary floating point, so the product is taken
  over the rationals; \<^verbatim>\<open>int\<close> rounds it towards zero.
\<close>

definition priority_multiplier :: "string \<Rightarrow> rat" where
  "priority_multiplier department =
     (if department \<in> set [''DSAI'', ''ECE''] then 3 / 2 else 1)"

definition attempt_limit_of :: "string \<Rightarrow> nat" where
  "attempt_limit_of department =
     nat \<lfloor>of_nat MAX_SCHEDULING_ATTEMPTS * priority_multiplier department\<rfloor>"

text \<open>
  \<^verbatim>\<open>attempt_limit * 2 if not course_scheduled and department in ['DSAI', 'ECE']
  else attempt_limit\<close>
\<close>

definition current_attempt_limit :: "bool \<Rightarrow> string \<Rightarrow> nat \<Rightarrow> nat" where
  "current_attempt_limit course_scheduled department attempt_limit =
     (if \<not> course_scheduled \<and> department \<in> set [''DSAI'', ''ECE'']
      then attempt_limit * 2 else attempt_limit)"

text \<open>
  The body of the loop over \<^verbatim>\<open>combined_courses\<close>: the lab first, then the lectures
  and the tutorials with the limit that depends on the lab's outcome.
\<close>

definition process_combined_course ::
  "string \<Rightarrow> string \<Rightarrow> slot list \<Rightarrow> nat \<Rightarrow> course \<Rightarrow> state \<Rightarrow> py_error + state" where
  "process_combined_course department semester TIME_SLOTS attempt_limit course st =
     (case (if P course > 0
            then schedule_lab department semester course TIME_SLOTS attempt_limit st
            else Inr (True, st)) of
        Inl e \<Rightarrow> Inl e
      | Inr (course_scheduled, st1) \<Rightarrow>
        (case schedule_lectures department semester course TIME_SLOTS
                (current_attempt_limit course_scheduled department attempt_limit) st1 of
           Inl e \<Rightarrow> Inl e
         | Inr st2 \<Rightarrow>
           for_each (schedule_tutorial department semester course TIME_SLOTS
                       (current_attempt_limit course_scheduled department attempt_limit))
             (py_range (T course)) st2))"

text \<open>The body of the loop over \<^verbatim>\<open>lab_courses\<close>.\<close>

definition process_lab_course ::
  "string \<Rightarrow> string \<Rightarrow> slot list \<Rightarrow> nat \<Rightarrow> course \<Rightarrow> state \<Rightarrow> py_error + state" where
  "process_lab_course department semester TIME_SLOTS attempt_limit course st =
     (case schedule_lab department semester course TIME_SLOTS attempt_limit st of
        Inl e \<Rightarrow> Inl e
      | Inr (lab_scheduled, st') \<Rightarrow> Inr st')"

text \<open>The body of the loop over \<^verbatim>\<open>other_courses\<close>.\<close>

definition process_other_course ::
  "string \<Rightarrow> string \<Rightarrow> slot list \<Rightarrow> nat \<Rightarrow> course \<Rightarrow> state \<Rightarrow> py_error + state" where
  "process_other_course department semester TIME_SLOTS attempt_limit course st =
     (case schedule_lectures department semester course TIME_SLOTS attempt_limit st of
        Inl e \<Rightarrow> Inl e
      | Inr st1 \<Rightarrow>
        for_each (schedule_tutorial department semester course TIME_SLOTS attempt_limit)
          (py_range (T course)) st1)"

subsection \<open>The run over all departments and semesters\<close>

text \<open>
  The data frame and its selections are outside the embedding. A run is given the
  department and semester pairs in the order of the two nested loops, each with the three
  selections \<^verbatim>\<open>combined_courses\<close>, \<^verbatim>\<open>lab_courses\<close> and \<^verbatim>\<open>other_courses\<close> of its regular
  (non-elective) courses; a pair without courses has three empty selections.
\<close>

type_synonym course_group = "string \<times> string \<times> course list \<times> course list \<times> course list"

definition timetable_key :: "string \<Rightarrow> string \<Rightarrow> string" where
  "timetable_key department semester = department @ ''_'' @ semester"

text \<open>The grid that the first pair of loops builds for every timetable key.\<close>

definition new_timetable :: "slot list \<Rightarrow> grid" where
  "new_timetable TIME_SLOTS =
     map (\<lambda>day. map (\<lambda>slot. empty_cell) [0..<length TIME_SLOTS]) [0..<length DAYS]"

definition init_timetable :: "slot list \<Rightarrow> course_group \<Rightarrow> state \<Rightarrow> py_error + state" where
  "init_timetable TIME_SLOTS entry st =
     (case entry of (department, semester, combined_courses, lab_courses, other_courses) \<Rightarrow>
        (case schedule_random_lunch_breaks TIME_SLOTS
                (st\<lparr>timetable := new_timetable TIME_SLOTS\<rparr>) of
           Inl e \<Rightarrow> Inl e
         | Inr st' \<Rightarrow>
           Inr (st'\<lparr>all_timetables :=
                      (all_timetables st')(timetable_key department semester
                         \<mapsto> timetable st')\<rparr>)))"

text \<open>
  The body of the second pair of loops. \<^verbatim>\<open>timetable = all_timetables[timetable_key]\<close>
  is the grid object itself: what the requests write to it is written to the dictionary.
\<close>

definition process_group :: "slot list \<Rightarrow> course_group \<Rightarrow> state \<Rightarrow> py_error + state" where
  "process_group TIME_SLOTS entry st =
     (case entry of (department, semester, combined_courses, lab_courses, other_courses) \<Rightarrow>
        (case all_timetables st (timetable_key department semester) of
           None \<Rightarrow> Inl KeyError
         | Some g \<Rightarrow>
           (let attempt_limit = attempt_limit_of department in
            case for_each (process_combined_course department semester TIME_SLOTS attempt_limit)
                   combined_courses (st\<lparr>timetable := g\<rparr>) of
              Inl e \<Rightarrow> Inl e
            | Inr st1 \<Rightarrow>
              (case for_each (process_lab_course department semester TIME_SLOTS attempt_limit)
                      lab_courses st1 of
                 Inl e \<Rightarrow> Inl e
               | Inr st2 \<Rightarrow>
                 (case for_each (process_other_course department semester TIME_SLOTS
                                   attempt_limit) other_courses st2 of
                    Inl e \<Rightarrow> Inl e
                  | Inr st3 \<Rightarrow>
                    Inr (st3\<lparr>all_timetables :=
                               (all_timetables st3)(timetable_key department semester
                                  \<mapsto> timetable st3)\<rparr>))))))"

definition initial_state :: "(nat \<Rightarrow> nat) \<Rightarrow> state" where
  "initial_state source =
     \<lparr> professor_schedule = Map.empty, classroom_schedule = Map.empty, timetable = [],
       summary_ws = [[''Department'', ''Semester'', ''Course Code'', ''Course Name'',
                      ''Activity Type'', ''Faculty'', ''Classroom'', ''Scheduling Status'',
                      ''Time'']],
       all_timetables = Map.empty, total_courses = 0, scheduled_courses = 0,
       failed_courses = 0, random_source = source, random_calls = 0 \<rparr>"

definition generate_all_timetables :: "course_group list \<Rightarrow> (nat \<Rightarrow> nat) \<Rightarrow> py_error + state" where
  "generate_all_timetables groups source =
     (let TIME_SLOTS = generate_time_slots in
      case for_each (init_timetable TIME_SLOTS) groups (initial_state source) of
        Inl e \<Rightarrow> Inl e
      | Inr st \<Rightarrow> for_each (process_group TIME_SLOTS) groups st)"

section \<open>Properties of the scheduler\<close>

subsection \<open>Well-formed states\<close>

text \<open>
  A grid as the driver builds it has one row per day and one cell per time slot; an
  availability entry as the commit creates it has one set per day. \<open>slots_of\<close> reads the
  set of occupied slots of a name on a day, empty when there is none.
\<close>

definition grid_ok :: "slot list \<Rightarrow> grid \<Rightarrow> bool" where
  "grid_ok TIME_SLOTS g \<longleftrightarrow>
     length g = length DAYS \<and> (\<forall>day < length DAYS. length (g ! day) = length TIME_SLOTS)"

definition avail_ok :: "availability \<Rightarrow> bool" where
  "avail_ok schedule \<longleftrightarrow> (\<forall>who days. schedule who = Some days \<longrightarrow> length days = length DAYS)"

definition state_ok :: "slot list \<Rightarrow> state \<Rightarrow> bool" where
  "state_ok TIME_SLOTS st \<longleftrightarrow>
     grid_ok TIME_SLOTS (timetable st) \<and> avail_ok (professor_schedule st)
     \<and> avail_ok (classroom_schedule st)"

definition slots_of :: "availability \<Rightarrow> string \<Rightarrow> nat \<Rightarrow> nat set" where
  "slots_of schedule who day =
     (case schedule who of
        None \<Rightarrow> {}
      | Some days \<Rightarrow> if day < length days then days ! day else {})"

text \<open>The conditions that the feasibility check tests on one slot.\<close>

definition slot_free :: "string \<Rightarrow> string \<Rightarrow> nat \<Rightarrow> nat \<Rightarrow> slot list \<Rightarrow> state \<Rightarrow> bool" where
  "slot_free faculty classroom day current_slot TIME_SLOTS st \<longleftrightarrow>
     current_slot < length TIME_SLOTS
     \<and> cell_type (timetable st ! day ! current_slot) = None
     \<and> \<not> is_morning_break (TIME_SLOTS ! current_slot)
     \<and> (\<not> faculty_flexible faculty
          \<longrightarrow> current_slot \<notin> slots_of (professor_schedule st) faculty day)
     \<and> (\<not> classroom_flexible classroom
          \<longrightarrow> current_slot \<notin> slots_of (classroom_schedule st) classroom day)"

definition feasible :: "string \<Rightarrow> string \<Rightarrow> nat \<Rightarrow> nat \<Rightarrow> nat \<Rightarrow> slot list \<Rightarrow> state \<Rightarrow> bool" where
  "feasible faculty classroom day start_slot duration TIME_SLOTS st \<longleftrightarrow>
     (\<forall>i<duration. slot_free faculty classroom day (start_slot + i) TIME_SLOTS st)"

text \<open>The fields that a commit does not touch.\<close>

definition same_rest :: "state \<Rightarrow> state \<Rightarrow> bool" where
  "same_rest st st' \<longleftrightarrow>
     summary_ws st' = summary_ws st \<and> all_timetables st' = all_timetables st
     \<and> total_courses st' = total_courses st \<and> scheduled_courses st' = scheduled_courses st
     \<and> failed_courses st' = failed_courses st \<and> random_source st' = random_source st
     \<and> random_calls st' = random_calls st"

text \<open>
  The effect of the first \<open>n\<close> iterations of a commit on the grid and on the two
  availability dictionaries.
\<close>

definition block_written ::
  "string \<Rightarrow> string \<Rightarrow> nat \<Rightarrow> nat \<Rightarrow> nat \<Rightarrow> string \<Rightarrow> string \<Rightarrow> string \<Rightarrow> nat \<Rightarrow> grid \<Rightarrow> grid
     \<Rightarrow> bool" where
  "block_written faculty classroom day start_slot duration session_type code name n g g' \<longleftrightarrow>
     length g' = length g
     \<and> (\<forall>d < length g. length (g' ! d) = length (g ! d))
     \<and> (\<forall>d < length g. \<forall>s < length (g ! d).
           g' ! d ! s =
             (if d = day \<and> start_slot \<le> s \<and> s < start_slot + n
              then session_cell faculty classroom duration session_type code name
                     (s - start_slot) (g ! d ! s)
              else g ! d ! s))"

definition slots_added :: "string list \<Rightarrow> nat \<Rightarrow> nat \<Rightarrow> nat \<Rightarrow> availability \<Rightarrow> availability \<Rightarrow> bool" where
  "slots_added names day start_slot n schedule schedule' \<longleftrightarrow>
     (\<forall>who d. slots_of schedule' who d =
        slots_of schedule who d
        \<union> (if who \<in> set names \<and> d = day then {start_slot..<start_slot + n} else {}))"

definition committed ::
  "string \<Rightarrow> string \<Rightarrow> nat \<Rightarrow> nat \<Rightarrow> nat \<Rightarrow> string \<Rightarrow> string \<Rightarrow> string \<Rightarrow> nat \<Rightarrow> state \<Rightarrow> state
     \<Rightarrow> bool" where
  "committed faculty classroom day start_slot duration session_type code name n st st' \<longleftrightarrow>
     block_written faculty classroom day start_slot duration session_type code name n
       (timetable st) (timetable st')
     \<and> slots_added (faculty_list faculty) day start_slot n
         (professor_schedule st) (professor_schedule st')
     \<and> slots_added [classroom] day start_slot n
         (classroom_schedule st) (classroom_schedule st')
     \<and> same_rest st st'"

subsection \<open>Candidates and their order\<close>

text \<open>
  A candidate of a request is a day of the week with a start slot that leaves room for
  the whole duration; it fits when every slot of its range passes the check.
\<close>

definition candidate :: "slot list \<Rightarrow> nat \<Rightarrow> nat \<times> nat \<Rightarrow> bool" where
  "candidate TIME_SLOTS duration p \<longleftrightarrow>
     fst p < length DAYS \<and> snd p + duration \<le> length TIME_SLOTS"

definition fits :: "course \<Rightarrow> string \<Rightarrow> slot list \<Rightarrow> state \<Rightarrow> nat \<times> nat \<Rightarrow> bool" where
  "fits course session_type TIME_SLOTS st p \<longleftrightarrow>
     feasible (Faculty course) (Classroom course) (fst p) (snd p)
       (session_duration session_type) TIME_SLOTS st"

text \<open>The load of a day: the number of its non-empty cells.\<close>

definition load_of :: "grid \<Rightarrow> nat \<Rightarrow> nat" where
  "load_of g day = length (filter (\<lambda>slot. cell_type slot \<noteq> None) (g ! day))"

text \<open>
  The order of Phase 1 as the specification words it: days by ascending load, equal loads
  by day index, and within a day the start slots by index.
\<close>

definition day_before :: "grid \<Rightarrow> nat \<Rightarrow> nat \<Rightarrow> bool" where
  "day_before g d1 d2 \<longleftrightarrow>
     load_of g d1 < load_of g d2 \<or> (load_of g d1 = load_of g d2 \<and> d1 < d2)"

definition earlier :: "grid \<Rightarrow> nat \<times> nat \<Rightarrow> nat \<times> nat \<Rightarrow> bool" where
  "earlier g p q \<longleftrightarrow> day_before g (fst p) (fst q) \<or> (fst p = fst q \<and> snd p < snd q)"

definition first_fit :: "course \<Rightarrow> string \<Rightarrow> slot list \<Rightarrow> state \<Rightarrow> nat \<times> nat \<Rightarrow> bool" where
  "first_fit course session_type TIME_SLOTS st p \<longleftrightarrow>
     candidate TIME_SLOTS (session_duration session_type) p
     \<and> fits course session_type TIME_SLOTS st p
     \<and> (\<forall>q. candidate TIME_SLOTS (session_duration session_type) q
              \<and> earlier (timetable st) q p
            \<longrightarrow> \<not> fits course session_type TIME_SLOTS st q)"

text \<open>
  The \<open>k\<close>-th trial of Phase 2 entered in state \<open>st\<close>: the day and the start slot that the
  two calls of \<^verbatim>\<open>random.randint\<close> return.
\<close>

definition trial :: "slot list \<Rightarrow> nat \<Rightarrow> state \<Rightarrow> nat \<Rightarrow> nat \<times> nat" where
  "trial TIME_SLOTS duration st k =
     (random_source st (random_calls st + 2 * k) mod length DAYS,
      random_source st (random_calls st + 2 * k + 1) mod (length TIME_SLOTS - duration + 1))"

subsection \<open>Attempt budgets as the specification words them\<close>




subsection \<open>Example inputs\<close>

text \<open>
  A state as a run starts it (nothing booked, an empty grid for the given calendar), the
  first four slots of the working day (the last one is the morning break), and a course.
\<close>

definition fresh_state :: "slot list \<Rightarrow> state" where
  "fresh_state TIME_SLOTS = (initial_state (\<lambda>n. 0))\<lparr>timetable := new_timetable TIME_SLOTS\<rparr>"

definition morning_slots :: "slot list" where
  "morning_slots = [(time 9 0, time 9 30), (time 9 30, time 10 0), (time 10 0, time 10 30),
                    (time 10 30, time 11 0)]"

definition example_course :: course where
  "example_course = \<lparr> Course_Code = ''CS101'', Course_Name = ''Programming'',
     Faculty = ''Dr Rao'', Classroom = ''C101'', L = 3, T = 1, P = 2 \<rparr>"

text \<open>The same state after a room named by two alternatives was booked on Monday at 09:00.\<close>

definition shared_room_state :: state where
  "shared_room_state =
     (fresh_state morning_slots)\<lparr>classroom_schedule := [''R1/R2'' \<mapsto> [{0}, {}, {}, {}, {}]]\<rparr>"



subsection \<open>Sessions recorded in the grids\<close>

text \<open>
  A grid cell starts a committed session when it is a first cell that holds a session
  other than the lunch block. \<open>booked\<close> says that the range of every session of a single
  faculty name is recorded for that name in the availability dictionary; \<open>no_clash\<close> says
  that two different sessions of one single faculty name on the same day, in the same
  grid or in two grids, have disjoint ranges of slots.
\<close>

definition session_start :: "cell \<Rightarrow> bool" where
  "session_start c \<longleftrightarrow>
     cell_is_first c \<and> cell_type c \<noteq> None \<and> cell_type c \<noteq> Some ''LUNCH''"

definition booked :: "availability \<Rightarrow> (string \<rightharpoonup> grid) \<Rightarrow> bool" where
  "booked schedule grids \<longleftrightarrow>
     (\<forall>key g day s.
        grids key = Some g \<and> day < length g \<and> s < length (g ! day)
        \<and> session_start (g ! day ! s) \<and> \<not> faculty_flexible (cell_faculty (g ! day ! s))
        \<longrightarrow> {s..<s + cell_duration (g ! day ! s)}
              \<subseteq> slots_of schedule (cell_faculty (g ! day ! s)) day)"

definition no_clash :: "(string \<rightharpoonup> grid) \<Rightarrow> bool" where
  "no_clash grids \<longleftrightarrow>
     (\<forall>key1 g1 key2 g2 day s1 s2.
        grids key1 = Some g1 \<and> grids key2 = Some g2
        \<and> day < length g1 \<and> s1 < length (g1 ! day)
        \<and> day < length g2 \<and> s2 < length (g2 ! day)
        \<and> session_start (g1 ! day ! s1) \<and> session_start (g2 ! day ! s2)
        \<and> cell_faculty (g1 ! day ! s1) = cell_faculty (g2 ! day ! s2)
        \<and> \<not> faculty_flexible (cell_faculty (g1 ! day ! s1))
        \<and> (key1, s1) \<noteq> (key2, s2)
        \<longrightarrow> {s1..<s1 + cell_duration (g1 ! day ! s1)}
              \<inter> {s2..<s2 + cell_duration (g2 ! day ! s2)} = {})"

text \<open>
  The invariant of a run between two groups, and while the grid of one key is the
  current grid.
\<close>

definition run_inv :: "slot list \<Rightarrow> state \<Rightarrow> bool" where
  "run_inv TIME_SLOTS st \<longleftrightarrow>
     avail_ok (professor_schedule st) \<and> avail_ok (classroom_schedule st)
     \<and> (\<forall>key g. all_timetables st key = Some g \<longrightarrow> grid_ok TIME_SLOTS g)
     \<and> booked (professor_schedule st) (all_timetables st)
     \<and> no_clash (all_timetables st)"

definition group_inv :: "slot list \<Rightarrow> string \<Rightarrow> state \<Rightarrow> bool" where
  "group_inv TIME_SLOTS key st \<longleftrightarrow>
     state_ok TIME_SLOTS st
     \<and> (\<forall>k g. all_timetables st k = Some g \<longrightarrow> grid_ok TIME_SLOTS g)
     \<and> booked (professor_schedule st) ((all_timetables st)(key \<mapsto> timetable st))
     \<and> no_clash ((all_timetables st)(key \<mapsto> timetable st))"

definition during_group :: "slot list \<Rightarrow> string \<Rightarrow> (string \<rightharpoonup> grid) \<Rightarrow> state \<Rightarrow> bool" where
  "during_group TIME_SLOTS key grids st \<longleftrightarrow>
     group_inv TIME_SLOTS key st \<and> all_timetables st = grids"

text \<open>A grid of the right shape in which no session starts: a new grid, with or without lunch.\<close>

definition lunch_only :: "slot list \<Rightarrow> grid \<Rightarrow> bool" where
  "lunch_only TIME_SLOTS g \<longleftrightarrow>
     grid_ok TIME_SLOTS g
     \<and> (\<forall>day < length DAYS. \<forall>s < length TIME_SLOTS. \<not> session_start (g ! day ! s))"

text \<open>The invariant of the loops that build the grids.\<close>

definition init_inv :: "slot list \<Rightarrow> state \<Rightarrow> bool" where
  "init_inv TIME_SLOTS st \<longleftrightarrow>
     professor_schedule st = Map.empty \<and> classroom_schedule st = Map.empty
     \<and> (\<forall>key g. all_timetables st key = Some g \<longrightarrow> lunch_only TIME_SLOTS g)"

text \<open>The timetable keys of a list of groups.\<close>

definition keys_of :: "course_group list \<Rightarrow> string set" where
  "keys_of groups = (\<lambda>entry. timetable_key (fst entry) (fst (snd entry))) ` set groups"

text \<open>Two departments with one lecture each, given by the same teacher.\<close>

definition two_departments :: "course_group list" where
  "two_departments =
     [(''CSE'', ''1'', [], [],
       [\<lparr> Course_Code = ''CS101'', Course_Name = ''Programming'', Faculty = ''Dr Rao'',
          Classroom = ''C101'', L = 1, T = 0, P = 0 \<rparr>]),
      (''ECE'', ''1'', [], [],
       [\<lparr> Course_Code = ''EC101'', Course_Name = ''Circuits'', Faculty = ''Dr Rao'',
          Classroom = ''E201'', L = 1, T = 0, P = 0 \<rparr>])]"

text \<open>
  The grid of the working day after the lunch placer drew the first candidate (12:30) on
  every day.
\<close>

definition lunch_grid :: grid where
  "lunch_grid =
     replicate 5 ((replicate 19 empty_cell)
                    [7 := lunch_cell 7 7 empty_cell, 8 := lunch_cell 7 8 empty_cell])"

text \<open>A state in which no request of a course has a fitting candidate.\<close>

definition never_fits :: "course \<Rightarrow> slot list \<Rightarrow> state \<Rightarrow> bool" where
  "never_fits course TIME_SLOTS st \<longleftrightarrow>
     (\<forall>session_type p. candidate TIME_SLOTS (session_duration session_type) p
        \<longrightarrow> \<not> fits course session_type TIME_SLOTS st p)"


definition failed_rows :: "string \<Rightarrow> string \<Rightarrow> course \<Rightarrow> string \<Rightarrow> nat \<Rightarrow> string list list" where
  "failed_rows department semester course label n =
     map (\<lambda>i. [department, semester, Course_Code course, Course_Name course,
               label @ str_nat (i + 1), Faculty course, Classroom course, STATUS_FAILED,
               ''N/A'']) [0..<n]"



section \<open>Proofs\<close>

subsection \<open>Loops, lookups and the feasibility check\<close>

lemma length_DAYS [simp]: "length DAYS = 5"
  by (simp add: DAYS_def)

lemma for_each_append:
  "for_each body (xs @ ys) s =
     (case for_each body xs s of Inl e \<Rightarrow> Inl e | Inr s' \<Rightarrow> for_each body ys s')"
  by (induction xs arbitrary: s) (auto split: sum.splits)

lemma all_pass_Inr:
  "(\<And>i. i \<in> set xs \<Longrightarrow> body i = Inr (p i)) \<Longrightarrow> all_pass body xs = Inr (\<forall>i\<in>set xs. p i)"
  by (induction xs) auto

lemma occupied_ok:
  "avail_ok schedule \<Longrightarrow> day < length DAYS \<Longrightarrow>
     occupied schedule who day s = Inr (s \<in> slots_of schedule who day)"
  by (auto simp: occupied_def slots_of_def avail_ok_def dict_get_def split: option.splits)

lemma check_slot_ok:
  "state_ok TIME_SLOTS st \<Longrightarrow> day < length DAYS \<Longrightarrow>
     check_slot faculty classroom day s TIME_SLOTS st
       = Inr (slot_free faculty classroom day s TIME_SLOTS st)"
  unfolding check_slot_def slot_free_def state_ok_def grid_ok_def
  by (simp add: occupied_ok dict_get_def)

lemma check_ok:
  "state_ok TIME_SLOTS st \<Longrightarrow> day < length DAYS \<Longrightarrow>
     check_scheduling_possibility faculty classroom day start_slot duration TIME_SLOTS st
       = Inr (feasible faculty classroom day start_slot duration TIME_SLOTS st)"
  unfolding check_scheduling_possibility_def feasible_def
  by (subst all_pass_Inr [where p = "\<lambda>i. slot_free faculty classroom day (start_slot + i) TIME_SLOTS st"])
     (auto simp: check_slot_ok)

lemma mark_occupied_ok:
  assumes "avail_ok schedule" "day < length DAYS"
  shows "\<exists>schedule'. mark_occupied schedule who day s = Inr schedule' \<and> avail_ok schedule'
           \<and> slots_added [who] day s 1 schedule schedule'"
  using assms
  by (auto simp: mark_occupied_def avail_ok_def slots_added_def slots_of_def Let_def
           split: option.splits)

lemma slots_added_trans_names:
  "slots_added [w] day s 1 a b \<Longrightarrow> slots_added ws day s 1 b c \<Longrightarrow> slots_added (w # ws) day s 1 a c"
  by (auto simp: slots_added_def)

lemma mark_all_ok:
  assumes "avail_ok schedule" "day < length DAYS"
  shows "\<exists>schedule'. for_each (\<lambda>w sch. mark_occupied sch w day s) ws schedule = Inr schedule'
           \<and> avail_ok schedule' \<and> slots_added ws day s 1 schedule schedule'"
  using assms
proof (induction ws arbitrary: schedule)
  case Nil
  then show ?case by (simp add: slots_added_def)
next
  case (Cons w ws)
  from mark_occupied_ok [OF Cons.prems, of w s]
  obtain b where b: "mark_occupied schedule w day s = Inr b" "avail_ok b"
    "slots_added [w] day s 1 schedule b" by blast
  from Cons.IH [OF b(2) Cons.prems(2)]
  obtain c where c: "for_each (\<lambda>w sch. mark_occupied sch w day s) ws b = Inr c" "avail_ok c"
    "slots_added ws day s 1 b c" by blast
  show ?case using b(1,2) c(1,2) slots_added_trans_names [OF b(3) c(3)] by simp
qed

text \<open>
  \<open>strip\<close> removes white space at both ends, also the no-break space (C2 A0) and the
  em space (E2 80 83), and keeps a letter whose encoding ends with the byte A0.
\<close>

lemma strip_spaces: "strip ''  Dr Rao  '' = ''Dr Rao''"
  by code_simp

lemma strip_keeps_letter:
  "strip (''A'' @ [CHR 0xC3, CHR 0xA0]) = ''A'' @ [CHR 0xC3, CHR 0xA0]"
  by code_simp

lemma strip_wide_spaces:
  "strip ([CHR 0xC2, CHR 0xA0] @ ''A'' @ [CHR 0xE2, CHR 0x80, CHR 0x83, CHR 0x0A]) = ''A''"
  by code_simp

subsection \<open>The commit\<close>

lemma slots_added_0: "slots_added names day s 0 a a"
  by (simp add: slots_added_def)

lemma slots_added_Suc:
  "slots_added names day s n a b \<Longrightarrow> slots_added names day (s + n) 1 b c
     \<Longrightarrow> slots_added names day s (Suc n) a c"
  by (auto simp: slots_added_def)

lemma update_slot_ok:
  assumes "state_ok TIME_SLOTS st" "day < length DAYS" "start_slot + i < length TIME_SLOTS"
  shows "\<exists>st'. update_slot faculty classroom day start_slot duration session_type code name i st
                  = Inr st'
           \<and> state_ok TIME_SLOTS st'
           \<and> slots_added (faculty_list faculty) day (start_slot + i) 1
                (professor_schedule st) (professor_schedule st')
           \<and> slots_added [classroom] day (start_slot + i) 1
                (classroom_schedule st) (classroom_schedule st')
           \<and> timetable st' = (timetable st)[day := (timetable st ! day)[start_slot + i :=
                session_cell faculty classroom duration session_type code name i
                  (timetable st ! day ! (start_slot + i))]]
           \<and> same_rest st st'"
proof -
  from assms have ps: "avail_ok (professor_schedule st)" and cs: "avail_ok (classroom_schedule st)"
    and g: "grid_ok TIME_SLOTS (timetable st)"
    by (simp_all add: state_ok_def)
  from mark_all_ok [OF ps assms(2), of "start_slot + i" "faculty_list faculty"]
  obtain ps' where ps': "for_each (\<lambda>w sch. mark_occupied sch w day (start_slot + i))
      (faculty_list faculty) (professor_schedule st) = Inr ps'" "avail_ok ps'"
    "slots_added (faculty_list faculty) day (start_slot + i) 1 (professor_schedule st) ps'"
    by blast
  from mark_occupied_ok [OF cs assms(2), of classroom "start_slot + i"]
  obtain cs' where cs': "mark_occupied (classroom_schedule st) classroom day (start_slot + i) = Inr cs'"
    "avail_ok cs'" "slots_added [classroom] day (start_slot + i) 1 (classroom_schedule st) cs'"
    by blast
  from g assms(2,3) have len: "day < length (timetable st)"
    "start_slot + i < length (timetable st ! day)"
    by (simp_all add: grid_ok_def)
  have g': "grid_ok TIME_SLOTS ((timetable st)[day := (timetable st ! day)[start_slot + i := c]])" for c
    using g assms(2) by (auto simp: grid_ok_def nth_list_update)
  show ?thesis
    using ps' cs' len g'
    by (simp add: update_slot_def dict_get_def state_ok_def same_rest_def)
qed

lemma block_written_0: "block_written faculty classroom day s duration session_type code name 0 g g"
  by (auto simp: block_written_def)

lemma block_written_Suc:
  assumes "block_written faculty classroom day s duration session_type code name n g g1"
    and "day < length g" and "s + n < length (g ! day)"
  shows "block_written faculty classroom day s duration session_type code name (Suc n) g
           (g1[day := (g1 ! day)[s + n :=
              session_cell faculty classroom duration session_type code name n
                (g1 ! day ! (s + n))]])"
  using assms
  by (auto simp: block_written_def nth_list_update)

lemma same_rest_refl: "same_rest st st"
  by (simp add: same_rest_def)

lemma same_rest_trans: "same_rest a b \<Longrightarrow> same_rest b c \<Longrightarrow> same_rest a c"
  by (simp add: same_rest_def)

lemma update_prefix_ok:
  assumes "state_ok TIME_SLOTS st" "day < length DAYS" "start_slot + n \<le> length TIME_SLOTS"
  shows "\<exists>st'. for_each (update_slot faculty classroom day start_slot duration session_type
                            code name) [0..<n] st = Inr st'
           \<and> state_ok TIME_SLOTS st'
           \<and> committed faculty classroom day start_slot duration session_type code name n st st'"
  using assms(3)
proof (induction n)
  case 0
  then show ?case
    using assms(1)
    by (simp add: committed_def block_written_0 slots_added_0 same_rest_refl)
next
  case (Suc n)
  then obtain st1 where st1:
    "for_each (update_slot faculty classroom day start_slot duration session_type code name)
       [0..<n] st = Inr st1"
    "state_ok TIME_SLOTS st1"
    "committed faculty classroom day start_slot duration session_type code name n st st1"
    by auto
  from Suc.prems have lt: "start_slot + n < length TIME_SLOTS" by simp
  from update_slot_ok [OF st1(2) assms(2) lt, of faculty classroom duration session_type code name]
  obtain st2 where st2:
    "update_slot faculty classroom day start_slot duration session_type code name n st1 = Inr st2"
    "state_ok TIME_SLOTS st2"
    "slots_added (faculty_list faculty) day (start_slot + n) 1
       (professor_schedule st1) (professor_schedule st2)"
    "slots_added [classroom] day (start_slot + n) 1
       (classroom_schedule st1) (classroom_schedule st2)"
    "timetable st2 = (timetable st1)[day := (timetable st1 ! day)[start_slot + n :=
       session_cell faculty classroom duration session_type code name n
         (timetable st1 ! day ! (start_slot + n))]]"
    "same_rest st1 st2"
    by blast
  from assms(1,2) lt have len: "day < length (timetable st)"
    "start_slot + n < length (timetable st ! day)"
    by (simp_all add: state_ok_def grid_ok_def)
  have "committed faculty classroom day start_slot duration session_type code name (Suc n) st st2"
    using st1(3) st2(3-6) block_written_Suc [OF _ len]
    by (auto simp: committed_def intro: slots_added_Suc same_rest_trans)
  then show ?case
    using st1(1) st2(1,2) by (simp add: for_each_append)
qed

lemma update_schedule_ok:
  assumes "state_ok TIME_SLOTS st" "day < length DAYS"
    "start_slot + duration \<le> length TIME_SLOTS"
  shows "\<exists>st'. update_schedule faculty classroom day start_slot duration session_type code name st
                  = Inr st'
           \<and> state_ok TIME_SLOTS st'
           \<and> committed faculty classroom day start_slot duration session_type code name
                duration st st'"
  unfolding update_schedule_def by (rule update_prefix_ok [OF assms])

subsection \<open>The two phases\<close>

lemma state_ok_cong:
  "timetable st' = timetable st \<Longrightarrow> professor_schedule st' = professor_schedule st
     \<Longrightarrow> classroom_schedule st' = classroom_schedule st
     \<Longrightarrow> state_ok TIME_SLOTS st' = state_ok TIME_SLOTS st"
  by (simp add: state_ok_def)

lemma feasible_cong:
  "timetable st' = timetable st \<Longrightarrow> professor_schedule st' = professor_schedule st
     \<Longrightarrow> classroom_schedule st' = classroom_schedule st
     \<Longrightarrow> feasible faculty classroom day start_slot duration TIME_SLOTS st'
         = feasible faculty classroom day start_slot duration TIME_SLOTS st"
  by (simp add: feasible_def slot_free_def)

lemma commit_ok:
  assumes "state_ok TIME_SLOTS st" "candidate TIME_SLOTS (session_duration session_type) (day, start_slot)"
  shows "\<exists>st1. update_schedule (Faculty course) (Classroom course) day start_slot
                  (session_duration session_type) session_type (Course_Code course)
                  (Course_Name course) st = Inr st1
           \<and> commit department semester course session_type day start_slot TIME_SLOTS st
               = Inr (st1\<lparr>summary_ws := summary_ws st @
                      [scheduled_row department semester course session_type day start_slot
                         TIME_SLOTS]\<rparr>)
           \<and> state_ok TIME_SLOTS st1
           \<and> committed (Faculty course) (Classroom course) day start_slot
                (session_duration session_type) session_type (Course_Code course)
                (Course_Name course) (session_duration session_type) st st1"
proof -
  from assms(2) have "day < length DAYS" "start_slot + session_duration session_type \<le> length TIME_SLOTS"
    by (simp_all add: candidate_def)
  from update_schedule_ok [OF assms(1) this]
  show ?thesis
    by (fastforce simp: commit_def committed_def same_rest_def)
qed

lemma find_append:
  "find Q (xs @ ys) = (case find Q xs of None \<Rightarrow> find Q ys | Some x \<Rightarrow> Some x)"
  by (induction xs) auto

lemma find_map_Pair:
  "find Q (map (Pair d) slots) = map_option (Pair d) (find (\<lambda>s. Q (d, s)) slots)"
  by (induction slots) auto

text \<open>The result of a scan that commits at the first candidate of a list that fits.\<close>

lemma phase1_slots_find:
  assumes "state_ok TIME_SLOTS st" "day < length DAYS"
  shows "phase1_slots department semester course session_type TIME_SLOTS day slots st =
           (case find (\<lambda>s. fits course session_type TIME_SLOTS st (day, s)) slots of
              None \<Rightarrow> Inr (False, st)
            | Some s \<Rightarrow>
                (case commit department semester course session_type day s TIME_SLOTS st of
                   Inl e \<Rightarrow> Inl e
                 | Inr st' \<Rightarrow> Inr (True, st')))"
  by (induction slots) (simp_all add: check_ok [OF assms] fits_def)

lemma phase1_days_find:
  assumes "state_ok TIME_SLOTS st" "\<forall>d \<in> set days. d < length DAYS"
    "\<forall>s \<in> set slots. s + session_duration session_type \<le> length TIME_SLOTS"
    "slots = py_range (int (length TIME_SLOTS) - int (session_duration session_type) + 1)"
  shows "phase1_days department semester course session_type TIME_SLOTS days st =
           (case find (fits course session_type TIME_SLOTS st) (List.product days slots) of
              None \<Rightarrow> Inr (False, st)
            | Some p \<Rightarrow>
                (case commit department semester course session_type (fst p) (snd p)
                        TIME_SLOTS st of
                   Inl e \<Rightarrow> Inl e
                 | Inr st' \<Rightarrow> Inr (True, st')))"
  using assms(2)
proof (induction days)
  case Nil
  then show ?case by simp
next
  case (Cons d ds)
  then have d: "d < length DAYS" by simp
  show ?case
  proof (cases "find (\<lambda>s. fits course session_type TIME_SLOTS st (d, s)) slots")
    case None
    then show ?thesis
      using Cons assms(4)
      by (simp add: phase1_slots_find [OF assms(1) d] find_append find_map_Pair)
  next
    case (Some s)
    then have "s \<in> set slots" by (auto simp: find_Some_iff)
    with assms(3) d have "candidate TIME_SLOTS (session_duration session_type) (d, s)"
      by (simp add: candidate_def)
    from commit_ok [OF assms(1) this, of course department semester]
    show ?thesis
      using Some assms(4)
      by (auto simp: phase1_slots_find [OF assms(1) d] find_append find_map_Pair)
  qed
qed

lemma randint_days:
  "randint 0 (int (length DAYS) - 1) st =
     Inr (int (random_source st (random_calls st) mod length DAYS),
          st\<lparr>random_calls := Suc (random_calls st)\<rparr>)"
  by (simp add: randint_def zmod_int)

lemma randint_slots:
  "duration \<le> length TIME_SLOTS \<Longrightarrow>
     randint 0 (int (length TIME_SLOTS) - int duration) st =
       Inr (int (random_source st (random_calls st) mod (length TIME_SLOTS - duration + 1)),
            st\<lparr>random_calls := Suc (random_calls st)\<rparr>)"
  by (simp add: randint_def zmod_int of_nat_diff add.commute)

lemma randint_empty:
  "length TIME_SLOTS < duration \<Longrightarrow>
     randint 0 (int (length TIME_SLOTS) - int duration) st = Inl ValueError"
  by (simp add: randint_def)

lemma fits_cong:
  "timetable st' = timetable st \<Longrightarrow> professor_schedule st' = professor_schedule st
     \<Longrightarrow> classroom_schedule st' = classroom_schedule st
     \<Longrightarrow> fits course session_type TIME_SLOTS st' = fits course session_type TIME_SLOTS st"
  by (rule ext) (simp add: fits_def feasible_def slot_free_def)

lemma phase2_done:
  "attempt_limit \<le> attempts \<Longrightarrow>
     phase2 department semester course session_type TIME_SLOTS attempts attempt_limit st
       = Inr (False, st)"
  by (subst phase2.simps) simp

lemma phase2_step:
  assumes "session_duration session_type \<le> length TIME_SLOTS" "state_ok TIME_SLOTS st"
    "attempts < attempt_limit"
  shows "phase2 department semester course session_type TIME_SLOTS attempts attempt_limit st =
      (if fits course session_type TIME_SLOTS st
            (trial TIME_SLOTS (session_duration session_type) st 0)
       then (case commit department semester course session_type
                    (fst (trial TIME_SLOTS (session_duration session_type) st 0))
                    (snd (trial TIME_SLOTS (session_duration session_type) st 0)) TIME_SLOTS
                    (st\<lparr>random_calls := Suc (Suc (random_calls st))\<rparr>) of
               Inl e \<Rightarrow> Inl e
             | Inr st' \<Rightarrow> Inr (True, st'))
       else phase2 department semester course session_type TIME_SLOTS (attempts + 1)
              attempt_limit (st\<lparr>random_calls := Suc (Suc (random_calls st))\<rparr>))"
proof -
  let ?d = "session_duration session_type"
  let ?st2 = "st\<lparr>random_calls := Suc (Suc (random_calls st))\<rparr>"
  have ok2: "state_ok TIME_SLOTS ?st2"
    using assms(2) by (simp add: state_ok_def)
  have day: "fst (trial TIME_SLOTS ?d st 0) < length DAYS"
    by (simp add: trial_def)
  have fc: "fits course session_type TIME_SLOTS ?st2 = fits course session_type TIME_SLOTS st"
    by (rule fits_cong) simp_all
  have chk: "check_scheduling_possibility (Faculty course) (Classroom course)
               (fst (trial TIME_SLOTS ?d st 0)) (snd (trial TIME_SLOTS ?d st 0)) ?d TIME_SLOTS ?st2
             = Inr (fits course session_type TIME_SLOTS st (trial TIME_SLOTS ?d st 0))"
    unfolding check_ok [OF ok2 day] fc [symmetric] by (simp only: fits_def)
  have r1: "randint 0 (int (length DAYS) - 1) st =
      Inr (int (fst (trial TIME_SLOTS ?d st 0)), st\<lparr>random_calls := Suc (random_calls st)\<rparr>)"
    unfolding randint_days by (simp add: trial_def)
  have r2: "randint 0 (int (length TIME_SLOTS) - int ?d) (st\<lparr>random_calls := Suc (random_calls st)\<rparr>) =
      Inr (int (snd (trial TIME_SLOTS ?d st 0)), ?st2)"
    unfolding randint_slots [OF assms(1)] by (simp add: trial_def)
  show ?thesis
    by (subst phase2.simps) (simp only: assms(3) r1 r2 chk if_True sum.case prod.case nat_int)
qed

lemma find_upt_Suc:
  "find Q [0..<Suc n] = (if Q 0 then Some 0 else map_option Suc (find (\<lambda>k. Q (Suc k)) [0..<n]))"
proof -
  have "[0..<Suc n] = 0 # map Suc [0..<n]"
    by (simp only: map_Suc_upt upt_conv_Cons [of 0 "Suc n"] zero_less_Suc)
  moreover have "find Q (map Suc xs) = map_option Suc (find (\<lambda>k. Q (Suc k)) xs)" for xs
    by (induction xs) auto
  ultimately show ?thesis by simp
qed

text \<open>
  Phase 2 commits at the first trial that fits, and otherwise ends with the budget used
  up and nothing but the random source advanced.
\<close>

lemma phase2_find:
  assumes "session_duration session_type \<le> length TIME_SLOTS"
  shows "state_ok TIME_SLOTS st \<Longrightarrow>
     phase2 department semester course session_type TIME_SLOTS attempts attempt_limit st =
       (case find (\<lambda>k. fits course session_type TIME_SLOTS st
                          (trial TIME_SLOTS (session_duration session_type) st k))
               [0..<attempt_limit - attempts] of
          None \<Rightarrow>
            Inr (False, st\<lparr>random_calls := random_calls st + 2 * (attempt_limit - attempts)\<rparr>)
        | Some k \<Rightarrow>
            (case commit department semester course session_type
                    (fst (trial TIME_SLOTS (session_duration session_type) st k))
                    (snd (trial TIME_SLOTS (session_duration session_type) st k)) TIME_SLOTS
                    (st\<lparr>random_calls := random_calls st + 2 * (k + 1)\<rparr>) of
               Inl e \<Rightarrow> Inl e
             | Inr st' \<Rightarrow> Inr (True, st')))"
proof (induction "attempt_limit - attempts" arbitrary: attempts st)
  case 0
  then have "attempt_limit \<le> attempts" by simp
  then show ?case by (simp add: phase2_done)
next
  case (Suc n)
  let ?d = "session_duration session_type"
  let ?st2 = "st\<lparr>random_calls := Suc (Suc (random_calls st))\<rparr>"
  from Suc.hyps(2) have lt: "attempts < attempt_limit" and n: "n = attempt_limit - (attempts + 1)"
    and diff: "attempt_limit - attempts = Suc n"
    by simp_all
  have ok2: "state_ok TIME_SLOTS ?st2"
    using Suc.prems by (simp add: state_ok_def)
  have fc: "fits course session_type TIME_SLOTS ?st2 = fits course session_type TIME_SLOTS st"
    by (rule fits_cong) simp_all
  have ts: "trial TIME_SLOTS ?d ?st2 k = trial TIME_SLOTS ?d st (Suc k)" for k
    by (simp add: trial_def)
  have IH: "phase2 department semester course session_type TIME_SLOTS (attempts + 1) attempt_limit ?st2 =
       (case find (\<lambda>k. fits course session_type TIME_SLOTS st (trial TIME_SLOTS ?d st (Suc k)))
               [0..<n] of
          None \<Rightarrow> Inr (False, st\<lparr>random_calls := random_calls st + 2 * Suc n\<rparr>)
        | Some k \<Rightarrow>
            (case commit department semester course session_type
                    (fst (trial TIME_SLOTS ?d st (Suc k)))
                    (snd (trial TIME_SLOTS ?d st (Suc k))) TIME_SLOTS
                    (st\<lparr>random_calls := random_calls st + 2 * (Suc k + 1)\<rparr>) of
               Inl e \<Rightarrow> Inl e
             | Inr st' \<Rightarrow> Inr (True, st')))"
    unfolding Suc.hyps(1) [OF n ok2] n [symmetric] fc ts
    by (simp split: option.splits)
  show ?case
    unfolding phase2_step [OF assms Suc.prems lt] diff find_upt_Suc IH
    by (simp split: option.splits)
qed

subsection \<open>The order of Phase 1\<close>

lemma day_load_ok:
  "grid_ok TIME_SLOTS g \<Longrightarrow> day_load g = Inr (map (load_of g) [0..<length DAYS])"
  by (simp add: day_load_def grid_ok_def load_of_def)

lemma insort_key_cong_set:
  "f x = h x \<Longrightarrow> (\<forall>y \<in> set xs. f y = h y) \<Longrightarrow> insort_key f x xs = insort_key h x xs"
  by (induction xs) auto

lemma sort_key_cong_set:
  "(\<forall>y \<in> set xs. f y = h y) \<Longrightarrow> sort_key f xs = sort_key h xs"
  by (induction xs) (auto intro: insort_key_cong_set)

lemma sorted_days_loads:
  "sorted_days (map (load_of g) [0..<n]) = sort_key (load_of g) [0..<n]"
  unfolding sorted_days_def by (simp add: sort_key_cong_set [of "[0..<n]" "(!) (map (load_of g) [0..<n])" "load_of g"])

text \<open>A stable sort of an increasing list orders it by key first and by element second.\<close>

lemma sorted_wrt_insort_key_lex:
  fixes f :: "nat \<Rightarrow> nat"
  assumes "sorted_wrt (\<lambda>a b. f a < f b \<or> (f a = f b \<and> a < b)) xs" "\<forall>y \<in> set xs. x < y"
  shows "sorted_wrt (\<lambda>a b. f a < f b \<or> (f a = f b \<and> a < b)) (insort_key f x xs)"
  using assms
proof (induction xs)
  case Nil
  then show ?case by simp
next
  case (Cons y ys)
  show ?case
  proof (cases "f x \<le> f y")
    case True
    have "f x < f z \<or> (f x = f z \<and> x < z)" if "z \<in> set (y # ys)" for z
    proof -
      have "f y \<le> f z" using that Cons.prems(1) by auto
      moreover have "x < z" using that Cons.prems(2) by auto
      ultimately show ?thesis using True by auto
    qed
    then show ?thesis using True Cons.prems(1) by auto
  next
    case False
    then show ?thesis using Cons by (auto simp: set_insort_key)
  qed
qed

lemma sorted_wrt_sort_key_lex:
  fixes f :: "nat \<Rightarrow> nat"
  assumes "sorted_wrt (<) xs"
  shows "sorted_wrt (\<lambda>a b. f a < f b \<or> (f a = f b \<and> a < b)) (sort_key f xs)"
  using assms
  by (induction xs) (auto intro: sorted_wrt_insort_key_lex)

lemma sorted_days_order:
  "sorted_wrt (day_before g) (sort_key (load_of g) [0..<n])"
proof -
  have "sorted_wrt (<) [0..<n]" by simp
  from sorted_wrt_sort_key_lex [OF this, of "load_of g"]
  show ?thesis by (simp add: day_before_def [abs_def])
qed

lemma earlier_pair:
  "earlier g (d1, s1) (d2, s2) \<longleftrightarrow> day_before g d1 d2 \<or> (d1 = d2 \<and> s1 < s2)"
  by (simp add: earlier_def)

lemma product_sorted:
  assumes "sorted_wrt (day_before g) days" "sorted_wrt (<) slots"
  shows "sorted_wrt (earlier g) (List.product days slots)"
  using assms(1)
proof (induction days)
  case Nil
  then show ?case by simp
next
  case (Cons d ds)
  have "sorted_wrt (earlier g) (map (Pair d) slots)"
    using assms(2) by (auto simp: sorted_wrt_map earlier_pair elim: sorted_wrt_mono_rel [rotated])
  then show ?case
    using Cons by (auto simp: sorted_wrt_append earlier_pair)
qed

lemma earlier_asym: "earlier g p q \<Longrightarrow> \<not> earlier g q p"
  by (auto simp: earlier_def day_before_def)

text \<open>In a list sorted by an asymmetric order, \<open>find\<close> returns the least element that passes.\<close>

lemma find_sorted_wrt:
  assumes "sorted_wrt R xs" "\<And>a b. R a b \<Longrightarrow> \<not> R b a"
  shows "find Q xs = Some x \<longleftrightarrow> x \<in> set xs \<and> Q x \<and> (\<forall>y \<in> set xs. R y x \<longrightarrow> \<not> Q y)"
proof
  assume "find Q xs = Some x"
  then obtain i where i: "i < length xs" "Q (xs ! i)" "x = xs ! i" "\<forall>j<i. \<not> Q (xs ! j)"
    by (auto simp: find_Some_iff)
  have "\<not> Q y" if "y \<in> set xs" "R y x" for y
  proof -
    from that(1) obtain j where j: "j < length xs" "y = xs ! j"
      by (auto simp: in_set_conv_nth)
    have "j < i"
    proof (rule ccontr)
      assume "\<not> j < i"
      then consider "j = i" | "i < j" by linarith
      then show False
      proof cases
        case 1
        then show ?thesis using that(2) j i(3) assms(2) by blast
      next
        case 2
        then have "R x y" using assms(1) i(1,3) j by (simp add: sorted_wrt_iff_nth_less)
        then show ?thesis using that(2) assms(2) by blast
      qed
    qed
    then show ?thesis using i(4) j(2) by simp
  qed
  then show "x \<in> set xs \<and> Q x \<and> (\<forall>y \<in> set xs. R y x \<longrightarrow> \<not> Q y)"
    using i by auto
next
  assume a: "x \<in> set xs \<and> Q x \<and> (\<forall>y \<in> set xs. R y x \<longrightarrow> \<not> Q y)"
  then obtain i where i: "i < length xs" "x = xs ! i"
    by (auto simp: in_set_conv_nth)
  have "\<not> Q (xs ! j)" if "j < i" for j
  proof -
    have "R (xs ! j) (xs ! i)" using assms(1) that i(1) by (simp add: sorted_wrt_iff_nth_less)
    then show ?thesis using a i that by auto
  qed
  then show "find Q xs = Some x"
    using a i by (auto simp: find_Some_iff)
qed

lemma set_candidates:
  "set (List.product (sort_key f [0..<length DAYS])
          (py_range (int (length TIME_SLOTS) - int duration + 1)))
     = {p. candidate TIME_SLOTS duration p}"
  by (auto simp: candidate_def py_range_def)

lemma phase1_first_fit:
  "find (fits course session_type TIME_SLOTS st)
     (List.product (sorted_days (map (load_of (timetable st)) [0..<length DAYS]))
        (py_range (int (length TIME_SLOTS) - int (session_duration session_type) + 1)))
     = Some p
   \<longleftrightarrow> first_fit course session_type TIME_SLOTS st p"
proof -
  have "sorted_wrt (<) (py_range (int (length TIME_SLOTS) - int (session_duration session_type) + 1))"
    by (simp add: py_range_def)
  from product_sorted [OF sorted_days_order this]
  have "sorted_wrt (earlier (timetable st))
          (List.product (sort_key (load_of (timetable st)) [0..<length DAYS])
             (py_range (int (length TIME_SLOTS) - int (session_duration session_type) + 1)))" .
  from find_sorted_wrt [OF this earlier_asym]
  show ?thesis
    unfolding sorted_days_loads set_candidates first_fit_def by auto
qed

lemma phase1_no_fit:
  "find (fits course session_type TIME_SLOTS st)
     (List.product (sorted_days (map (load_of (timetable st)) [0..<length DAYS]))
        (py_range (int (length TIME_SLOTS) - int (session_duration session_type) + 1)))
     = None
   \<longleftrightarrow> (\<forall>p. candidate TIME_SLOTS (session_duration session_type) p
              \<longrightarrow> \<not> fits course session_type TIME_SLOTS st p)"
  unfolding find_None_iff sorted_days_loads set_candidates by auto

lemma first_fit_cases:
  "(\<exists>p. first_fit course session_type TIME_SLOTS st p)
   \<or> (\<forall>p. candidate TIME_SLOTS (session_duration session_type) p
              \<longrightarrow> \<not> fits course session_type TIME_SLOTS st p)"
  using phase1_first_fit [of course session_type TIME_SLOTS st]
    phase1_no_fit [of course session_type TIME_SLOTS st]
  by (metis not_Some_eq)

lemma first_fit_unique:
  "first_fit course session_type TIME_SLOTS st p \<Longrightarrow> first_fit course session_type TIME_SLOTS st q
     \<Longrightarrow> p = q"
  using phase1_first_fit [of course session_type TIME_SLOTS st]
  by (metis option.inject)

lemma phase1_days_ok:
  assumes "state_ok TIME_SLOTS st"
  shows "phase1_days department semester course session_type TIME_SLOTS
           (sorted_days (map (load_of (timetable st)) [0..<length DAYS])) st =
         (case find (fits course session_type TIME_SLOTS st)
                 (List.product (sorted_days (map (load_of (timetable st)) [0..<length DAYS]))
                    (py_range (int (length TIME_SLOTS) - int (session_duration session_type) + 1))) of
            None \<Rightarrow> Inr (False, st)
          | Some p \<Rightarrow>
              (case commit department semester course session_type (fst p) (snd p)
                      TIME_SLOTS st of
                 Inl e \<Rightarrow> Inl e
               | Inr st' \<Rightarrow> Inr (True, st')))"
proof (rule phase1_days_find [OF assms])
  show "\<forall>d\<in>set (sorted_days (map (load_of (timetable st)) [0..<length DAYS])). d < length DAYS"
    by (simp add: sorted_days_def)
  show "\<forall>s\<in>set (py_range (int (length TIME_SLOTS) - int (session_duration session_type) + 1)).
          s + session_duration session_type \<le> length TIME_SLOTS"
    by (auto simp: py_range_def)
qed simp

text \<open>Phase 1 succeeds exactly at the first fitting candidate, without a random draw.\<close>

lemma schedule_session_first_fit:
  assumes "state_ok TIME_SLOTS st" "first_fit course session_type TIME_SLOTS st p"
  shows "\<exists>st'. commit department semester course session_type (fst p) (snd p) TIME_SLOTS st
                  = Inr st'
           \<and> schedule_session department semester course session_type TIME_SLOTS
                attempt_limit st = Inr (True, st')"
proof -
  from assms(1) have g: "grid_ok TIME_SLOTS (timetable st)" by (simp add: state_ok_def)
  from assms(2) have c: "candidate TIME_SLOTS (session_duration session_type) (fst p, snd p)"
    by (simp add: first_fit_def)
  from commit_ok [OF assms(1) c, of course department semester]
  obtain st' where st': "commit department semester course session_type (fst p) (snd p)
      TIME_SLOTS st = Inr st'" by blast
  from assms(2) have f: "find (fits course session_type TIME_SLOTS st)
     (List.product (sorted_days (map (load_of (timetable st)) [0..<length DAYS]))
        (py_range (int (length TIME_SLOTS) - int (session_duration session_type) + 1))) = Some p"
    by (rule iffD2 [OF phase1_first_fit])
  show ?thesis
    unfolding schedule_session_def day_load_ok [OF g] sum.case phase1_days_ok [OF assms(1)] f
    using st' by simp
qed

text \<open>
  When no candidate fits, Phase 2 cannot succeed either: the outcome is a failure after
  the whole budget, with the grid and the availability untouched.
\<close>

lemma trial_candidate:
  assumes "duration \<le> length TIME_SLOTS"
  shows "candidate TIME_SLOTS duration (trial TIME_SLOTS duration st k)"
proof -
  have "random_source st (Suc (random_calls st + 2 * k)) mod Suc (length TIME_SLOTS - duration)
          \<le> length TIME_SLOTS - duration"
    by (rule mod_Suc_le_divisor)
  then have "random_source st (Suc (random_calls st + 2 * k)) mod Suc (length TIME_SLOTS - duration)
          + duration \<le> length TIME_SLOTS"
    using assms by linarith
  then show ?thesis by (simp add: candidate_def trial_def)
qed

lemma schedule_session_no_fit:
  assumes "state_ok TIME_SLOTS st" "session_duration session_type \<le> length TIME_SLOTS"
    "\<forall>p. candidate TIME_SLOTS (session_duration session_type) p
           \<longrightarrow> \<not> fits course session_type TIME_SLOTS st p"
  shows "schedule_session department semester course session_type TIME_SLOTS attempt_limit st
           = Inr (False, st\<lparr>random_calls := random_calls st + 2 * attempt_limit,
                           summary_ws := summary_ws st @
                             [failed_row department semester course session_type]\<rparr>)"
proof -
  from assms(1) have g: "grid_ok TIME_SLOTS (timetable st)" by (simp add: state_ok_def)
  from assms(3) have f: "find (fits course session_type TIME_SLOTS st)
     (List.product (sorted_days (map (load_of (timetable st)) [0..<length DAYS]))
        (py_range (int (length TIME_SLOTS) - int (session_duration session_type) + 1))) = None"
    by (rule iffD2 [OF phase1_no_fit])
  have t: "find (\<lambda>k. fits course session_type TIME_SLOTS st
                       (trial TIME_SLOTS (session_duration session_type) st k))
             [0..<attempt_limit - 0] = None"
    unfolding find_None_iff using assms(3) trial_candidate [OF assms(2)] by blast
  show ?thesis
    unfolding schedule_session_def day_load_ok [OF g] sum.case phase1_days_ok [OF assms(1)] f
      option.case prod.case if_False phase2_find [OF assms(2,1)] t
    by simp
qed

subsection \<open>Values of the constants\<close>

lemma generate_time_slots_eq:
  "generate_time_slots =
     [(540, 570), (570, 600), (600, 630), (630, 660), (660, 690), (690, 720), (720, 750),
      (750, 780), (780, 810), (810, 840), (840, 870), (870, 900), (900, 930), (930, 960),
      (960, 990), (990, 1020), (1020, 1050), (1050, 1080), (1080, 1110)]"
  by (simp add: generate_time_slots_def START_TIME_def END_TIME_def time_def slots_loop.simps)

lemma session_duration_LEC: "session_duration ''LEC 1'' = 3" "session_duration ''LEC 2'' = 3"
  by (simp_all add: session_duration_def LECTURE_DURATION_def sublist_code)


subsection \<open>Outcomes of a request\<close>

lemma commit_effect:
  assumes "state_ok TIME_SLOTS st" "candidate TIME_SLOTS (session_duration session_type) (day, start_slot)"
  shows "\<exists>st'. commit department semester course session_type day start_slot TIME_SLOTS st = Inr st'
           \<and> state_ok TIME_SLOTS st'
           \<and> block_written (Faculty course) (Classroom course) day start_slot
                (session_duration session_type) session_type (Course_Code course)
                (Course_Name course) (session_duration session_type)
                (timetable st) (timetable st')
           \<and> slots_added (faculty_list (Faculty course)) day start_slot
                (session_duration session_type) (professor_schedule st) (professor_schedule st')
           \<and> slots_added [Classroom course] day start_slot
                (session_duration session_type) (classroom_schedule st) (classroom_schedule st')
           \<and> summary_ws st' = summary_ws st @
                [scheduled_row department semester course session_type day start_slot TIME_SLOTS]
           \<and> random_calls st' = random_calls st \<and> random_source st' = random_source st
           \<and> all_timetables st' = all_timetables st
           \<and> total_courses st' = total_courses st
           \<and> scheduled_courses st' = scheduled_courses st
           \<and> failed_courses st' = failed_courses st"
proof -
  from commit_ok [OF assms, of course department semester]
  obtain st1 where st1:
    "commit department semester course session_type day start_slot TIME_SLOTS st
       = Inr (st1\<lparr>summary_ws := summary_ws st @
                [scheduled_row department semester course session_type day start_slot
                   TIME_SLOTS]\<rparr>)"
    "state_ok TIME_SLOTS st1"
    "committed (Faculty course) (Classroom course) day start_slot
       (session_duration session_type) session_type (Course_Code course)
       (Course_Name course) (session_duration session_type) st st1"
    by blast
  show ?thesis
    using st1 by (simp add: committed_def same_rest_def state_ok_def)
qed

lemma no_candidate_too_long:
  "length TIME_SLOTS < duration \<Longrightarrow> \<not> candidate TIME_SLOTS duration p"
  by (simp add: candidate_def)

lemma phase2_raises:
  assumes "length TIME_SLOTS < session_duration session_type" "attempts < attempt_limit"
  shows "phase2 department semester course session_type TIME_SLOTS attempts attempt_limit st
           = Inl ValueError"
  by (subst phase2.simps)
     (simp only: assms(2) if_True randint_days randint_empty [OF assms(1)] sum.case prod.case)

text \<open>
  A request longer than the calendar has no candidate; with a positive budget the first
  random draw of a start slot raises.
\<close>

lemma schedule_session_too_long:
  assumes "state_ok TIME_SLOTS st" "length TIME_SLOTS < session_duration session_type"
  shows "schedule_session department semester course session_type TIME_SLOTS attempt_limit st
           = (if attempt_limit = 0
              then Inr (False, st\<lparr>summary_ws := summary_ws st @
                                    [failed_row department semester course session_type]\<rparr>)
              else Inl ValueError)"
proof -
  from assms(1) have g: "grid_ok TIME_SLOTS (timetable st)" by (simp add: state_ok_def)
  have "\<forall>p. candidate TIME_SLOTS (session_duration session_type) p
           \<longrightarrow> \<not> fits course session_type TIME_SLOTS st p"
    using no_candidate_too_long [OF assms(2)] by blast
  then have f: "find (fits course session_type TIME_SLOTS st)
     (List.product (sorted_days (map (load_of (timetable st)) [0..<length DAYS]))
        (py_range (int (length TIME_SLOTS) - int (session_duration session_type) + 1))) = None"
    by (rule iffD2 [OF phase1_no_fit])
  show ?thesis
  proof (cases "attempt_limit = 0")
    case True
    show ?thesis
      unfolding schedule_session_def day_load_ok [OF g] sum.case phase1_days_ok [OF assms(1)] f
        option.case prod.case if_False
      using True by (simp add: phase2_done)
  next
    case False
    then have "0 < attempt_limit" by simp
    from phase2_raises [OF assms(2) this]
    show ?thesis
      unfolding schedule_session_def day_load_ok [OF g] sum.case phase1_days_ok [OF assms(1)] f
        option.case prod.case if_False
      using False by simp
  qed
qed

subsection \<open>Example states\<close>

lemma new_timetable_ok: "grid_ok TIME_SLOTS (new_timetable TIME_SLOTS)"
  by (simp add: grid_ok_def new_timetable_def)

lemma new_timetable_cell:
  "day < length DAYS \<Longrightarrow> s < length TIME_SLOTS \<Longrightarrow> new_timetable TIME_SLOTS ! day ! s = empty_cell"
  by (simp add: new_timetable_def)

lemma avail_ok_empty: "avail_ok Map.empty"
  by (simp add: avail_ok_def)

lemma slots_of_empty: "slots_of Map.empty who day = {}"
  by (simp add: slots_of_def)

lemma fresh_state_ok: "state_ok TIME_SLOTS (fresh_state TIME_SLOTS)"
  by (simp add: state_ok_def fresh_state_def initial_state_def new_timetable_ok avail_ok_empty)

lemma session_duration_LAB: "session_duration ''LAB'' = 4"
  by (simp add: session_duration_def LAB_DURATION_def)

lemma length_morning_slots: "length morning_slots = 4"
  by (simp add: morning_slots_def)

lemma morning_break_last: "is_morning_break (morning_slots ! 3)"
  by (simp add: morning_slots_def is_morning_break_def time_def)

lemma morning_no_break:
  "i < 3 \<Longrightarrow> \<not> is_morning_break (morning_slots ! i)"
  by (auto simp: morning_slots_def is_morning_break_def time_def nth_Cons split: nat.splits)

lemma lab_never_fits_morning:
  "\<not> (\<exists>p. candidate morning_slots (session_duration ''LAB'') p
          \<and> fits example_course ''LAB'' morning_slots (fresh_state morning_slots) p)"
proof
  assume "\<exists>p. candidate morning_slots (session_duration ''LAB'') p
          \<and> fits example_course ''LAB'' morning_slots (fresh_state morning_slots) p"
  then obtain p where c: "candidate morning_slots (session_duration ''LAB'') p"
    and f: "fits example_course ''LAB'' morning_slots (fresh_state morning_slots) p"
    by blast
  from c have s: "snd p = 0"
    by (simp add: candidate_def session_duration_LAB length_morning_slots)
  from f have "slot_free (Faculty example_course) (Classroom example_course) (fst p)
      (snd p + 3) morning_slots (fresh_state morning_slots)"
    unfolding fits_def feasible_def session_duration_LAB by simp
  then show False
    using morning_break_last by (simp add: slot_free_def s)
qed

lemma lecture_fits_morning:
  "fits example_course ''LEC 1'' morning_slots (fresh_state morning_slots) (0, 0)"
  by (auto simp: fits_def feasible_def slot_free_def session_duration_LEC length_morning_slots
        morning_no_break fresh_state_def initial_state_def new_timetable_cell empty_cell_def
        slots_of_empty)

subsection \<open>The first two lectures of an empty week\<close>

lemma length_generate_time_slots: "length generate_time_slots = 19"
  by (simp add: generate_time_slots_eq)

lemma first_slots_no_break: "i < 3 \<Longrightarrow> \<not> is_morning_break (generate_time_slots ! i)"
  by (auto simp: generate_time_slots_eq is_morning_break_def time_def nth_Cons split: nat.splits)

lemma load_of_new_timetable: "day < length DAYS \<Longrightarrow> load_of (new_timetable TIME_SLOTS) day = 0"
  by (simp add: load_of_def new_timetable_def empty_cell_def)

lemma state_ok_empty:
  assumes "professor_schedule st = Map.empty" "classroom_schedule st = Map.empty"
    "timetable st = new_timetable TIME_SLOTS"
  shows "state_ok TIME_SLOTS st"
  using assms by (simp add: state_ok_def new_timetable_ok avail_ok_empty)

lemma first_lecture_first_fit:
  assumes "professor_schedule st = Map.empty" "classroom_schedule st = Map.empty"
    "timetable st = new_timetable generate_time_slots"
  shows "first_fit course ''LEC 1'' generate_time_slots st (0, 0)"
proof -
  have "fits course ''LEC 1'' generate_time_slots st (0, 0)"
    using assms
    by (auto simp: fits_def feasible_def slot_free_def session_duration_LEC
          length_generate_time_slots first_slots_no_break new_timetable_cell empty_cell_def
          slots_of_empty)
  moreover have "\<not> earlier (timetable st) q (0, 0)"
    if "candidate generate_time_slots (session_duration ''LEC 1'') q" for q
    using that assms(3)
    by (simp add: earlier_def day_before_def candidate_def load_of_new_timetable)
  ultimately show ?thesis
    by (auto simp: first_fit_def candidate_def session_duration_LEC length_generate_time_slots)
qed

lemma second_lecture_first_fit:
  assumes "professor_schedule st = Map.empty" "classroom_schedule st = Map.empty"
    "timetable st = new_timetable generate_time_slots"
    "commit department semester course ''LEC 1'' 0 0 generate_time_slots st = Inr st1"
  shows "state_ok generate_time_slots st1 \<and> first_fit course ''LEC 2'' generate_time_slots st1 (1, 0)"
proof -
  have ok: "state_ok generate_time_slots st" by (rule state_ok_empty [OF assms(1-3)])
  have c: "candidate generate_time_slots (session_duration ''LEC 1'') (0, 0)"
    by (simp add: candidate_def session_duration_LEC length_generate_time_slots)
  from commit_effect [OF ok c, of department semester course] assms(4)
  have ok1: "state_ok generate_time_slots st1"
    and bw: "block_written (Faculty course) (Classroom course) 0 0 3 ''LEC 1''
               (Course_Code course) (Course_Name course) 3 (timetable st) (timetable st1)"
    and ps: "slots_added (faculty_list (Faculty course)) 0 0 3
               (professor_schedule st) (professor_schedule st1)"
    and cs: "slots_added [Classroom course] 0 0 3
               (classroom_schedule st) (classroom_schedule st1)"
    by (auto simp: session_duration_LEC)
  have len: "length (timetable st) = 5" "\<And>d. d < 5 \<Longrightarrow> length (timetable st ! d) = 19"
    using ok by (simp_all add: state_ok_def grid_ok_def length_generate_time_slots)
  have tue: "timetable st1 ! d ! s = empty_cell" if "0 < d" "d < 5" "s < 19" for d s
    using bw that len assms(3)
    by (simp add: block_written_def new_timetable_cell length_generate_time_slots)
  have mon: "cell_type (timetable st1 ! 0 ! 0) \<noteq> None"
    using bw len by (simp add: block_written_def session_cell_def)
  have len1: "length (timetable st1 ! d) = 19" if "d < 5" for d
    using bw len that by (simp add: block_written_def)
  have load_tue: "load_of (timetable st1) d = 0" if "0 < d" "d < 5" for d
  proof -
    have "\<forall>c \<in> set (timetable st1 ! d). cell_type c = None"
      using tue [OF that] len1 [OF that(2)]
      by (auto simp: in_set_conv_nth empty_cell_def)
    then show ?thesis by (simp add: load_of_def)
  qed
  have load_mon: "0 < load_of (timetable st1) 0"
  proof -
    have "timetable st1 ! 0 ! 0 \<in> set (timetable st1 ! 0)"
      using len1 [of 0] by simp
    with mon show ?thesis
      by (auto simp: load_of_def filter_empty_conv)
  qed
  have "fits course ''LEC 2'' generate_time_slots st1 (1, 0)"
    using ps cs assms(1,2) tue
    by (auto simp: fits_def feasible_def slot_free_def session_duration_LEC
          length_generate_time_slots first_slots_no_break empty_cell_def
          slots_of_empty slots_added_def)
  moreover have "\<not> earlier (timetable st1) q (1, 0)"
    if "candidate generate_time_slots (session_duration ''LEC 2'') q" for q
  proof -
    from that have d: "fst q < 5" by (simp add: candidate_def)
    show ?thesis
    proof (cases "fst q = 0")
      case True
      then show ?thesis
        using load_mon load_tue [of 1] by (simp add: earlier_def day_before_def)
    next
      case False
      with d show ?thesis
        using load_tue [of "fst q"] load_tue [of 1] by (simp add: earlier_def day_before_def)
    qed
  qed
  ultimately have "first_fit course ''LEC 2'' generate_time_slots st1 (1, 0)"
    by (auto simp: first_fit_def candidate_def session_duration_LEC length_generate_time_slots)
  with ok1 show ?thesis by simp
qed

subsection \<open>Lectures of a course\<close>

lemma str_nat_1_2: "str_nat 1 = ''1''" "str_nat 2 = ''2''"
  by (simp_all add: str_nat.simps digit_def)

lemma str_nat_Suc_0: "str_nat (Suc 0) = ''1''" "str_nat (Suc (Suc 0)) = ''2''"
  using str_nat_1_2 by (simp_all add: numeral_2_eq_2)

lemma sublist_LEC: "sublist ''LEC'' (''LEC '' @ x)"
proof -
  have "''LEC '' @ x = [] @ ''LEC'' @ ('' '' @ x)" by simp
  then show ?thesis unfolding sublist_def by blast
qed

lemma session_duration_lecture: "session_duration (''LEC '' @ x) = LECTURE_DURATION"
  using sublist_LEC [of x] by (simp add: session_duration_def)

lemma session_duration_le: "session_duration session_type \<le> 4"
  by (simp add: session_duration_def LAB_DURATION_def LECTURE_DURATION_def TUTORIAL_DURATION_def)

text \<open>On a well-formed state a request that fits the calendar returns and adds one row.\<close>

lemma schedule_session_total:
  assumes "state_ok TIME_SLOTS st" "session_duration session_type \<le> length TIME_SLOTS"
  shows "\<exists>scheduled st' row.
           schedule_session department semester course session_type TIME_SLOTS attempt_limit st
             = Inr (scheduled, st')
           \<and> state_ok TIME_SLOTS st'
           \<and> summary_ws st' = summary_ws st @ [row] \<and> row ! 4 = session_type
           \<and> all_timetables st' = all_timetables st"
  using first_fit_cases [of course session_type TIME_SLOTS st]
proof
  assume "\<exists>p. first_fit course session_type TIME_SLOTS st p"
  then obtain p where p: "first_fit course session_type TIME_SLOTS st p" ..
  then have c: "candidate TIME_SLOTS (session_duration session_type) (fst p, snd p)"
    by (simp add: first_fit_def)
  from schedule_session_first_fit [OF assms(1) p, of department semester attempt_limit]
  obtain st' where st': "commit department semester course session_type (fst p) (snd p)
      TIME_SLOTS st = Inr st'"
    "schedule_session department semester course session_type TIME_SLOTS attempt_limit st
       = Inr (True, st')"
    by blast
  from commit_effect [OF assms(1) c, of department semester course] st'(1)
  have "state_ok TIME_SLOTS st'"
    "summary_ws st' = summary_ws st @
       [scheduled_row department semester course session_type (fst p) (snd p) TIME_SLOTS]"
    "all_timetables st' = all_timetables st"
    by auto
  moreover have "scheduled_row department semester course session_type (fst p) (snd p)
      TIME_SLOTS ! 4 = session_type"
    by (simp add: scheduled_row_def)
  ultimately show ?thesis using st'(2) by blast
next
  assume n: "\<forall>p. candidate TIME_SLOTS (session_duration session_type) p
                \<longrightarrow> \<not> fits course session_type TIME_SLOTS st p"
  let ?st' = "st\<lparr>random_calls := random_calls st + 2 * attempt_limit,
                  summary_ws := summary_ws st @
                    [failed_row department semester course session_type]\<rparr>"
  have "state_ok TIME_SLOTS ?st'" using assms(1) by (simp add: state_ok_def)
  moreover have "summary_ws ?st' = summary_ws st @ [failed_row department semester course session_type]"
    by simp
  moreover have "failed_row department semester course session_type ! 4 = session_type"
    by (simp add: failed_row_def)
  moreover have "all_timetables ?st' = all_timetables st" by simp
  ultimately show ?thesis
    using schedule_session_no_fit [OF assms n, of department semester attempt_limit] by blast
qed

lemma lecture_loop_rows:
  assumes "LECTURE_DURATION \<le> length TIME_SLOTS"
  shows "state_ok TIME_SLOTS st \<Longrightarrow>
         \<exists>total_scheduled failed st' rows.
           lecture_loop department semester course TIME_SLOTS attempt_limit idxs (t0, f0) st
             = Inr ((total_scheduled, failed), st')
           \<and> state_ok TIME_SLOTS st'
           \<and> total_scheduled + failed = t0 + f0 + length idxs
           \<and> summary_ws st' = summary_ws st @ rows
           \<and> map (\<lambda>row. row ! 4) rows = map (\<lambda>i. ''LEC '' @ str_nat (i + 1)) idxs
           \<and> all_timetables st' = all_timetables st"
proof (induction idxs arbitrary: t0 f0 st)
  case Nil
  then show ?case by simp
next
  case (Cons i idxs)
  have d: "session_duration (''LEC '' @ str_nat (i + 1)) \<le> length TIME_SLOTS"
    unfolding session_duration_lecture by (rule assms)
  from schedule_session_total [OF Cons.prems d, of department semester course attempt_limit]
  obtain scheduled st1 row where s:
    "schedule_session department semester course (''LEC '' @ str_nat (i + 1)) TIME_SLOTS
       attempt_limit st = Inr (scheduled, st1)"
    "state_ok TIME_SLOTS st1" "summary_ws st1 = summary_ws st @ [row]"
    "row ! 4 = ''LEC '' @ str_nat (i + 1)" "all_timetables st1 = all_timetables st"
    by blast
  from Cons.IH [OF s(2), of "if scheduled then t0 + 1 else t0" "if scheduled then f0 else f0 + 1"]
  obtain total_scheduled failed st' rows where r:
    "lecture_loop department semester course TIME_SLOTS attempt_limit idxs
       (if scheduled then t0 + 1 else t0, if scheduled then f0 else f0 + 1) st1
       = Inr ((total_scheduled, failed), st')"
    "state_ok TIME_SLOTS st'"
    "total_scheduled + failed
       = (if scheduled then t0 + 1 else t0) + (if scheduled then f0 else f0 + 1) + length idxs"
    "summary_ws st' = summary_ws st1 @ rows"
    "map (\<lambda>row. row ! 4) rows = map (\<lambda>i. ''LEC '' @ str_nat (i + 1)) idxs"
    "all_timetables st' = all_timetables st1"
    by blast
  have "lecture_loop department semester course TIME_SLOTS attempt_limit (i # idxs) (t0, f0) st
          = Inr ((total_scheduled, failed), st')"
    using s(1) r(1) by (simp split: if_splits)
  moreover have "total_scheduled + failed = t0 + f0 + length (i # idxs)"
    using r(3) by (simp split: if_splits)
  moreover have "summary_ws st' = summary_ws st @ (row # rows)"
    using s(3) r(4) by simp
  moreover have "map (\<lambda>row. row ! 4) (row # rows)
                   = map (\<lambda>i. ''LEC '' @ str_nat (i + 1)) (i # idxs)"
    using s(4) r(5) by simp
  moreover have "all_timetables st' = all_timetables st" using s(5) r(6) by simp
  ultimately show ?case using r(2) by blast
qed

subsection \<open>Attempt budgets\<close>



lemma state_ok_counters [simp]:
  "state_ok TIME_SLOTS (st\<lparr>total_courses := a\<rparr>) = state_ok TIME_SLOTS st"
  "state_ok TIME_SLOTS (st\<lparr>scheduled_courses := b\<rparr>) = state_ok TIME_SLOTS st"
  "state_ok TIME_SLOTS (st\<lparr>failed_courses := c\<rparr>) = state_ok TIME_SLOTS st"
  "state_ok TIME_SLOTS (st\<lparr>random_calls := n\<rparr>) = state_ok TIME_SLOTS st"
  "state_ok TIME_SLOTS (st\<lparr>summary_ws := w\<rparr>) = state_ok TIME_SLOTS st"
  "state_ok TIME_SLOTS (st\<lparr>all_timetables := m\<rparr>) = state_ok TIME_SLOTS st"
  by (simp_all add: state_ok_def)

lemma fits_counters [simp]:
  "fits course session_type TIME_SLOTS (st\<lparr>total_courses := a\<rparr>) p
     = fits course session_type TIME_SLOTS st p"
  "fits course session_type TIME_SLOTS (st\<lparr>scheduled_courses := b\<rparr>) p
     = fits course session_type TIME_SLOTS st p"
  "fits course session_type TIME_SLOTS (st\<lparr>failed_courses := c\<rparr>) p
     = fits course session_type TIME_SLOTS st p"
  "fits course session_type TIME_SLOTS (st\<lparr>random_calls := n\<rparr>) p
     = fits course session_type TIME_SLOTS st p"
  "fits course session_type TIME_SLOTS (st\<lparr>summary_ws := w\<rparr>) p
     = fits course session_type TIME_SLOTS st p"
  "fits course session_type TIME_SLOTS (st\<lparr>all_timetables := m\<rparr>) p
     = fits course session_type TIME_SLOTS st p"
  by (simp_all add: fits_def feasible_def slot_free_def)


subsection \<open>The lunch placer on the working day\<close>

lemma lunch_start_indices_real: "lunch_start_indices generate_time_slots = [7, 8, 9]"
  by (simp add: lunch_start_indices_def generate_time_slots_eq time_def upt_rec)

subsection \<open>Sessions in the grids\<close>

lemma slots_added_mono:
  "slots_added names day start_slot n schedule schedule'
     \<Longrightarrow> slots_of schedule who d \<subseteq> slots_of schedule' who d"
  by (auto simp: slots_added_def)

lemma slots_added_single:
  "slots_added (faculty_list faculty) day start_slot n schedule schedule'
     \<Longrightarrow> \<not> faculty_flexible faculty
     \<Longrightarrow> {start_slot..<start_slot + n} \<subseteq> slots_of schedule' faculty day"
  by (auto simp: slots_added_def faculty_list_def faculty_flexible_def)

lemma block_written_dims:
  assumes "block_written faculty classroom day start_slot duration session_type code name n g g'"
    and "d < length g'" and "s < length (g' ! d)"
  shows "d < length g \<and> s < length (g ! d)"
  using assms by (auto simp: block_written_def)

text \<open>
  After a block was written over empty cells, a session starts either at the start of the
  block, with the faculty and the duration of the request, or where one started before.
\<close>

lemma session_start_after_block:
  assumes bw: "block_written faculty classroom day start_slot duration session_type code name
                 duration g g'"
    and empty: "\<forall>i<duration. cell_type (g ! day ! (start_slot + i)) = None"
    and d: "d < length g'" and s: "s < length (g' ! d)"
    and ss: "session_start (g' ! d ! s)"
  shows "(d = day \<and> s = start_slot
           \<and> cell_faculty (g' ! d ! s) = faculty \<and> cell_duration (g' ! d ! s) = duration)
         \<or> (\<not> (d = day \<and> start_slot \<le> s \<and> s < start_slot + duration)
             \<and> g' ! d ! s = g ! d ! s \<and> session_start (g ! d ! s))"
proof -
  from bw d have d': "d < length g" and len: "length (g' ! d) = length (g ! d)"
    by (simp_all add: block_written_def)
  with s have s': "s < length (g ! d)" by simp
  from bw d' s' have cell: "g' ! d ! s =
      (if d = day \<and> start_slot \<le> s \<and> s < start_slot + duration
       then session_cell faculty classroom duration session_type code name (s - start_slot)
              (g ! d ! s)
       else g ! d ! s)"
    by (simp add: block_written_def)
  show ?thesis
  proof (cases "d = day \<and> start_slot \<le> s \<and> s < start_slot + duration")
    case True
    with cell ss have "s - start_slot = 0"
      by (simp add: session_start_def session_cell_def)
    with True have "s = start_slot" by simp
    with True cell show ?thesis by (simp add: session_cell_def)
  next
    case False
    with cell ss show ?thesis by simp
  qed
qed

lemma commit_keeps_booked:
  assumes b: "booked schedule (grids(key \<mapsto> g))"
    and bw: "block_written faculty classroom day start_slot duration session_type code name
               duration g g'"
    and empty: "\<forall>i<duration. cell_type (g ! day ! (start_slot + i)) = None"
    and sa: "slots_added (faculty_list faculty) day start_slot duration schedule schedule'"
  shows "booked schedule' (grids(key \<mapsto> g'))"
  unfolding booked_def
proof (intro allI impI)
  fix k h d s
  assume a: "(grids(key \<mapsto> g')) k = Some h \<and> d < length h \<and> s < length (h ! d)
        \<and> session_start (h ! d ! s) \<and> \<not> faculty_flexible (cell_faculty (h ! d ! s))"
  show "{s..<s + cell_duration (h ! d ! s)} \<subseteq> slots_of schedule' (cell_faculty (h ! d ! s)) d"
  proof (cases "k = key")
    case True
    with a have h: "h = g'" by simp
    from session_start_after_block [OF bw empty, of d s] a h
    consider (new) "d = day" "s = start_slot" "cell_faculty (g' ! d ! s) = faculty"
        "cell_duration (g' ! d ! s) = duration"
      | (old) "g' ! d ! s = g ! d ! s" "session_start (g ! d ! s)"
      by auto
    then show ?thesis
    proof cases
      case new
      with a h slots_added_single [OF sa] show ?thesis by simp
    next
      case old
      from block_written_dims [OF bw, of d s] a h have "d < length g" "s < length (g ! d)"
        by simp_all
      with b old a h have "{s..<s + cell_duration (g ! d ! s)}
          \<subseteq> slots_of schedule (cell_faculty (g ! d ! s)) d"
        unfolding booked_def by (metis fun_upd_same)
      with old h slots_added_mono [OF sa] show ?thesis by auto
    qed
  next
    case False
    with a have "(grids(key \<mapsto> g)) k = Some h" by simp
    with b a have "{s..<s + cell_duration (h ! d ! s)}
        \<subseteq> slots_of schedule (cell_faculty (h ! d ! s)) d"
      unfolding booked_def by blast
    with slots_added_mono [OF sa] show ?thesis by auto
  qed
qed

lemma session_origin:
  assumes bw: "block_written faculty classroom day start_slot duration session_type code name
                 duration g g'"
    and empty: "\<forall>i<duration. cell_type (g ! day ! (start_slot + i)) = None"
    and k: "(grids(key \<mapsto> g')) k = Some h" and d: "d < length h" and s: "s < length (h ! d)"
    and ss: "session_start (h ! d ! s)"
  shows "(k = key \<and> d = day \<and> s = start_slot
           \<and> cell_faculty (h ! d ! s) = faculty \<and> cell_duration (h ! d ! s) = duration)
         \<or> (\<exists>h0. (grids(key \<mapsto> g)) k = Some h0 \<and> d < length h0 \<and> s < length (h0 ! d)
                 \<and> h0 ! d ! s = h ! d ! s)"
proof (cases "k = key")
  case True
  with k have h: "h = g'" by simp
  from session_start_after_block [OF bw empty, of d s] d s ss h
  consider (new) "d = day" "s = start_slot" "cell_faculty (g' ! d ! s) = faculty"
      "cell_duration (g' ! d ! s) = duration"
    | (old) "g' ! d ! s = g ! d ! s"
    by auto
  then show ?thesis
  proof cases
    case new
    with True h show ?thesis by simp
  next
    case old
    from block_written_dims [OF bw, of d s] d s h have "d < length g" "s < length (g ! d)"
      by simp_all
    with old True h show ?thesis by simp
  qed
next
  case False
  with k d s show ?thesis by simp
qed

lemma commit_keeps_no_clash:
  assumes nc: "no_clash (grids(key \<mapsto> g))"
    and b: "booked schedule (grids(key \<mapsto> g))"
    and bw: "block_written faculty classroom day start_slot duration session_type code name
               duration g g'"
    and empty: "\<forall>i<duration. cell_type (g ! day ! (start_slot + i)) = None"
    and free: "\<not> faculty_flexible faculty
               \<longrightarrow> (\<forall>i<duration. start_slot + i \<notin> slots_of schedule faculty day)"
  shows "no_clash (grids(key \<mapsto> g'))"
  unfolding no_clash_def
proof (intro allI impI)
  fix k1 h1 k2 h2 d s1 s2
  assume a: "(grids(key \<mapsto> g')) k1 = Some h1 \<and> (grids(key \<mapsto> g')) k2 = Some h2
        \<and> d < length h1 \<and> s1 < length (h1 ! d)
        \<and> d < length h2 \<and> s2 < length (h2 ! d)
        \<and> session_start (h1 ! d ! s1) \<and> session_start (h2 ! d ! s2)
        \<and> cell_faculty (h1 ! d ! s1) = cell_faculty (h2 ! d ! s2)
        \<and> \<not> faculty_flexible (cell_faculty (h1 ! d ! s1))
        \<and> (k1, s1) \<noteq> (k2, s2)"
  let ?c1 = "h1 ! d ! s1" and ?c2 = "h2 ! d ! s2"
  from a have ss1: "session_start ?c1" and ss2: "session_start ?c2"
    and same: "cell_faculty ?c1 = cell_faculty ?c2"
    and nf: "\<not> faculty_flexible (cell_faculty ?c1)"
    and ne: "(k1, s1) \<noteq> (k2, s2)"
    by blast+
  have new_old: "{start_slot..<start_slot + duration} \<inter> {s..<s + cell_duration c} = {}"
    if "(grids(key \<mapsto> g)) k = Some h0" "day < length h0" "s < length (h0 ! day)"
      "h0 ! day ! s = c" "session_start c" "cell_faculty c = faculty"
      "\<not> faculty_flexible faculty"
    for k h0 s c
  proof -
    from b that have "{s..<s + cell_duration c} \<subseteq> slots_of schedule faculty day"
      unfolding booked_def by blast
    moreover from free that have "\<forall>i<duration. start_slot + i \<notin> slots_of schedule faculty day"
      by simp
    then have "{start_slot..<start_slot + duration} \<inter> slots_of schedule faculty day = {}"
      by (auto simp: nat_le_iff_add)
    ultimately show ?thesis by blast
  qed
  from session_origin [OF bw empty, of grids key k1 h1 d s1] a
  consider (new1) "k1 = key" "d = day" "s1 = start_slot" "cell_faculty ?c1 = faculty"
      "cell_duration ?c1 = duration"
    | (old1) h0 where "(grids(key \<mapsto> g)) k1 = Some h0" "d < length h0" "s1 < length (h0 ! d)"
      "h0 ! d ! s1 = ?c1"
    by blast
  then show "{s1..<s1 + cell_duration ?c1} \<inter> {s2..<s2 + cell_duration ?c2} = {}"
  proof cases
    case new1
    from session_origin [OF bw empty, of grids key k2 h2 d s2] a
    consider (new2) "k2 = key" "s2 = start_slot"
      | (old2) h0 where "(grids(key \<mapsto> g)) k2 = Some h0" "d < length h0" "s2 < length (h0 ! d)"
        "h0 ! d ! s2 = ?c2"
      by blast
    then show ?thesis
    proof cases
      case new2
      with new1 ne show ?thesis by simp
    next
      case old2
      have "{start_slot..<start_slot + duration} \<inter> {s2..<s2 + cell_duration ?c2} = {}"
      proof (rule new_old)
        show "(grids(key \<mapsto> g)) k2 = Some h0" by fact
        show "day < length h0" using old2(2) new1(2) by simp
        show "s2 < length (h0 ! day)" using old2(3) new1(2) by simp
        show "h0 ! day ! s2 = ?c2" using old2(4) new1(2) by simp
        show "session_start ?c2" by (rule ss2)
        show "cell_faculty ?c2 = faculty" using same new1(4) by simp
        show "\<not> faculty_flexible faculty" using nf new1(4) by simp
      qed
      then show ?thesis using new1(3,5) by simp
    qed
  next
    case old1
    from session_origin [OF bw empty, of grids key k2 h2 d s2] a
    consider (new2) "k2 = key" "d = day" "s2 = start_slot" "cell_faculty ?c2 = faculty"
        "cell_duration ?c2 = duration"
      | (old2) h0' where "(grids(key \<mapsto> g)) k2 = Some h0'" "d < length h0'"
        "s2 < length (h0' ! d)" "h0' ! d ! s2 = ?c2"
      by blast
    then show ?thesis
    proof cases
      case new2
      have "{start_slot..<start_slot + duration} \<inter> {s1..<s1 + cell_duration ?c1} = {}"
      proof (rule new_old)
        show "(grids(key \<mapsto> g)) k1 = Some h0" by fact
        show "day < length h0" using old1(2) new2(2) by simp
        show "s1 < length (h0 ! day)" using old1(3) new2(2) by simp
        show "h0 ! day ! s1 = ?c1" using old1(4) new2(2) by simp
        show "session_start ?c1" by (rule ss1)
        show "cell_faculty ?c1 = faculty" using same new2(4) by simp
        show "\<not> faculty_flexible faculty" using nf same new2(4) by simp
      qed
      then show ?thesis using new2(3,5) by (simp add: Int_commute)
    next
      case old2
      have "{s1..<s1 + cell_duration (h0 ! d ! s1)}
              \<inter> {s2..<s2 + cell_duration (h0' ! d ! s2)} = {}"
        using nc [unfolded no_clash_def, rule_format, of k1 h0 k2 h0' d s1 s2] old1 old2
          ss1 ss2 same nf ne
        by simp
      then show ?thesis using old1(4) old2(4) by simp
    qed
  qed
qed

subsection \<open>The invariant of a run\<close>

lemma group_inv_fields [simp]:
  "group_inv TIME_SLOTS key (st\<lparr>total_courses := a\<rparr>) = group_inv TIME_SLOTS key st"
  "group_inv TIME_SLOTS key (st\<lparr>scheduled_courses := b\<rparr>) = group_inv TIME_SLOTS key st"
  "group_inv TIME_SLOTS key (st\<lparr>failed_courses := c\<rparr>) = group_inv TIME_SLOTS key st"
  "group_inv TIME_SLOTS key (st\<lparr>random_calls := n\<rparr>) = group_inv TIME_SLOTS key st"
  "group_inv TIME_SLOTS key (st\<lparr>summary_ws := w\<rparr>) = group_inv TIME_SLOTS key st"
  by (simp_all add: group_inv_def)

lemma fits_empty_free:
  assumes "fits course session_type TIME_SLOTS st p"
  shows "\<forall>i<session_duration session_type.
           cell_type (timetable st ! fst p ! (snd p + i)) = None"
    and "\<not> faculty_flexible (Faculty course)
         \<longrightarrow> (\<forall>i<session_duration session_type.
               snd p + i \<notin> slots_of (professor_schedule st) (Faculty course) (fst p))"
  using assms by (auto simp: fits_def feasible_def slot_free_def)

text \<open>Every request keeps the invariant, and it returns when it fits the calendar.\<close>

lemma schedule_session_group_inv:
  assumes inv: "group_inv TIME_SLOTS key st"
    and d: "session_duration session_type \<le> length TIME_SLOTS"
  shows "\<exists>scheduled st'.
           schedule_session department semester course session_type TIME_SLOTS attempt_limit st
             = Inr (scheduled, st')
           \<and> group_inv TIME_SLOTS key st' \<and> all_timetables st' = all_timetables st"
proof -
  from inv have ok: "state_ok TIME_SLOTS st"
    and grids: "\<forall>k g. all_timetables st k = Some g \<longrightarrow> grid_ok TIME_SLOTS g"
    and b: "booked (professor_schedule st) ((all_timetables st)(key \<mapsto> timetable st))"
    and nc: "no_clash ((all_timetables st)(key \<mapsto> timetable st))"
    by (simp_all add: group_inv_def)
  from first_fit_cases [of course session_type TIME_SLOTS st]
  show ?thesis
  proof
    assume "\<exists>p. first_fit course session_type TIME_SLOTS st p"
    then obtain p where p: "first_fit course session_type TIME_SLOTS st p" ..
    then have c: "candidate TIME_SLOTS (session_duration session_type) (fst p, snd p)"
      and f: "fits course session_type TIME_SLOTS st p"
      by (simp_all add: first_fit_def)
    from schedule_session_first_fit [OF ok p, of department semester attempt_limit]
    obtain st' where st': "commit department semester course session_type (fst p) (snd p)
        TIME_SLOTS st = Inr st'"
      "schedule_session department semester course session_type TIME_SLOTS attempt_limit st
         = Inr (True, st')"
      by blast
    from commit_effect [OF ok c, of department semester course] st'(1)
    have ok': "state_ok TIME_SLOTS st'"
      and bw: "block_written (Faculty course) (Classroom course) (fst p) (snd p)
                (session_duration session_type) session_type (Course_Code course)
                (Course_Name course) (session_duration session_type)
                (timetable st) (timetable st')"
      and sa: "slots_added (faculty_list (Faculty course)) (fst p) (snd p)
                (session_duration session_type) (professor_schedule st) (professor_schedule st')"
      and at: "all_timetables st' = all_timetables st"
      by auto
    note e = fits_empty_free [OF f]
    from commit_keeps_booked [OF b bw e(1) sa]
    have b': "booked (professor_schedule st') ((all_timetables st)(key \<mapsto> timetable st'))" .
    from commit_keeps_no_clash [OF nc b bw e]
    have nc': "no_clash ((all_timetables st)(key \<mapsto> timetable st'))" .
    have "group_inv TIME_SLOTS key st'"
      using ok' grids b' nc' at by (simp add: group_inv_def)
    with st'(2) at show ?thesis by blast
  next
    assume n: "\<forall>p. candidate TIME_SLOTS (session_duration session_type) p
                  \<longrightarrow> \<not> fits course session_type TIME_SLOTS st p"
    from schedule_session_no_fit [OF ok d n, of department semester attempt_limit] inv
    show ?thesis by auto
  qed
qed

lemma for_each_total:
  assumes "\<And>x s. x \<in> set xs \<Longrightarrow> Inv s \<Longrightarrow> \<exists>s'. body x s = Inr s' \<and> Inv s'"
    and "Inv s"
  shows "\<exists>s'. for_each body xs s = Inr s' \<and> Inv s'"
  using assms
proof (induction xs arbitrary: s)
  case Nil
  then show ?case by simp
next
  case (Cons x xs)
  from Cons.prems(1) [of x s] Cons.prems(2)
  obtain s1 where s1: "body x s = Inr s1" "Inv s1" by auto
  from Cons.IH [of s1] Cons.prems(1) s1(2)
  obtain s' where "for_each body xs s1 = Inr s'" "Inv s'" by auto
  with s1(1) show ?case by simp
qed

lemma during_group_fields [simp]:
  "during_group TIME_SLOTS key grids (st\<lparr>total_courses := a\<rparr>)
     = during_group TIME_SLOTS key grids st"
  "during_group TIME_SLOTS key grids (st\<lparr>scheduled_courses := b\<rparr>)
     = during_group TIME_SLOTS key grids st"
  "during_group TIME_SLOTS key grids (st\<lparr>failed_courses := c\<rparr>)
     = during_group TIME_SLOTS key grids st"
  by (simp_all add: during_group_def)

lemma schedule_session_during:
  assumes "during_group TIME_SLOTS key grids st" "4 \<le> length TIME_SLOTS"
  shows "\<exists>scheduled st'.
           schedule_session department semester course session_type TIME_SLOTS attempt_limit st
             = Inr (scheduled, st')
           \<and> during_group TIME_SLOTS key grids st'"
proof -
  have "session_duration session_type \<le> length TIME_SLOTS"
    using assms(2) session_duration_le [of session_type] by linarith
  from schedule_session_group_inv [OF _ this, of key st department semester course attempt_limit]
    assms(1)
  show ?thesis by (auto simp: during_group_def)
qed

lemma lecture_loop_during:
  assumes "4 \<le> length TIME_SLOTS"
  shows "during_group TIME_SLOTS key grids st \<Longrightarrow>
         \<exists>counts' st'.
           lecture_loop department semester course TIME_SLOTS attempt_limit idxs counts st
             = Inr (counts', st')
           \<and> during_group TIME_SLOTS key grids st'"
proof (induction idxs arbitrary: counts st)
  case Nil
  then show ?case by simp
next
  case (Cons i idxs)
  from schedule_session_during [OF Cons.prems assms, of department semester course
      "''LEC '' @ str_nat (i + 1)" attempt_limit]
  obtain scheduled st1 where s:
    "schedule_session department semester course (''LEC '' @ str_nat (i + 1)) TIME_SLOTS
       attempt_limit st = Inr (scheduled, st1)"
    "during_group TIME_SLOTS key grids st1"
    by blast
  obtain t0 f0 where c: "counts = (t0, f0)" by (cases counts)
  from Cons.IH [OF s(2), of "(t0 + 1, f0)"] Cons.IH [OF s(2), of "(t0, f0 + 1)"]
  show ?case
    using s(1) c by (cases scheduled) auto
qed

lemma schedule_lectures_during:
  assumes "during_group TIME_SLOTS key grids st" "4 \<le> length TIME_SLOTS"
  shows "\<exists>st'. schedule_lectures department semester course TIME_SLOTS limit st = Inr st'
           \<and> during_group TIME_SLOTS key grids st'"
proof (cases "0 < L course")
  case True
  from lecture_loop_during [OF assms(2,1), of department semester course limit
      "if L course = 3 then py_range 2 else py_range (L course)" "(0, 0)"]
  obtain counts' st' where r:
    "handle_lectures department semester course TIME_SLOTS limit st = Inr (counts', st')"
    "during_group TIME_SLOTS key grids st'"
    by (auto simp: handle_lectures_def split: if_splits)
  obtain a b where "counts' = (a, b)" by (cases counts')
  with r True show ?thesis by (simp add: schedule_lectures_def Let_def)
next
  case False
  with assms(1) show ?thesis by (simp add: schedule_lectures_def)
qed

lemma schedule_tutorial_during:
  assumes "during_group TIME_SLOTS key grids st" "4 \<le> length TIME_SLOTS"
  shows "\<exists>st'. schedule_tutorial department semester course TIME_SLOTS limit idx st = Inr st'
           \<and> during_group TIME_SLOTS key grids st'"
proof -
  have "during_group TIME_SLOTS key grids (st\<lparr>total_courses := total_courses st + 1\<rparr>)"
    using assms(1) by simp
  from schedule_session_during [OF this assms(2), of department semester course
      "''TUT '' @ str_nat (idx + 1)" limit]
  show ?thesis by (auto simp: schedule_tutorial_def)
qed

lemma schedule_lab_during:
  assumes "during_group TIME_SLOTS key grids st" "4 \<le> length TIME_SLOTS"
  shows "\<exists>scheduled st'.
           schedule_lab department semester course TIME_SLOTS limit st = Inr (scheduled, st')
           \<and> during_group TIME_SLOTS key grids st'"
proof -
  have "during_group TIME_SLOTS key grids (st\<lparr>total_courses := total_courses st + 1\<rparr>)"
    using assms(1) by simp
  from schedule_session_during [OF this assms(2), of department semester course "''LAB''" limit]
  show ?thesis by (auto simp: schedule_lab_def)
qed

lemma tutorials_during:
  assumes "during_group TIME_SLOTS key grids st" "4 \<le> length TIME_SLOTS"
  shows "\<exists>st'. for_each (schedule_tutorial department semester course TIME_SLOTS limit) idxs st
                 = Inr st'
           \<and> during_group TIME_SLOTS key grids st'"
  by (rule for_each_total [where Inv = "during_group TIME_SLOTS key grids"])
     (auto intro: schedule_tutorial_during assms)

lemma process_combined_course_during:
  assumes "during_group TIME_SLOTS key grids st" "4 \<le> length TIME_SLOTS"
  shows "\<exists>st'. process_combined_course department semester TIME_SLOTS limit course st = Inr st'
           \<and> during_group TIME_SLOTS key grids st'"
proof -
  have "\<exists>scheduled st1.
          (if 0 < P course
           then schedule_lab department semester course TIME_SLOTS limit st
           else Inr (True, st)) = Inr (scheduled, st1)
          \<and> during_group TIME_SLOTS key grids st1"
    using schedule_lab_during [OF assms, of department semester course limit] assms(1)
    by auto
  then obtain scheduled st1 where l:
    "(if 0 < P course
      then schedule_lab department semester course TIME_SLOTS limit st
      else Inr (True, st)) = Inr (scheduled, st1)"
    "during_group TIME_SLOTS key grids st1"
    by blast
  from schedule_lectures_during [OF l(2) assms(2), of department semester course
      "current_attempt_limit scheduled department limit"]
  obtain st2 where m:
    "schedule_lectures department semester course TIME_SLOTS
       (current_attempt_limit scheduled department limit) st1 = Inr st2"
    "during_group TIME_SLOTS key grids st2"
    by blast
  from tutorials_during [OF m(2) assms(2), of department semester course
      "current_attempt_limit scheduled department limit" "py_range (T course)"]
  show ?thesis
    unfolding process_combined_course_def l(1) using m(1) by simp
qed

lemma process_lab_course_during:
  assumes "during_group TIME_SLOTS key grids st" "4 \<le> length TIME_SLOTS"
  shows "\<exists>st'. process_lab_course department semester TIME_SLOTS limit course st = Inr st'
           \<and> during_group TIME_SLOTS key grids st'"
  using schedule_lab_during [OF assms, of department semester course limit]
  by (auto simp: process_lab_course_def)

lemma process_other_course_during:
  assumes "during_group TIME_SLOTS key grids st" "4 \<le> length TIME_SLOTS"
  shows "\<exists>st'. process_other_course department semester TIME_SLOTS limit course st = Inr st'
           \<and> during_group TIME_SLOTS key grids st'"
proof -
  from schedule_lectures_during [OF assms, of department semester course limit]
  obtain st1 where m:
    "schedule_lectures department semester course TIME_SLOTS limit st = Inr st1"
    "during_group TIME_SLOTS key grids st1"
    by blast
  from tutorials_during [OF m(2) assms(2), of department semester course limit
      "py_range (T course)"]
  show ?thesis
    unfolding process_other_course_def using m(1) by simp
qed

subsection \<open>Building the grids\<close>

lemma choice_ok:
  "seq \<noteq> [] \<Longrightarrow>
     \<exists>x. choice seq st = Inr (x, st\<lparr>random_calls := Suc (random_calls st)\<rparr>) \<and> x \<in> set seq"
  by (simp add: choice_def)

lemma lunch_cell_no_session: "\<not> session_start (lunch_cell start_idx slot_idx c)"
  by (simp add: session_start_def lunch_cell_def)

lemma new_timetable_lunch_only: "lunch_only TIME_SLOTS (new_timetable TIME_SLOTS)"
  by (simp add: lunch_only_def new_timetable_ok new_timetable_cell session_start_def
        empty_cell_def)

text \<open>What the lunch placer keeps: the shape of the grid, no session in it, the rest of the state.\<close>

lemma mark_lunch_keeps:
  assumes "lunch_only TIME_SLOTS (timetable st)" "day_idx < length DAYS"
    "slot_idx < length TIME_SLOTS"
  shows "\<exists>st'. mark_lunch day_idx start_idx slot_idx st = Inr st'
           \<and> lunch_only TIME_SLOTS (timetable st')
           \<and> professor_schedule st' = professor_schedule st
           \<and> classroom_schedule st' = classroom_schedule st
           \<and> all_timetables st' = all_timetables st"
proof -
  from assms have g: "grid_ok TIME_SLOTS (timetable st)"
    and n: "\<forall>day < length DAYS. \<forall>s < length TIME_SLOTS. \<not> session_start (timetable st ! day ! s)"
    by (simp_all add: lunch_only_def)
  from g assms(2,3) have len: "day_idx < length (timetable st)"
    "slot_idx < length (timetable st ! day_idx)"
    by (simp_all add: grid_ok_def)
  let ?g = "(timetable st)[day_idx := (timetable st ! day_idx)[slot_idx :=
              lunch_cell start_idx slot_idx (timetable st ! day_idx ! slot_idx)]]"
  have "grid_ok TIME_SLOTS ?g"
    using g assms(2) by (auto simp: grid_ok_def nth_list_update)
  moreover have "\<not> session_start (?g ! day ! s)" if "day < length DAYS" "s < length TIME_SLOTS"
    for day s
    using that n len by (auto simp: nth_list_update lunch_cell_no_session split: if_splits)
  ultimately have "lunch_only TIME_SLOTS ?g" by (simp add: lunch_only_def)
  then show ?thesis using len by (simp add: mark_lunch_def dict_get_def)
qed

lemma lunch_block_keeps:
  assumes "lunch_only TIME_SLOTS (timetable st)" "day_idx < length DAYS"
    "\<forall>s \<in> set slots. s < length TIME_SLOTS"
  shows "\<exists>st'. for_each (mark_lunch day_idx start_idx) slots st = Inr st'
           \<and> lunch_only TIME_SLOTS (timetable st')
           \<and> professor_schedule st' = professor_schedule st
           \<and> classroom_schedule st' = classroom_schedule st
           \<and> all_timetables st' = all_timetables st"
proof -
  have "\<exists>st'. for_each (mark_lunch day_idx start_idx) slots st = Inr st'
          \<and> (lunch_only TIME_SLOTS (timetable st')
              \<and> professor_schedule st' = professor_schedule st
              \<and> classroom_schedule st' = classroom_schedule st
              \<and> all_timetables st' = all_timetables st)"
  proof (rule for_each_total)
    fix x and s :: state
    assume "x \<in> set slots" and i: "lunch_only TIME_SLOTS (timetable s)
        \<and> professor_schedule s = professor_schedule st
        \<and> classroom_schedule s = classroom_schedule st
        \<and> all_timetables s = all_timetables st"
    with assms(3) have "x < length TIME_SLOTS" by simp
    from mark_lunch_keeps [OF _ assms(2) this, of s start_idx] i
    show "\<exists>s'. mark_lunch day_idx start_idx x s = Inr s'
            \<and> (lunch_only TIME_SLOTS (timetable s')
                \<and> professor_schedule s' = professor_schedule st
                \<and> classroom_schedule s' = classroom_schedule st
                \<and> all_timetables s' = all_timetables st)"
      by auto
  next
    show "lunch_only TIME_SLOTS (timetable st)
        \<and> professor_schedule st = professor_schedule st
        \<and> classroom_schedule st = classroom_schedule st
        \<and> all_timetables st = all_timetables st"
      using assms(1) by simp
  qed
  then show ?thesis by blast
qed

lemma lunch_days_real:
  assumes "\<forall>d \<in> set days. d < length DAYS"
  shows "lunch_only generate_time_slots (timetable st) \<Longrightarrow>
         \<exists>st'. lunch_days generate_time_slots days st = Inr st'
           \<and> lunch_only generate_time_slots (timetable st')
           \<and> professor_schedule st' = professor_schedule st
           \<and> classroom_schedule st' = classroom_schedule st
           \<and> all_timetables st' = all_timetables st"
  using assms
proof (induction days arbitrary: st)
  case Nil
  then show ?case by simp
next
  case (Cons d days)
  have "[7, 8, 9::nat] \<noteq> []" by simp
  from choice_ok [OF this, of st]
  obtain start where c: "choice [7, 8, 9] st = Inr (start, st\<lparr>random_calls := Suc (random_calls st)\<rparr>)"
    "start \<in> set [7, 8, 9::nat]"
    by blast
  let ?st1 = "st\<lparr>random_calls := Suc (random_calls st)\<rparr>"
  have l1: "lunch_only generate_time_slots (timetable ?st1)" using Cons.prems(1) by simp
  have d: "d < length DAYS" using Cons.prems(2) by simp
  have r: "\<forall>s \<in> set [start..<start + 1 + 1]. s < length generate_time_slots"
    using c(2) by (auto simp: length_generate_time_slots)
  from lunch_block_keeps [OF l1 d r, of start]
  obtain st2 where st2: "for_each (mark_lunch d start) [start..<start + 1 + 1] ?st1 = Inr st2"
    "lunch_only generate_time_slots (timetable st2)"
    "professor_schedule st2 = professor_schedule st"
    "classroom_schedule st2 = classroom_schedule st"
    "all_timetables st2 = all_timetables st"
    by auto
  from Cons.IH [OF st2(2)] Cons.prems(2)
  obtain st' where st': "lunch_days generate_time_slots days st2 = Inr st'"
    "lunch_only generate_time_slots (timetable st')"
    "professor_schedule st' = professor_schedule st2"
    "classroom_schedule st' = classroom_schedule st2"
    "all_timetables st' = all_timetables st2"
    by auto
  have "lunch_days generate_time_slots (d # days) st = Inr st'"
    using c(1) st2(1) st'(1)
    by (simp add: lunch_start_indices_real length_generate_time_slots Let_def)
  with st' st2 show ?case by simp
qed

lemma init_timetable_keeps:
  assumes "init_inv generate_time_slots st"
  shows "\<exists>st'. init_timetable generate_time_slots entry st = Inr st'
           \<and> init_inv generate_time_slots st'
           \<and> dom (all_timetables st')
               = insert (timetable_key (fst entry) (fst (snd entry))) (dom (all_timetables st))"
proof -
  obtain department semester cc lc oc where e: "entry = (department, semester, cc, lc, oc)"
    by (cases entry)
  let ?st0 = "st\<lparr>timetable := new_timetable generate_time_slots\<rparr>"
  have l: "lunch_only generate_time_slots (timetable ?st0)"
    by (simp add: new_timetable_lunch_only)
  have d: "\<forall>d \<in> set [0..<length DAYS]. d < length DAYS" by simp
  from lunch_days_real [OF d l]
  obtain st1 where st1: "lunch_days generate_time_slots [0..<length DAYS] ?st0 = Inr st1"
    "lunch_only generate_time_slots (timetable st1)"
    "professor_schedule st1 = professor_schedule st"
    "classroom_schedule st1 = classroom_schedule st"
    "all_timetables st1 = all_timetables st"
    by auto
  have "init_timetable generate_time_slots entry st
          = Inr (st1\<lparr>all_timetables :=
                     (all_timetables st1)(timetable_key department semester \<mapsto> timetable st1)\<rparr>)"
    unfolding init_timetable_def e schedule_random_lunch_breaks_def prod.case st1(1) by simp
  moreover have "init_inv generate_time_slots
      (st1\<lparr>all_timetables :=
             (all_timetables st1)(timetable_key department semester \<mapsto> timetable st1)\<rparr>)"
    using assms st1 by (auto simp: init_inv_def)
  ultimately show ?thesis using st1(5) e by auto
qed

lemma init_all:
  "init_inv generate_time_slots st \<Longrightarrow>
     \<exists>st'. for_each (init_timetable generate_time_slots) groups st = Inr st'
       \<and> init_inv generate_time_slots st'
       \<and> dom (all_timetables st') = dom (all_timetables st) \<union> keys_of groups"
proof (induction groups arbitrary: st)
  case Nil
  then show ?case by (simp add: keys_of_def)
next
  case (Cons entry groups)
  from init_timetable_keeps [OF Cons.prems, of entry]
  obtain st1 where st1: "init_timetable generate_time_slots entry st = Inr st1"
    "init_inv generate_time_slots st1"
    "dom (all_timetables st1)
       = insert (timetable_key (fst entry) (fst (snd entry))) (dom (all_timetables st))"
    by blast
  from Cons.IH [OF st1(2)]
  obtain st' where st': "for_each (init_timetable generate_time_slots) groups st1 = Inr st'"
    "init_inv generate_time_slots st'"
    "dom (all_timetables st') = dom (all_timetables st1) \<union> keys_of groups"
    by blast
  have "dom (all_timetables st') = dom (all_timetables st) \<union> keys_of (entry # groups)"
    using st'(3) st1(3) by (auto simp: keys_of_def)
  with st1(1) st'(1,2) show ?case by simp
qed

lemma init_inv_run_inv:
  assumes "init_inv TIME_SLOTS st"
  shows "run_inv TIME_SLOTS st"
proof -
  from assms have e: "professor_schedule st = Map.empty" "classroom_schedule st = Map.empty"
    and l: "\<And>key g. all_timetables st key = Some g \<Longrightarrow> lunch_only TIME_SLOTS g"
    by (simp_all add: init_inv_def)
  have none: "\<not> session_start (g ! day ! s)"
    if "all_timetables st key = Some g" "day < length g" "s < length (g ! day)" for key g day s
  proof -
    from l [OF that(1)] have g: "grid_ok TIME_SLOTS g"
      and n: "\<forall>day < length DAYS. \<forall>s < length TIME_SLOTS. \<not> session_start (g ! day ! s)"
      by (simp_all add: lunch_only_def)
    from g that(2,3) have "day < length DAYS" "s < length TIME_SLOTS"
      by (simp_all add: grid_ok_def)
    with n show ?thesis by blast
  qed
  have "booked (professor_schedule st) (all_timetables st)"
    unfolding booked_def using none by blast
  moreover have "no_clash (all_timetables st)"
    unfolding no_clash_def using none by blast
  moreover have "\<forall>key g. all_timetables st key = Some g \<longrightarrow> grid_ok TIME_SLOTS g"
    using l by (simp add: lunch_only_def)
  ultimately show ?thesis
    using e by (simp add: run_inv_def avail_ok_empty)
qed

subsection \<open>Processing the groups\<close>

lemma process_group_keeps:
  assumes inv: "run_inv TIME_SLOTS st" and len: "4 \<le> length TIME_SLOTS"
    and key: "timetable_key (fst entry) (fst (snd entry)) \<in> dom (all_timetables st)"
  shows "\<exists>st'. process_group TIME_SLOTS entry st = Inr st'
           \<and> run_inv TIME_SLOTS st'
           \<and> dom (all_timetables st') = dom (all_timetables st)"
proof -
  obtain department semester cc lc oc where e: "entry = (department, semester, cc, lc, oc)"
    by (cases entry)
  let ?key = "timetable_key department semester"
  from key e obtain g where g: "all_timetables st ?key = Some g" by auto
  let ?st0 = "st\<lparr>timetable := g\<rparr>"
  let ?I = "during_group TIME_SLOTS ?key (all_timetables st)"
  have up: "(all_timetables st)(?key \<mapsto> g) = all_timetables st"
    using g by (rule map_upd_triv)
  have i0: "?I ?st0"
    using inv g
    by (simp add: during_group_def group_inv_def run_inv_def state_ok_def up)
  have "\<exists>st1. for_each (process_combined_course department semester TIME_SLOTS
                           (attempt_limit_of department)) cc ?st0 = Inr st1 \<and> ?I st1"
    by (rule for_each_total [where Inv = ?I])
       (auto intro: process_combined_course_during len i0)
  then obtain st1 where st1: "for_each (process_combined_course department semester TIME_SLOTS
      (attempt_limit_of department)) cc ?st0 = Inr st1" "?I st1"
    by blast
  have "\<exists>st2. for_each (process_lab_course department semester TIME_SLOTS
                           (attempt_limit_of department)) lc st1 = Inr st2 \<and> ?I st2"
    by (rule for_each_total [where Inv = ?I])
       (auto intro: process_lab_course_during len st1(2))
  then obtain st2 where st2: "for_each (process_lab_course department semester TIME_SLOTS
      (attempt_limit_of department)) lc st1 = Inr st2" "?I st2"
    by blast
  have "\<exists>st3. for_each (process_other_course department semester TIME_SLOTS
                           (attempt_limit_of department)) oc st2 = Inr st3 \<and> ?I st3"
    by (rule for_each_total [where Inv = ?I])
       (auto intro: process_other_course_during len st2(2))
  then obtain st3 where st3: "for_each (process_other_course department semester TIME_SLOTS
      (attempt_limit_of department)) oc st2 = Inr st3" "?I st3"
    by blast
  let ?st' = "st3\<lparr>all_timetables := (all_timetables st3)(?key \<mapsto> timetable st3)\<rparr>"
  have r: "process_group TIME_SLOTS entry st = Inr ?st'"
    unfolding process_group_def e prod.case g option.case Let_def st1(1) sum.case st2(1) st3(1)
    by simp
  from st3(2) have gi: "group_inv TIME_SLOTS ?key st3" and at: "all_timetables st3 = all_timetables st"
    by (simp_all add: during_group_def)
  have "run_inv TIME_SLOTS ?st'"
    using gi by (auto simp: run_inv_def group_inv_def state_ok_def)
  moreover have "dom (all_timetables ?st') = dom (all_timetables st)"
    using at g by auto
  ultimately show ?thesis using r by blast
qed

lemma process_all:
  assumes len: "4 \<le> length TIME_SLOTS"
  shows "run_inv TIME_SLOTS st \<Longrightarrow> keys_of groups \<subseteq> dom (all_timetables st) \<Longrightarrow>
         \<exists>st'. for_each (process_group TIME_SLOTS) groups st = Inr st' \<and> run_inv TIME_SLOTS st'"
proof (induction groups arbitrary: st)
  case Nil
  then show ?case by simp
next
  case (Cons entry groups)
  from Cons.prems(2) have k: "timetable_key (fst entry) (fst (snd entry)) \<in> dom (all_timetables st)"
    and ks: "keys_of groups \<subseteq> dom (all_timetables st)"
    by (simp_all add: keys_of_def)
  from process_group_keeps [OF Cons.prems(1) len k]
  obtain st1 where st1: "process_group TIME_SLOTS entry st = Inr st1" "run_inv TIME_SLOTS st1"
    "dom (all_timetables st1) = dom (all_timetables st)"
    by blast
  from Cons.IH [OF st1(2)] ks st1(3)
  obtain st' where "for_each (process_group TIME_SLOTS) groups st1 = Inr st'"
    "run_inv TIME_SLOTS st'"
    by auto
  with st1(1) show ?case by simp
qed

text \<open>A run always returns, and its final state satisfies the invariant.\<close>

lemma generate_all_timetables_inv:
  "\<exists>st. generate_all_timetables groups source = Inr st \<and> run_inv generate_time_slots st"
proof -
  have "init_inv generate_time_slots (initial_state source)"
    by (simp add: init_inv_def initial_state_def)
  from init_all [OF this, of groups]
  obtain st1 where st1: "for_each (init_timetable generate_time_slots) groups
      (initial_state source) = Inr st1"
    "init_inv generate_time_slots st1"
    "dom (all_timetables st1) = dom (all_timetables (initial_state source)) \<union> keys_of groups"
    by blast
  have len: "4 \<le> length generate_time_slots" by (simp add: length_generate_time_slots)
  from process_all [OF len init_inv_run_inv [OF st1(2)], of groups] st1(3)
  obtain st where "for_each (process_group generate_time_slots) groups st1 = Inr st"
    "run_inv generate_time_slots st"
    by auto
  with st1(1) show ?thesis by (simp add: generate_all_timetables_def)
qed

subsection \<open>A course whose requests all fail\<close>

lemma never_fits_fields [simp]:
  "never_fits course TIME_SLOTS (st\<lparr>total_courses := a\<rparr>) = never_fits course TIME_SLOTS st"
  "never_fits course TIME_SLOTS (st\<lparr>scheduled_courses := b\<rparr>) = never_fits course TIME_SLOTS st"
  "never_fits course TIME_SLOTS (st\<lparr>failed_courses := c\<rparr>) = never_fits course TIME_SLOTS st"
  "never_fits course TIME_SLOTS (st\<lparr>random_calls := n\<rparr>) = never_fits course TIME_SLOTS st"
  "never_fits course TIME_SLOTS (st\<lparr>summary_ws := w\<rparr>) = never_fits course TIME_SLOTS st"
  by (simp_all add: never_fits_def)


lemma failed_rows_Suc:
  "failed_rows department semester course label (Suc n)
     = failed_rows department semester course label n
       @ [failed_row department semester course (label @ str_nat (n + 1))]"
  by (simp add: failed_rows_def failed_row_def)






subsection \<open>The teacher who is booked all week\<close>



subsection \<open>A run over two departments\<close>

text \<open>One day of the lunch placer when the random source always returns 0.\<close>

lemma lunch_day_step:
  assumes "random_source st = (\<lambda>n. 0)" "d < length (timetable st)"
    "8 < length (timetable st ! d)"
  shows "lunch_days generate_time_slots (d # rest) st
         = lunch_days generate_time_slots rest
             (st\<lparr>random_calls := Suc (random_calls st),
                 timetable := (timetable st)[d := (timetable st ! d)
                    [7 := lunch_cell 7 7 (timetable st ! d ! 7),
                     8 := lunch_cell 7 8 (timetable st ! d ! 8)]]\<rparr>)"
proof -
  have u: "[7..<7 + 1 + 1] = [7, 8::nat]" by (simp add: upt_rec)
  show ?thesis
    using assms
    by (simp add: lunch_start_indices_real length_generate_time_slots choice_def u
          mark_lunch_def dict_get_def)
qed

lemma replicate_5: "replicate 5 x = [x, x, x, x, x]"
  by (simp add: numeral_eq_Suc)

lemma lunch_days_rows:
  assumes "random_source st = (\<lambda>n. 0)" "timetable st = replicate 5 r" "8 < length r"
  shows "lunch_days generate_time_slots [0..<length DAYS] st
         = Inr (st\<lparr>random_calls := random_calls st + 5,
                   timetable := replicate 5
                     (r[7 := lunch_cell 7 7 (r ! 7), 8 := lunch_cell 7 8 (r ! 8)])\<rparr>)"
proof -
  have u: "[0..<length DAYS] = [0, 1, 2, 3, 4]" by (simp add: upt_rec)
  show ?thesis
    unfolding u using assms
    by (simp add: lunch_day_step replicate_5 del: lunch_days.simps(2))
qed

lemma lunch_grid_placed:
  assumes "random_source st = (\<lambda>n. 0)"
  shows "schedule_random_lunch_breaks generate_time_slots
           (st\<lparr>timetable := new_timetable generate_time_slots\<rparr>)
         = Inr (st\<lparr>random_calls := random_calls st + 5, timetable := lunch_grid\<rparr>)"
proof -
  have n: "new_timetable generate_time_slots = replicate 5 (replicate 19 empty_cell)"
    by (simp add: new_timetable_def length_generate_time_slots map_replicate_const)
  have "lunch_days generate_time_slots [0..<length DAYS]
          (st\<lparr>timetable := new_timetable generate_time_slots\<rparr>)
        = Inr (st\<lparr>timetable := new_timetable generate_time_slots\<rparr>
                 \<lparr>random_calls := random_calls (st\<lparr>timetable := new_timetable generate_time_slots\<rparr>) + 5,
                  timetable := replicate 5
                     ((replicate 19 empty_cell)[7 := lunch_cell 7 7 (replicate 19 empty_cell ! 7),
                        8 := lunch_cell 7 8 (replicate 19 empty_cell ! 8)])\<rparr>)"
    by (rule lunch_days_rows) (simp_all add: assms n)
  then show ?thesis
    by (simp add: schedule_random_lunch_breaks_def lunch_grid_def)
qed

lemma init_timetable_placed:
  assumes "random_source st = (\<lambda>n. 0)"
  shows "init_timetable generate_time_slots (department, semester, cc, lc, oc) st
         = Inr (st\<lparr>random_calls := random_calls st + 5, timetable := lunch_grid,
                   all_timetables := (all_timetables st)(timetable_key department semester
                      \<mapsto> lunch_grid)\<rparr>)"
  by (simp add: init_timetable_def lunch_grid_placed [OF assms])

text \<open>A group whose only course has one lecture that Phase 1 places.\<close>

lemma single_lecture_group:
  assumes key: "all_timetables st (timetable_key department semester) = Some g"
    and ok: "state_ok TIME_SLOTS (st\<lparr>timetable := g\<rparr>)"
    and ff: "first_fit course ''LEC 1'' TIME_SLOTS (st\<lparr>timetable := g\<rparr>) (day, start_slot)"
    and c: "L course = 1" "T course = 0"
  shows "\<exists>st' g'. process_group TIME_SLOTS (department, semester, [], [], [course]) st = Inr st'
           \<and> all_timetables st' = (all_timetables st)(timetable_key department semester \<mapsto> g')
           \<and> block_written (Faculty course) (Classroom course) day start_slot 3 ''LEC 1''
                (Course_Code course) (Course_Name course) 3 g g'
           \<and> slots_added (faculty_list (Faculty course)) day start_slot 3
                (professor_schedule st) (professor_schedule st')
           \<and> slots_added [Classroom course] day start_slot 3
                (classroom_schedule st) (classroom_schedule st')
           \<and> avail_ok (professor_schedule st') \<and> avail_ok (classroom_schedule st')
           \<and> random_source st' = random_source st"
proof -
  let ?st0 = "st\<lparr>timetable := g\<rparr>"
  let ?limit = "attempt_limit_of department"
  from schedule_session_first_fit [OF ok ff, of department semester ?limit]
  obtain st1 where st1:
    "commit department semester course ''LEC 1'' day start_slot TIME_SLOTS ?st0 = Inr st1"
    "schedule_session department semester course ''LEC 1'' TIME_SLOTS ?limit ?st0
       = Inr (True, st1)"
    by auto
  from ff have cand: "candidate TIME_SLOTS (session_duration ''LEC 1'') (day, start_slot)"
    by (simp add: first_fit_def)
  from commit_effect [OF ok cand, of department semester course] st1(1)
  have e: "state_ok TIME_SLOTS st1"
    "block_written (Faculty course) (Classroom course) day start_slot 3 ''LEC 1''
       (Course_Code course) (Course_Name course) 3 g (timetable st1)"
    "slots_added (faculty_list (Faculty course)) day start_slot 3
       (professor_schedule st) (professor_schedule st1)"
    "slots_added [Classroom course] day start_slot 3
       (classroom_schedule st) (classroom_schedule st1)"
    "all_timetables st1 = all_timetables st" "random_source st1 = random_source st"
    by (auto simp: session_duration_LEC)
  have h: "handle_lectures department semester course TIME_SLOTS ?limit ?st0
             = Inr ((1, 0), st1)"
    using st1(2) c(1)
    by (simp add: handle_lectures_def py_range_def str_nat_Suc_0)
  have o: "process_other_course department semester TIME_SLOTS ?limit course ?st0
             = Inr (st1\<lparr>total_courses := total_courses st1 + 1,
                        scheduled_courses := scheduled_courses st1 + 1,
                        failed_courses := failed_courses st1 + 0\<rparr>)"
    using h c by (simp add: process_other_course_def schedule_lectures_def py_range_def)
  have "process_group TIME_SLOTS (department, semester, [], [], [course]) st
          = Inr (st1\<lparr>total_courses := total_courses st1 + 1,
                     scheduled_courses := scheduled_courses st1 + 1,
                     failed_courses := failed_courses st1 + 0,
                     all_timetables := (all_timetables st1)(timetable_key department semester
                        \<mapsto> timetable st1)\<rparr>)"
    using key o by (simp add: process_group_def)
  with e show ?thesis
    by (auto simp: state_ok_def)
qed

subsection \<open>The first fit on the grid with the lunch at 12:30\<close>

lemma lunch_grid_ok: "grid_ok generate_time_slots lunch_grid"
  by (simp add: grid_ok_def lunch_grid_def length_generate_time_slots)

lemma lunch_grid_cell: "d < 5 \<Longrightarrow> s < 7 \<Longrightarrow> lunch_grid ! d ! s = empty_cell"
  by (simp add: lunch_grid_def)

lemma load_of_lunch_grid: "d < 5 \<Longrightarrow> load_of lunch_grid d = load_of lunch_grid 0"
  by (simp add: load_of_def lunch_grid_def)

lemma lunch_grid_first_fit:
  assumes t: "timetable st = lunch_grid"
    and free: "\<forall>i<3. slot_free (Faculty course) (Classroom course) 0 (s + i)
                       generate_time_slots st"
    and before: "\<forall>s'<s. \<not> slot_free (Faculty course) (Classroom course) 0 s'
                            generate_time_slots st"
  shows "first_fit course ''LEC 1'' generate_time_slots st (0, s)"
proof -
  from free [rule_format, of 2]
  have "slot_free (Faculty course) (Classroom course) 0 (s + 2) generate_time_slots st"
    by simp
  then have "s + 2 < 19"
    unfolding slot_free_def length_generate_time_slots by (rule conjunct1)
  then have c: "candidate generate_time_slots (session_duration ''LEC 1'') (0, s)"
    unfolding candidate_def session_duration_LEC length_generate_time_slots by simp
  have f: "fits course ''LEC 1'' generate_time_slots st (0, s)"
    unfolding fits_def feasible_def session_duration_LEC fst_conv snd_conv by (rule free)
  have n: "\<not> fits course ''LEC 1'' generate_time_slots st q"
    if q: "candidate generate_time_slots (session_duration ''LEC 1'') q"
      and e: "earlier (timetable st) q (0, s)" for q
  proof -
    from q have "fst q < 5" unfolding candidate_def by simp
    then have "load_of lunch_grid (fst q) = load_of lunch_grid 0"
      by (rule load_of_lunch_grid)
    then have "\<not> day_before lunch_grid (fst q) 0"
      unfolding day_before_def by simp
    with e have "fst q = 0 \<and> snd q < s"
      unfolding earlier_def t fst_conv snd_conv by blast
    with before have "\<not> slot_free (Faculty course) (Classroom course) (fst q) (snd q + 0)
        generate_time_slots st"
      by simp
    moreover have "(0::nat) < 3" by simp
    ultimately show ?thesis
      unfolding fits_def feasible_def session_duration_LEC by blast
  qed
  show ?thesis
    unfolding first_fit_def using c f n by blast
qed

lemma slot_3_break: "is_morning_break (generate_time_slots ! 3)"
  by (simp add: generate_time_slots_eq is_morning_break_def time_def)

lemma slots_4_6_no_break: "i < 3 \<Longrightarrow> \<not> is_morning_break (generate_time_slots ! (4 + i))"
  by (auto simp: generate_time_slots_eq is_morning_break_def time_def nth_Cons numeral_eq_Suc
           split: nat.splits)

text \<open>
  The run over the two departments when the random source always returns 0: the lecture
  of the first department is placed on Monday at 09:00, the lecture of the second one,
  given by the same teacher, on Monday at 11:00.
\<close>

lemma Dr_Rao_single: "\<not> faculty_flexible ''Dr Rao''" "faculty_list ''Dr Rao'' = [''Dr Rao'']"
  by (simp_all add: faculty_flexible_def faculty_list_def)

lemma two_departments_run:
  "\<exists>st g1 g2. generate_all_timetables two_departments (\<lambda>n. 0) = Inr st
     \<and> all_timetables st ''CSE_1'' = Some g1 \<and> all_timetables st ''ECE_1'' = Some g2
     \<and> block_written ''Dr Rao'' ''C101'' 0 0 3 ''LEC 1'' ''CS101'' ''Programming'' 3
          lunch_grid g1
     \<and> block_written ''Dr Rao'' ''E201'' 0 4 3 ''LEC 1'' ''EC101'' ''Circuits'' 3
          lunch_grid g2"
proof -
  let ?TS = generate_time_slots
  define cs where "cs = \<lparr> Course_Code = ''CS101'', Course_Name = ''Programming'',
    Faculty = ''Dr Rao'', Classroom = ''C101'', L = 1, T = 0, P = 0 \<rparr>"
  define ec where "ec = \<lparr> Course_Code = ''EC101'', Course_Name = ''Circuits'',
    Faculty = ''Dr Rao'', Classroom = ''E201'', L = 1, T = 0, P = 0 \<rparr>"
  define s2 where "s2 = (initial_state (\<lambda>n. 0))\<lparr>random_calls := 10, timetable := lunch_grid,
    all_timetables := [''CSE_1'' \<mapsto> lunch_grid, ''ECE_1'' \<mapsto> lunch_grid]\<rparr>"
  have td: "two_departments = [(''CSE'', ''1'', [], [], [cs]), (''ECE'', ''1'', [], [], [ec])]"
    by (simp add: two_departments_def cs_def ec_def)
  have keys: "timetable_key ''CSE'' ''1'' = ''CSE_1''" "timetable_key ''ECE'' ''1'' = ''ECE_1''"
    by (simp_all add: timetable_key_def)
  have init: "for_each (init_timetable ?TS) two_departments (initial_state (\<lambda>n. 0)) = Inr s2"
    by (simp add: td init_timetable_placed initial_state_def s2_def keys)
  have s2: "professor_schedule s2 = Map.empty" "classroom_schedule s2 = Map.empty"
    "all_timetables s2 ''CSE_1'' = Some lunch_grid"
    "all_timetables s2 ''ECE_1'' = Some lunch_grid"
    by (simp_all add: s2_def initial_state_def)
  \<comment> \<open>the first department\<close>
  have ok2: "state_ok ?TS (s2\<lparr>timetable := lunch_grid\<rparr>)"
    by (simp add: state_ok_def lunch_grid_ok s2 avail_ok_empty)
  have "first_fit cs ''LEC 1'' ?TS (s2\<lparr>timetable := lunch_grid\<rparr>) (0, 0)"
  proof (rule lunch_grid_first_fit)
    show "timetable (s2\<lparr>timetable := lunch_grid\<rparr>) = lunch_grid" by simp
    show "\<forall>i<3. slot_free (Faculty cs) (Classroom cs) 0 (0 + i) ?TS (s2\<lparr>timetable := lunch_grid\<rparr>)"
      by (simp add: slot_free_def length_generate_time_slots lunch_grid_cell empty_cell_def
            first_slots_no_break s2 slots_of_empty)
    show "\<forall>s'<0. \<not> slot_free (Faculty cs) (Classroom cs) 0 s' ?TS (s2\<lparr>timetable := lunch_grid\<rparr>)"
      by simp
  qed
  from single_lecture_group [OF _ ok2 this, of "''CSE''" "''1''"] s2(3)
  obtain s3 g1 where s3:
    "process_group ?TS (''CSE'', ''1'', [], [], [cs]) s2 = Inr s3"
    "all_timetables s3 = (all_timetables s2)(''CSE_1'' \<mapsto> g1)"
    "block_written ''Dr Rao'' ''C101'' 0 0 3 ''LEC 1'' ''CS101'' ''Programming'' 3 lunch_grid g1"
    "slots_added [''Dr Rao''] 0 0 3 (professor_schedule s2) (professor_schedule s3)"
    "slots_added [''C101''] 0 0 3 (classroom_schedule s2) (classroom_schedule s3)"
    "avail_ok (professor_schedule s3)" "avail_ok (classroom_schedule s3)"
    by (auto simp: keys cs_def Dr_Rao_single)
  \<comment> \<open>the second department\<close>
  have ps: "slots_of (professor_schedule s3) ''Dr Rao'' 0 = {0..<3}"
    using s3(4) by (simp add: slots_added_def s2 slots_of_empty)
  have cl: "slots_of (classroom_schedule s3) ''E201'' 0 = {}"
    using s3(5) by (simp add: slots_added_def s2 slots_of_empty)
  have ok3: "state_ok ?TS (s3\<lparr>timetable := lunch_grid\<rparr>)"
    by (simp add: state_ok_def lunch_grid_ok s3)
  have "first_fit ec ''LEC 1'' ?TS (s3\<lparr>timetable := lunch_grid\<rparr>) (0, 4)"
  proof (rule lunch_grid_first_fit)
    show "timetable (s3\<lparr>timetable := lunch_grid\<rparr>) = lunch_grid" by simp
    show "\<forall>i<3. slot_free (Faculty ec) (Classroom ec) 0 (4 + i) ?TS (s3\<lparr>timetable := lunch_grid\<rparr>)"
      by (simp add: slot_free_def length_generate_time_slots lunch_grid_cell empty_cell_def
            slots_4_6_no_break ps cl ec_def)
    show "\<forall>s'<4. \<not> slot_free (Faculty ec) (Classroom ec) 0 s' ?TS (s3\<lparr>timetable := lunch_grid\<rparr>)"
    proof (intro allI impI)
      fix s' :: nat
      assume "s' < 4"
      then consider "s' < 3" | "s' = 3" by linarith
      then show "\<not> slot_free (Faculty ec) (Classroom ec) 0 s' ?TS (s3\<lparr>timetable := lunch_grid\<rparr>)"
      proof cases
        case 1
        then show ?thesis by (simp add: slot_free_def ec_def Dr_Rao_single ps)
      next
        case 2
        then show ?thesis by (simp add: slot_free_def slot_3_break)
      qed
    qed
  qed
  from single_lecture_group [OF _ ok3 this, of "''ECE''" "''1''"] s2(4) s3(2)
  obtain s4 g2 where s4:
    "process_group ?TS (''ECE'', ''1'', [], [], [ec]) s3 = Inr s4"
    "all_timetables s4 = (all_timetables s3)(''ECE_1'' \<mapsto> g2)"
    "block_written ''Dr Rao'' ''E201'' 0 4 3 ''LEC 1'' ''EC101'' ''Circuits'' 3 lunch_grid g2"
    by (auto simp: keys ec_def)
  have "generate_all_timetables two_departments (\<lambda>n. 0) = Inr s4"
    unfolding generate_all_timetables_def Let_def init sum.case
    by (simp add: td s3(1) s4(1))
  moreover have "all_timetables s4 ''CSE_1'' = Some g1" "all_timetables s4 ''ECE_1'' = Some g2"
    using s4(2) s3(2) by simp_all
  ultimately show ?thesis using s3(3) s4(3) by blast
qed

text \<open>The first cell of a lecture written to the grid with the lunch at 12:30.\<close>

lemma lecture_on_lunch_grid:
  assumes "block_written faculty classroom day start_slot 3 ''LEC 1'' code name 3 lunch_grid g"
    "day < 5" "start_slot < 19"
  shows "day < length g" "start_slot < length (g ! day)" "session_start (g ! day ! start_slot)"
    "cell_faculty (g ! day ! start_slot) = faculty" "cell_duration (g ! day ! start_slot) = 3"
  using assms
  by (simp_all add: block_written_def lunch_grid_def session_cell_def session_start_def)

lemma single_faculty_recorded:
  assumes "state_ok TIME_SLOTS s" "day < length DAYS" "\<not> faculty_flexible faculty"
    "start_slot + duration \<le> length TIME_SLOTS"
  shows "\<exists>s'. update_schedule faculty classroom day start_slot duration session_type code name s
                 = Inr s'
           \<and> state_ok TIME_SLOTS s'
           \<and> slots_of (professor_schedule s') faculty day
               = slots_of (professor_schedule s) faculty day
                 \<union> {start_slot..<start_slot + duration}"
proof -
  from assms(3) have "faculty_list faculty = [faculty]"
    by (simp add: faculty_flexible_def faculty_list_def)
  with update_schedule_ok [OF assms(1,2,4), of faculty classroom session_type code name]
  show ?thesis
    by (auto simp: committed_def slots_added_def)
qed

lemma recorded_slot_rejected:
  assumes "state_ok TIME_SLOTS s" "day < length DAYS" "\<not> faculty_flexible faculty"
    "\<exists>i<duration. start_slot + i \<in> slots_of (professor_schedule s) faculty day"
  shows "check_scheduling_possibility faculty classroom day start_slot duration TIME_SLOTS s
           = Inr False"
  unfolding check_ok [OF assms(1,2)] feasible_def slot_free_def
  using assms(3,4) by auto





section \<open>Theorems\<close>

subsection \<open>The feasibility check\<close>

text \<open>
  C2: the check accepts a candidate only if every slot of its range is inside the
  calendar, has an empty grid cell on that day, is not a morning-break slot and, for a
  faculty designator that is not flexible, is not recorded for that faculty on that day;
  a slot of the range that fails one of these makes the check return false.
\<close>

theorem check_accepts_only_free_range:
  assumes "state_ok TIME_SLOTS st" and "day < length DAYS"
  shows "(check_scheduling_possibility faculty classroom day start_slot duration TIME_SLOTS st
            = Inr True
          \<longrightarrow> (\<forall>i<duration.
                 start_slot + i < length TIME_SLOTS
                 \<and> cell_type (timetable st ! day ! (start_slot + i)) = None
                 \<and> \<not> is_morning_break (TIME_SLOTS ! (start_slot + i))
                 \<and> (\<not> faculty_flexible faculty
                      \<longrightarrow> start_slot + i \<notin> slots_of (professor_schedule st) faculty day)))
       \<and> ((\<exists>i<duration.
              \<not> (start_slot + i < length TIME_SLOTS
                  \<and> cell_type (timetable st ! day ! (start_slot + i)) = None
                  \<and> \<not> is_morning_break (TIME_SLOTS ! (start_slot + i))
                  \<and> (\<not> faculty_flexible faculty
                       \<longrightarrow> start_slot + i \<notin> slots_of (professor_schedule st) faculty day)))
          \<longrightarrow> check_scheduling_possibility faculty classroom day start_slot duration
                TIME_SLOTS st = Inr False)"
  unfolding check_ok [OF assms] feasible_def slot_free_def by auto

theorem check_accepts_only_free_range_witness:
  "state_ok morning_slots (fresh_state morning_slots) \<and> (0::nat) < length DAYS
   \<and> (\<exists>i<3. is_morning_break (morning_slots ! (1 + i)))
   \<and> check_scheduling_possibility ''Dr Rao'' ''C101'' 0 1 3 morning_slots
        (fresh_state morning_slots) = Inr False"
proof -
  have b: "\<exists>i<3. is_morning_break (morning_slots ! (1 + i))"
    by (rule exI [of _ 2]) (simp add: morning_slots_def is_morning_break_def time_def)
  have d: "(0::nat) < length DAYS" by simp
  from check_accepts_only_free_range [OF fresh_state_ok d, where faculty = "''Dr Rao''"
      and classroom = "''C101''" and start_slot = 1 and duration = 3 and TIME_SLOTS = morning_slots] b
  have "check_scheduling_possibility ''Dr Rao'' ''C101'' 0 1 3 morning_slots
        (fresh_state morning_slots) = Inr False"
    by blast
  with b d fresh_state_ok show ?thesis by blast
qed

text \<open>
  C3 as stated fails: a classroom designator that joins two names by \<open>/\<close> is checked
  against its own occupied slots like any single name.
\<close>

theorem slash_classroom_not_exempt:
  "CHR ''/'' \<in> set ''R1/R2''
   \<and> check_scheduling_possibility ''Dr Rao'' ''R1/R2'' 0 0 2 morning_slots shared_room_state
       = Inr False
   \<and> check_scheduling_possibility ''Dr Rao'' ''R1/R2'' 0 0 2 morning_slots
       (shared_room_state\<lparr>classroom_schedule := Map.empty\<rparr>) = Inr True"
  by code_simp

text \<open>
  C3, amended: the check ignores the classroom availability exactly for a placeholder
  designator (one that starts with \<open>TBD_\<close> or contains \<open>Will be scheduled\<close>); for any
  other designator, also one that lists alternatives, an occupied slot of that
  designator in the range makes the check return false.
\<close>

theorem classroom_exempt_iff_placeholder:
  assumes "state_ok TIME_SLOTS st" and "day < length DAYS"
  shows "(prefix ''TBD_'' classroom \<or> sublist ''Will be scheduled'' classroom
          \<longrightarrow> (\<forall>schedule. avail_ok schedule
                \<longrightarrow> check_scheduling_possibility faculty classroom day start_slot duration
                      TIME_SLOTS (st\<lparr>classroom_schedule := schedule\<rparr>)
                    = check_scheduling_possibility faculty classroom day start_slot duration
                        TIME_SLOTS st))
       \<and> (\<not> (prefix ''TBD_'' classroom \<or> sublist ''Will be scheduled'' classroom)
          \<longrightarrow> (\<exists>i<duration. start_slot + i \<in> slots_of (classroom_schedule st) classroom day)
          \<longrightarrow> check_scheduling_possibility faculty classroom day start_slot duration
                TIME_SLOTS st = Inr False)"
proof -
  have "state_ok TIME_SLOTS (st\<lparr>classroom_schedule := schedule\<rparr>)" if "avail_ok schedule"
    for schedule
    using assms(1) that by (simp add: state_ok_def)
  then show ?thesis
    unfolding check_ok [OF assms]
    by (auto simp: check_ok [OF _ assms(2)] feasible_def slot_free_def classroom_flexible_def)
qed

theorem classroom_exempt_iff_placeholder_witness:
  "state_ok morning_slots shared_room_state \<and> (0::nat) < length DAYS
   \<and> \<not> (prefix ''TBD_'' ''R1/R2'' \<or> sublist ''Will be scheduled'' ''R1/R2'')
   \<and> (\<exists>i<2. 0 + i \<in> slots_of (classroom_schedule shared_room_state) ''R1/R2'' 0)
   \<and> check_scheduling_possibility ''Dr Rao'' ''R1/R2'' 0 0 2 morning_slots shared_room_state
       = Inr False"
proof -
  have ok: "state_ok morning_slots shared_room_state"
    using fresh_state_ok [of morning_slots]
    by (simp add: shared_room_state_def state_ok_def avail_ok_def)
  have d: "(0::nat) < length DAYS" by simp
  have p: "\<not> (prefix ''TBD_'' ''R1/R2'' \<or> sublist ''Will be scheduled'' ''R1/R2'')"
    by code_simp
  have b: "\<exists>i<2. 0 + i \<in> slots_of (classroom_schedule shared_room_state) ''R1/R2'' 0"
    by (rule exI [of _ 0]) (simp add: shared_room_state_def slots_of_def)
  from classroom_exempt_iff_placeholder [OF ok d, where classroom = "''R1/R2''"
      and faculty = "''Dr Rao''" and start_slot = 0 and duration = 2] p b
  have "check_scheduling_possibility ''Dr Rao'' ''R1/R2'' 0 0 2 morning_slots shared_room_state
       = Inr False"
    by blast
  with ok d p b show ?thesis by blast
qed

subsection \<open>Phase 2 and failure\<close>

text \<open>
  C5 fails on the code where a request is longer than the calendar. On a well-formed
  state a request for which some candidate fits is placed by Phase 1 and makes no random
  draw, so Phase 2 is entered only when no candidate fits. When no candidate fits and
  the request is not longer than the calendar, Phase 2 makes exactly \<open>attempt_limit\<close>
  trials of two draws each, every trial a day of the week and a start slot in range that
  does not fit, and the request returns the outcome \<open>False\<close> with a failed row, as a
  value; with a budget of zero it returns \<open>False\<close> without a draw. When the request is
  longer than the calendar and the budget is not zero, the first trial of Phase 2 raises
  \<open>ValueError\<close> in \<^verbatim>\<open>random.randint(0, len(TIME_SLOTS)-duration)\<close>: the failure is raised
  as an exception and not returned as an outcome.
\<close>

theorem phase2_exhausts_or_raises:
  "(state_ok TIME_SLOTS st
      \<and> (\<exists>p. candidate TIME_SLOTS (session_duration session_type) p
               \<and> fits course session_type TIME_SLOTS st p)
    \<longrightarrow> (\<exists>st'. schedule_session department semester course session_type TIME_SLOTS
                   attempt_limit st = Inr (True, st')
             \<and> random_calls st' = random_calls st))
   \<and> (state_ok TIME_SLOTS st
      \<and> session_duration session_type \<le> length TIME_SLOTS
      \<and> \<not> (\<exists>p. candidate TIME_SLOTS (session_duration session_type) p
                 \<and> fits course session_type TIME_SLOTS st p)
    \<longrightarrow> schedule_session department semester course session_type TIME_SLOTS attempt_limit st
          = Inr (False, st\<lparr>random_calls := random_calls st + 2 * attempt_limit,
                           summary_ws := summary_ws st @
                             [[department, semester, Course_Code course, Course_Name course,
                               session_type, Faculty course, Classroom course, STATUS_FAILED,
                               ''N/A'']]\<rparr>)
        \<and> (\<forall>k<attempt_limit.
              fst (trial TIME_SLOTS (session_duration session_type) st k) < length DAYS
              \<and> snd (trial TIME_SLOTS (session_duration session_type) st k)
                    + session_duration session_type \<le> length TIME_SLOTS
              \<and> \<not> fits course session_type TIME_SLOTS st
                     (trial TIME_SLOTS (session_duration session_type) st k)))
   \<and> (state_ok TIME_SLOTS st
      \<and> length TIME_SLOTS < session_duration session_type
    \<longrightarrow> schedule_session department semester course session_type TIME_SLOTS attempt_limit st
          = (if attempt_limit = 0
             then Inr (False, st\<lparr>summary_ws := summary_ws st @
                             [[department, semester, Course_Code course, Course_Name course,
                               session_type, Faculty course, Classroom course, STATUS_FAILED,
                               ''N/A'']]\<rparr>)
             else Inl ValueError))"
proof (intro conjI impI allI)
  assume a: "state_ok TIME_SLOTS st
      \<and> (\<exists>p. candidate TIME_SLOTS (session_duration session_type) p
               \<and> fits course session_type TIME_SLOTS st p)"
  with first_fit_cases [of course session_type TIME_SLOTS st]
  obtain p where p: "first_fit course session_type TIME_SLOTS st p" by blast
  from a have ok: "state_ok TIME_SLOTS st" by simp
  from p have c: "candidate TIME_SLOTS (session_duration session_type) (fst p, snd p)"
    by (simp add: first_fit_def)
  from schedule_session_first_fit [OF ok p, of department semester attempt_limit]
  obtain st' where st': "commit department semester course session_type (fst p) (snd p)
      TIME_SLOTS st = Inr st'"
    "schedule_session department semester course session_type TIME_SLOTS attempt_limit st
       = Inr (True, st')"
    by blast
  from commit_effect [OF ok c, of department semester course] st'(1)
  have "random_calls st' = random_calls st" by auto
  with st'(2) show "\<exists>st'. schedule_session department semester course session_type TIME_SLOTS
                   attempt_limit st = Inr (True, st')
             \<and> random_calls st' = random_calls st"
    by blast
next
  assume a: "state_ok TIME_SLOTS st
      \<and> session_duration session_type \<le> length TIME_SLOTS
      \<and> \<not> (\<exists>p. candidate TIME_SLOTS (session_duration session_type) p
                 \<and> fits course session_type TIME_SLOTS st p)"
  then have ok: "state_ok TIME_SLOTS st"
    and d: "session_duration session_type \<le> length TIME_SLOTS"
    and n: "\<forall>p. candidate TIME_SLOTS (session_duration session_type) p
              \<longrightarrow> \<not> fits course session_type TIME_SLOTS st p"
    by blast+
  from schedule_session_no_fit [OF ok d n, of department semester attempt_limit]
  show "schedule_session department semester course session_type TIME_SLOTS attempt_limit st
          = Inr (False, st\<lparr>random_calls := random_calls st + 2 * attempt_limit,
                           summary_ws := summary_ws st @
                             [[department, semester, Course_Code course, Course_Name course,
                               session_type, Faculty course, Classroom course, STATUS_FAILED,
                               ''N/A'']]\<rparr>)"
    by (simp add: failed_row_def)
  fix k
  note c = trial_candidate [OF d, of st k]
  then show "fst (trial TIME_SLOTS (session_duration session_type) st k) < length DAYS"
    unfolding candidate_def by (rule conjunct1)
  from c show "snd (trial TIME_SLOTS (session_duration session_type) st k)
                 + session_duration session_type \<le> length TIME_SLOTS"
    unfolding candidate_def by (rule conjunct2)
  from n c show "\<not> fits course session_type TIME_SLOTS st
                     (trial TIME_SLOTS (session_duration session_type) st k)"
    by blast
next
  assume "state_ok TIME_SLOTS st \<and> length TIME_SLOTS < session_duration session_type"
  then have ok: "state_ok TIME_SLOTS st"
    and l: "length TIME_SLOTS < session_duration session_type"
    by simp_all
  from schedule_session_too_long [OF ok l, of department semester course attempt_limit]
  show "schedule_session department semester course session_type TIME_SLOTS attempt_limit st
          = (if attempt_limit = 0
             then Inr (False, st\<lparr>summary_ws := summary_ws st @
                             [[department, semester, Course_Code course, Course_Name course,
                               session_type, Faculty course, Classroom course, STATUS_FAILED,
                               ''N/A'']]\<rparr>)
             else Inl ValueError)"
    by (simp add: failed_row_def)
qed

theorem phase2_exhausts_or_raises_witness:
  "state_ok (take 3 morning_slots) (fresh_state (take 3 morning_slots))
   \<and> length (take 3 morning_slots) < session_duration ''LAB''
   \<and> schedule_session ''CSE'' ''1'' example_course ''LAB'' (take 3 morning_slots) 1
       (fresh_state (take 3 morning_slots)) = Inl ValueError
   \<and> state_ok morning_slots (fresh_state morning_slots)
   \<and> session_duration ''LAB'' \<le> length morning_slots
   \<and> \<not> (\<exists>p. candidate morning_slots (session_duration ''LAB'') p
              \<and> fits example_course ''LAB'' morning_slots (fresh_state morning_slots) p)
   \<and> (\<exists>st'. schedule_session ''CSE'' ''1'' example_course ''LAB'' morning_slots 3
               (fresh_state morning_slots) = Inr (False, st')
           \<and> random_calls st' = 6
           \<and> last (summary_ws st') ! 7 = STATUS_FAILED
           \<and> timetable st' = timetable (fresh_state morning_slots)
           \<and> professor_schedule st' = Map.empty)
   \<and> (\<exists>p. candidate generate_time_slots (session_duration ''LEC 1'') p
           \<and> fits example_course ''LEC 1'' generate_time_slots
               (fresh_state generate_time_slots) p)
   \<and> (\<exists>st'. schedule_session ''CSE'' ''1'' example_course ''LEC 1'' generate_time_slots 3
               (fresh_state generate_time_slots) = Inr (True, st')
           \<and> random_calls st' = 0)"
proof -
  have l: "length (take 3 morning_slots) < session_duration ''LAB''"
    by (simp add: session_duration_LAB length_morning_slots)
  from phase2_exhausts_or_raises [where TIME_SLOTS = "take 3 morning_slots"
      and st = "fresh_state (take 3 morning_slots)" and session_type = "''LAB''"
      and department = "''CSE''" and semester = "''1''" and course = example_course
      and attempt_limit = 1, THEN conjunct2, THEN conjunct2]
    fresh_state_ok [of "take 3 morning_slots"] l
  have r: "schedule_session ''CSE'' ''1'' example_course ''LAB'' (take 3 morning_slots) 1
       (fresh_state (take 3 morning_slots)) = Inl ValueError"
    by simp
  have d: "session_duration ''LAB'' \<le> length morning_slots"
    by (simp add: session_duration_LAB length_morning_slots)
  have z: "random_calls (fresh_state TS) = 0" "professor_schedule (fresh_state TS) = Map.empty"
    for TS
    by (simp_all add: fresh_state_def initial_state_def)
  from phase2_exhausts_or_raises [where TIME_SLOTS = morning_slots
      and st = "fresh_state morning_slots" and session_type = "''LAB''"
      and department = "''CSE''" and semester = "''1''" and course = example_course
      and attempt_limit = 3, THEN conjunct2, THEN conjunct1]
    fresh_state_ok [of morning_slots] d lab_never_fits_morning
  have "schedule_session ''CSE'' ''1'' example_course ''LAB'' morning_slots 3
               (fresh_state morning_slots)
     = Inr (False, (fresh_state morning_slots)
          \<lparr>random_calls := random_calls (fresh_state morning_slots) + 2 * 3,
           summary_ws := summary_ws (fresh_state morning_slots) @
             [[''CSE'', ''1'', Course_Code example_course, Course_Name example_course,
               ''LAB'', Faculty example_course, Classroom example_course, STATUS_FAILED,
               ''N/A'']]\<rparr>)"
    by blast
  then have e: "\<exists>st'. schedule_session ''CSE'' ''1'' example_course ''LAB'' morning_slots 3
               (fresh_state morning_slots) = Inr (False, st')
           \<and> random_calls st' = 6
           \<and> last (summary_ws st') ! 7 = STATUS_FAILED
           \<and> timetable st' = timetable (fresh_state morning_slots)
           \<and> professor_schedule st' = Map.empty"
    by (simp add: z)
  have f: "first_fit example_course ''LEC 1'' generate_time_slots
      (fresh_state generate_time_slots) (0, 0)"
    by (rule first_lecture_first_fit) (simp_all add: fresh_state_def initial_state_def)
  then have q: "\<exists>p. candidate generate_time_slots (session_duration ''LEC 1'') p
           \<and> fits example_course ''LEC 1'' generate_time_slots
               (fresh_state generate_time_slots) p"
    unfolding first_fit_def by blast
  from phase2_exhausts_or_raises [where TIME_SLOTS = generate_time_slots
      and st = "fresh_state generate_time_slots" and session_type = "''LEC 1''"
      and department = "''CSE''" and semester = "''1''" and course = example_course
      and attempt_limit = 3, THEN conjunct1]
    fresh_state_ok [of generate_time_slots] q
  have s: "\<exists>st'. schedule_session ''CSE'' ''1'' example_course ''LEC 1'' generate_time_slots 3
               (fresh_state generate_time_slots) = Inr (True, st')
           \<and> random_calls st' = 0"
    by (simp add: z)
  show ?thesis
    by (intro conjI fresh_state_ok l r d lab_never_fits_morning e q s)
qed

subsection \<open>Atomic placement\<close>

text \<open>
  C6: a request that returns \<open>False\<close> leaves the grid, the professor schedule and the
  classroom schedule exactly as they were; a request that returns \<open>True\<close> has written
  the whole range of one candidate, every slot of which passed the check in the state
  before the call, to the grid and to both schedules.
\<close>

theorem placement_is_atomic:
  assumes "state_ok TIME_SLOTS st"
    and "schedule_session department semester course session_type TIME_SLOTS attempt_limit st
           = Inr (scheduled, st')"
  shows "(\<not> scheduled
          \<longrightarrow> timetable st' = timetable st
              \<and> professor_schedule st' = professor_schedule st
              \<and> classroom_schedule st' = classroom_schedule st)
       \<and> (scheduled
          \<longrightarrow> (\<exists>day start_slot.
                 candidate TIME_SLOTS (session_duration session_type) (day, start_slot)
                 \<and> fits course session_type TIME_SLOTS st (day, start_slot)
                 \<and> block_written (Faculty course) (Classroom course) day start_slot
                      (session_duration session_type) session_type (Course_Code course)
                      (Course_Name course) (session_duration session_type)
                      (timetable st) (timetable st')
                 \<and> slots_added (faculty_list (Faculty course)) day start_slot
                      (session_duration session_type)
                      (professor_schedule st) (professor_schedule st')
                 \<and> slots_added [Classroom course] day start_slot
                      (session_duration session_type)
                      (classroom_schedule st) (classroom_schedule st')))"
proof (cases "session_duration session_type \<le> length TIME_SLOTS")
  case True
  from first_fit_cases [of course session_type TIME_SLOTS st]
  show ?thesis
  proof
    assume "\<exists>p. first_fit course session_type TIME_SLOTS st p"
    then obtain p where p: "first_fit course session_type TIME_SLOTS st p" ..
    then have c: "candidate TIME_SLOTS (session_duration session_type) (fst p, snd p)"
      and f: "fits course session_type TIME_SLOTS st (fst p, snd p)"
      by (simp_all add: first_fit_def)
    from schedule_session_first_fit [OF assms(1) p, of department semester attempt_limit] assms(2)
    have s: "scheduled" and st': "commit department semester course session_type (fst p) (snd p)
        TIME_SLOTS st = Inr st'"
      by auto
    from commit_effect [OF assms(1) c, of department semester course] st'
    have "block_written (Faculty course) (Classroom course) (fst p) (snd p)
            (session_duration session_type) session_type (Course_Code course)
            (Course_Name course) (session_duration session_type)
            (timetable st) (timetable st')
          \<and> slots_added (faculty_list (Faculty course)) (fst p) (snd p)
              (session_duration session_type)
              (professor_schedule st) (professor_schedule st')
          \<and> slots_added [Classroom course] (fst p) (snd p)
              (session_duration session_type)
              (classroom_schedule st) (classroom_schedule st')"
      by simp
    with c f s show ?thesis by blast
  next
    assume n: "\<forall>p. candidate TIME_SLOTS (session_duration session_type) p
                  \<longrightarrow> \<not> fits course session_type TIME_SLOTS st p"
    from schedule_session_no_fit [OF assms(1) True n, of department semester attempt_limit] assms(2)
    show ?thesis by auto
  qed
next
  case False
  then have "length TIME_SLOTS < session_duration session_type" by simp
  from schedule_session_too_long [OF assms(1) this, of department semester course attempt_limit]
    assms(2)
  show ?thesis by (auto split: if_splits)
qed

theorem placement_is_atomic_witness:
  "state_ok morning_slots (fresh_state morning_slots)
   \<and> schedule_session ''CSE'' ''1'' example_course ''LAB'' morning_slots 0
       (fresh_state morning_slots)
     = Inr (False, (fresh_state morning_slots)
              \<lparr>random_calls := random_calls (fresh_state morning_slots) + 2 * 0,
               summary_ws := summary_ws (fresh_state morning_slots) @
                 [failed_row ''CSE'' ''1'' example_course ''LAB'']\<rparr>)
   \<and> timetable ((fresh_state morning_slots)
              \<lparr>random_calls := random_calls (fresh_state morning_slots) + 2 * 0,
               summary_ws := summary_ws (fresh_state morning_slots) @
                 [failed_row ''CSE'' ''1'' example_course ''LAB'']\<rparr>)
       = timetable (fresh_state morning_slots)"
proof -
  have d: "session_duration ''LAB'' \<le> length morning_slots"
    by (simp add: session_duration_LAB length_morning_slots)
  have n: "\<forall>p. candidate morning_slots (session_duration ''LAB'') p
             \<longrightarrow> \<not> fits example_course ''LAB'' morning_slots (fresh_state morning_slots) p"
    using lab_never_fits_morning by blast
  note e = schedule_session_no_fit [OF fresh_state_ok d n, of "''CSE''" "''1''" 0]
  from placement_is_atomic [OF fresh_state_ok e, THEN conjunct1]
  have "timetable ((fresh_state morning_slots)
              \<lparr>random_calls := random_calls (fresh_state morning_slots) + 2 * 0,
               summary_ws := summary_ws (fresh_state morning_slots) @
                 [failed_row ''CSE'' ''1'' example_course ''LAB'']\<rparr>)
       = timetable (fresh_state morning_slots)"
    by simp
  then show ?thesis
    by (intro conjI) (rule fresh_state_ok, rule e, assumption)
qed

subsection \<open>A request longer than the calendar\<close>

text \<open>
  C7 fails on the code: for a lecture (three slots) on a calendar of two slots Phase 1
  has no candidate, and the first trial of Phase 2 raises \<open>ValueError\<close> in
  \<^verbatim>\<open>random.randint(0, len(TIME_SLOTS)-duration)\<close> instead of returning a failed outcome.
\<close>

theorem too_long_request_raises:
  "schedule_session ''CSE'' ''1'' example_course ''LEC 1'' (take 2 morning_slots) 5000
     (fresh_state (take 2 morning_slots)) = Inl ValueError"
proof -
  have "length (take 2 morning_slots) < session_duration ''LEC 1''"
    by (simp add: session_duration_LEC length_morning_slots)
  from schedule_session_too_long [OF fresh_state_ok this]
  show ?thesis by simp
qed

subsection \<open>Phase 1\<close>

text \<open>
  C4: when some candidate fits there is a first one in the order of Phase 1 (days by
  ascending load, equal loads by day index, start slots by index), and the request
  returns \<open>True\<close> with the session written there and nowhere else: the cells of that range
  of the grid, the slots of that range in the records of the faculty and of the
  classroom, and one summary row with that day and start time; it makes no random draw.
  In particular, with nothing booked and an empty grid of the working day, a first
  lecture is written on Monday at the slots 0 to 2, and a second lecture of the same
  course is then written on Tuesday at the slots 0 to 2.
\<close>

theorem phase1_commits_first_fit:
  "((\<exists>q. candidate TIME_SLOTS (session_duration session_type) q
          \<and> fits course session_type TIME_SLOTS st q)
      \<longrightarrow> (\<exists>p. first_fit course session_type TIME_SLOTS st p))
   \<and> (state_ok TIME_SLOTS st \<and> first_fit course session_type TIME_SLOTS st p
      \<longrightarrow> (\<exists>st'. schedule_session department semester course session_type TIME_SLOTS
                    attempt_limit st = Inr (True, st')
               \<and> commit department semester course session_type (fst p) (snd p) TIME_SLOTS st
                   = Inr st'
               \<and> block_written (Faculty course) (Classroom course) (fst p) (snd p)
                    (session_duration session_type) session_type (Course_Code course)
                    (Course_Name course) (session_duration session_type)
                    (timetable st) (timetable st')
               \<and> slots_added (faculty_list (Faculty course)) (fst p) (snd p)
                    (session_duration session_type)
                    (professor_schedule st) (professor_schedule st')
               \<and> slots_added [Classroom course] (fst p) (snd p)
                    (session_duration session_type)
                    (classroom_schedule st) (classroom_schedule st')
               \<and> summary_ws st' = summary_ws st @
                    [[department, semester, Course_Code course, Course_Name course,
                      session_type, Faculty course, Classroom course, STATUS_SCHEDULED,
                      DAYS ! fst p @ '' '' @ strftime_HM (fst (TIME_SLOTS ! snd p))]]
               \<and> random_calls st' = random_calls st))
   \<and> (professor_schedule init = Map.empty \<and> classroom_schedule init = Map.empty
       \<and> timetable init = new_timetable generate_time_slots
      \<longrightarrow> (\<exists>st1 st2.
             schedule_session department semester course ''LEC 1'' generate_time_slots
               attempt_limit init = Inr (True, st1)
             \<and> block_written (Faculty course) (Classroom course) 0 0 3 ''LEC 1''
                  (Course_Code course) (Course_Name course) 3 (timetable init) (timetable st1)
             \<and> slots_added (faculty_list (Faculty course)) 0 0 3
                  (professor_schedule init) (professor_schedule st1)
             \<and> slots_added [Classroom course] 0 0 3
                  (classroom_schedule init) (classroom_schedule st1)
             \<and> schedule_session department semester course ''LEC 2'' generate_time_slots
                 attempt_limit st1 = Inr (True, st2)
             \<and> block_written (Faculty course) (Classroom course) 1 0 3 ''LEC 2''
                  (Course_Code course) (Course_Name course) 3 (timetable st1) (timetable st2)
             \<and> slots_added (faculty_list (Faculty course)) 1 0 3
                  (professor_schedule st1) (professor_schedule st2)
             \<and> slots_added [Classroom course] 1 0 3
                  (classroom_schedule st1) (classroom_schedule st2)
             \<and> random_calls st2 = random_calls init))"
proof (intro conjI impI)
  assume "\<exists>q. candidate TIME_SLOTS (session_duration session_type) q
          \<and> fits course session_type TIME_SLOTS st q"
  with first_fit_cases [of course session_type TIME_SLOTS st]
  show "\<exists>p. first_fit course session_type TIME_SLOTS st p" by blast
next
  assume a: "state_ok TIME_SLOTS st \<and> first_fit course session_type TIME_SLOTS st p"
  then have ok: "state_ok TIME_SLOTS st" and p: "first_fit course session_type TIME_SLOTS st p"
    by simp_all
  from p have c: "candidate TIME_SLOTS (session_duration session_type) (fst p, snd p)"
    by (simp add: first_fit_def)
  from schedule_session_first_fit [OF ok p, of department semester attempt_limit]
  obtain st' where st': "commit department semester course session_type (fst p) (snd p)
      TIME_SLOTS st = Inr st'"
    "schedule_session department semester course session_type TIME_SLOTS attempt_limit st
       = Inr (True, st')"
    by blast
  from commit_effect [OF ok c, of department semester course] st'(1)
  have "block_written (Faculty course) (Classroom course) (fst p) (snd p)
          (session_duration session_type) session_type (Course_Code course)
          (Course_Name course) (session_duration session_type) (timetable st) (timetable st')"
    "slots_added (faculty_list (Faculty course)) (fst p) (snd p)
       (session_duration session_type) (professor_schedule st) (professor_schedule st')"
    "slots_added [Classroom course] (fst p) (snd p)
       (session_duration session_type) (classroom_schedule st) (classroom_schedule st')"
    "summary_ws st' = summary_ws st @
       [[department, semester, Course_Code course, Course_Name course,
         session_type, Faculty course, Classroom course, STATUS_SCHEDULED,
         DAYS ! fst p @ '' '' @ strftime_HM (fst (TIME_SLOTS ! snd p))]]"
    "random_calls st' = random_calls st"
    by (auto simp: scheduled_row_def)
  with st' show "\<exists>st'. schedule_session department semester course session_type TIME_SLOTS
                    attempt_limit st = Inr (True, st')
               \<and> commit department semester course session_type (fst p) (snd p) TIME_SLOTS st
                   = Inr st'
               \<and> block_written (Faculty course) (Classroom course) (fst p) (snd p)
                    (session_duration session_type) session_type (Course_Code course)
                    (Course_Name course) (session_duration session_type)
                    (timetable st) (timetable st')
               \<and> slots_added (faculty_list (Faculty course)) (fst p) (snd p)
                    (session_duration session_type)
                    (professor_schedule st) (professor_schedule st')
               \<and> slots_added [Classroom course] (fst p) (snd p)
                    (session_duration session_type)
                    (classroom_schedule st) (classroom_schedule st')
               \<and> summary_ws st' = summary_ws st @
                    [[department, semester, Course_Code course, Course_Name course,
                      session_type, Faculty course, Classroom course, STATUS_SCHEDULED,
                      DAYS ! fst p @ '' '' @ strftime_HM (fst (TIME_SLOTS ! snd p))]]
               \<and> random_calls st' = random_calls st"
    by blast
next
  assume e: "professor_schedule init = Map.empty \<and> classroom_schedule init = Map.empty
       \<and> timetable init = new_timetable generate_time_slots"
  then have e1: "professor_schedule init = Map.empty" and e2: "classroom_schedule init = Map.empty"
    and e3: "timetable init = new_timetable generate_time_slots"
    by simp_all
  have ok: "state_ok generate_time_slots init" by (rule state_ok_empty [OF e1 e2 e3])
  note f0 = first_lecture_first_fit [OF e1 e2 e3, of course]
  from schedule_session_first_fit [OF ok f0, of department semester attempt_limit]
  obtain st1 where st1: "commit department semester course ''LEC 1'' 0 0 generate_time_slots init
      = Inr st1"
    "schedule_session department semester course ''LEC 1'' generate_time_slots attempt_limit init
      = Inr (True, st1)"
    by auto
  have c0: "candidate generate_time_slots (session_duration ''LEC 1'') (0, 0)"
    using f0 by (simp add: first_fit_def)
  from commit_effect [OF ok c0, of department semester course] st1(1)
  have w1: "block_written (Faculty course) (Classroom course) 0 0 3 ''LEC 1''
         (Course_Code course) (Course_Name course) 3 (timetable init) (timetable st1)"
    "slots_added (faculty_list (Faculty course)) 0 0 3
       (professor_schedule init) (professor_schedule st1)"
    "slots_added [Classroom course] 0 0 3 (classroom_schedule init) (classroom_schedule st1)"
    "random_calls st1 = random_calls init"
    by (auto simp: session_duration_LEC)
  from second_lecture_first_fit [OF e1 e2 e3 st1(1)]
  have ok1: "state_ok generate_time_slots st1"
    and f1: "first_fit course ''LEC 2'' generate_time_slots st1 (1, 0)"
    by simp_all
  from schedule_session_first_fit [OF ok1 f1, of department semester attempt_limit]
  obtain st2 where st2: "commit department semester course ''LEC 2'' 1 0 generate_time_slots st1
      = Inr st2"
    "schedule_session department semester course ''LEC 2'' generate_time_slots attempt_limit st1
      = Inr (True, st2)"
    by auto
  have c1: "candidate generate_time_slots (session_duration ''LEC 2'') (1, 0)"
    using f1 by (simp add: first_fit_def)
  from commit_effect [OF ok1 c1, of department semester course] st2(1)
  have w2: "block_written (Faculty course) (Classroom course) 1 0 3 ''LEC 2''
         (Course_Code course) (Course_Name course) 3 (timetable st1) (timetable st2)"
    "slots_added (faculty_list (Faculty course)) 1 0 3
       (professor_schedule st1) (professor_schedule st2)"
    "slots_added [Classroom course] 1 0 3 (classroom_schedule st1) (classroom_schedule st2)"
    "random_calls st2 = random_calls st1"
    by (auto simp: session_duration_LEC)
  from st1(2) st2(2) w1 w2 show "\<exists>st1 st2.
             schedule_session department semester course ''LEC 1'' generate_time_slots
               attempt_limit init = Inr (True, st1)
             \<and> block_written (Faculty course) (Classroom course) 0 0 3 ''LEC 1''
                  (Course_Code course) (Course_Name course) 3 (timetable init) (timetable st1)
             \<and> slots_added (faculty_list (Faculty course)) 0 0 3
                  (professor_schedule init) (professor_schedule st1)
             \<and> slots_added [Classroom course] 0 0 3
                  (classroom_schedule init) (classroom_schedule st1)
             \<and> schedule_session department semester course ''LEC 2'' generate_time_slots
                 attempt_limit st1 = Inr (True, st2)
             \<and> block_written (Faculty course) (Classroom course) 1 0 3 ''LEC 2''
                  (Course_Code course) (Course_Name course) 3 (timetable st1) (timetable st2)
             \<and> slots_added (faculty_list (Faculty course)) 1 0 3
                  (professor_schedule st1) (professor_schedule st2)
             \<and> slots_added [Classroom course] 1 0 3
                  (classroom_schedule st1) (classroom_schedule st2)
             \<and> random_calls st2 = random_calls init"
    by (intro exI [of _ st1] exI [of _ st2]) simp
qed

theorem phase1_commits_first_fit_witness:
  "(\<exists>q. candidate generate_time_slots (session_duration ''LEC 1'') q
        \<and> fits example_course ''LEC 1'' generate_time_slots (fresh_state generate_time_slots) q)
   \<and> state_ok generate_time_slots (fresh_state generate_time_slots)
   \<and> first_fit example_course ''LEC 1'' generate_time_slots (fresh_state generate_time_slots)
       (0, 0)
   \<and> (\<exists>st1 st2.
         schedule_session ''CSE'' ''1'' example_course ''LEC 1'' generate_time_slots 5000
           (fresh_state generate_time_slots) = Inr (True, st1)
         \<and> schedule_session ''CSE'' ''1'' example_course ''LEC 2'' generate_time_slots 5000
             st1 = Inr (True, st2)
         \<and> map (\<lambda>s. cell_type (timetable st1 ! 0 ! s)) [0, 1, 2, 3]
             = [Some ''LEC 1'', Some ''LEC 1'', Some ''LEC 1'', None]
         \<and> map (\<lambda>d. cell_type (timetable st1 ! d ! 0)) [1, 2, 3, 4] = [None, None, None, None]
         \<and> map (\<lambda>s. cell_type (timetable st2 ! 0 ! s)) [0, 1, 2, 3]
             = [Some ''LEC 1'', Some ''LEC 1'', Some ''LEC 1'', None]
         \<and> map (\<lambda>s. cell_type (timetable st2 ! 1 ! s)) [0, 1, 2, 3]
             = [Some ''LEC 2'', Some ''LEC 2'', Some ''LEC 2'', None]
         \<and> map (\<lambda>s. cell_position (timetable st2 ! 1 ! s)) [0, 1, 2] = [0, 1, 2]
         \<and> cell_faculty (timetable st2 ! 1 ! 0) = ''Dr Rao''
         \<and> cell_duration (timetable st2 ! 1 ! 0) = 3
         \<and> map (slots_of (professor_schedule st2) ''Dr Rao'') [0, 1, 2]
             = [{0..<3}, {0..<3}, {}]
         \<and> map (slots_of (classroom_schedule st2) ''C101'') [0, 1, 2]
             = [{0..<3}, {0..<3}, {}]
         \<and> last (summary_ws st1) ! 8 = ''Monday 09:00''
         \<and> last (summary_ws st2) ! 8 = ''Tuesday 09:00''
         \<and> random_calls st2 = 0)"
proof -
  let ?TS = generate_time_slots
  let ?s0 = "fresh_state ?TS"
  have e: "professor_schedule ?s0 = Map.empty" "classroom_schedule ?s0 = Map.empty"
    "timetable ?s0 = new_timetable ?TS" "random_calls ?s0 = 0"
    by (simp_all add: fresh_state_def initial_state_def)
  have ok: "state_ok ?TS ?s0" by (rule fresh_state_ok)
  have f: "first_fit example_course ''LEC 1'' ?TS ?s0 (0, 0)"
    by (rule first_lecture_first_fit [OF e(1-3)])
  then have q: "\<exists>q. candidate ?TS (session_duration ''LEC 1'') q
        \<and> fits example_course ''LEC 1'' ?TS ?s0 q"
    unfolding first_fit_def by blast
  have names: "faculty_list (Faculty example_course) = [''Dr Rao'']"
    "Faculty example_course = ''Dr Rao''" "Classroom example_course = ''C101''"
    by (simp_all add: example_course_def Dr_Rao_single)
  \<comment> \<open>the two lectures\<close>
  from phase1_commits_first_fit [where init = "fresh_state generate_time_slots" and department = "''CSE''"
      and semester = "''1''" and course = example_course and attempt_limit = 5000,
      THEN conjunct2, THEN conjunct2] e(1-3)
  obtain st1 st2 where r1: "schedule_session ''CSE'' ''1'' example_course ''LEC 1'' ?TS 5000 ?s0
      = Inr (True, st1)"
    and b1: "block_written ''Dr Rao'' ''C101'' 0 0 3 ''LEC 1'' (Course_Code example_course)
      (Course_Name example_course) 3 (new_timetable ?TS) (timetable st1)"
    and p1: "slots_added [''Dr Rao''] 0 0 3 Map.empty (professor_schedule st1)"
    and c1: "slots_added [''C101''] 0 0 3 Map.empty (classroom_schedule st1)"
    and r2: "schedule_session ''CSE'' ''1'' example_course ''LEC 2'' ?TS 5000 st1
      = Inr (True, st2)"
    and b2: "block_written ''Dr Rao'' ''C101'' 1 0 3 ''LEC 2'' (Course_Code example_course)
      (Course_Name example_course) 3 (timetable st1) (timetable st2)"
    and p2: "slots_added [''Dr Rao''] 1 0 3 (professor_schedule st1) (professor_schedule st2)"
    and c2: "slots_added [''C101''] 1 0 3 (classroom_schedule st1) (classroom_schedule st2)"
    and rc: "random_calls st2 = random_calls ?s0"
    by (auto simp: names Dr_Rao_single)
  \<comment> \<open>the summary rows\<close>
  from phase1_commits_first_fit [where st = "fresh_state generate_time_slots" and TIME_SLOTS = generate_time_slots and p = "(0, 0)"
      and session_type = "''LEC 1''" and department = "''CSE''"
      and semester = "''1''" and course = example_course and attempt_limit = 5000,
      THEN conjunct2, THEN conjunct1] ok f r1
  have k1: "commit ''CSE'' ''1'' example_course ''LEC 1'' 0 0 ?TS ?s0 = Inr st1"
    and w1: "last (summary_ws st1) ! 8 = DAYS ! 0 @ '' '' @ strftime_HM (fst (?TS ! 0))"
    by auto
  from second_lecture_first_fit [OF e(1-3) k1]
  have ok1: "state_ok ?TS st1" and f1: "first_fit example_course ''LEC 2'' ?TS st1 (1, 0)"
    by simp_all
  from phase1_commits_first_fit [where st = st1 and TIME_SLOTS = generate_time_slots and p = "(1, 0)"
      and session_type = "''LEC 2''" and department = "''CSE''"
      and semester = "''1''" and course = example_course and attempt_limit = 5000,
      THEN conjunct2, THEN conjunct1] ok1 f1 r2
  have w2: "last (summary_ws st2) ! 8 = DAYS ! 1 @ '' '' @ strftime_HM (fst (?TS ! 0))"
    by auto
  have t: "strftime_HM (fst (?TS ! 0)) = ''09:00''"
    by (simp add: generate_time_slots_eq strftime_HM_def digit_def)
  have rows: "last (summary_ws st1) ! 8 = ''Monday 09:00''"
    "last (summary_ws st2) ! 8 = ''Tuesday 09:00''"
    unfolding w1 w2 t by (simp_all add: DAYS_def)
  \<comment> \<open>the cells\<close>
  have g1: "timetable st1 ! d ! s =
      (if d = 0 \<and> s < 3
       then session_cell ''Dr Rao'' ''C101'' 3 ''LEC 1'' (Course_Code example_course)
              (Course_Name example_course) s empty_cell
       else empty_cell)" if "d < 5" "s < 19" for d s
    using b1 that
    by (simp add: block_written_def new_timetable_def length_generate_time_slots)
  have l1: "length (timetable st1) = 5" "\<And>d. d < 5 \<Longrightarrow> length (timetable st1 ! d) = 19"
    using b1 by (simp_all add: block_written_def new_timetable_def length_generate_time_slots)
  have g2: "timetable st2 ! d ! s =
      (if d = 1 \<and> s < 3
       then session_cell ''Dr Rao'' ''C101'' 3 ''LEC 2'' (Course_Code example_course)
              (Course_Name example_course) s (timetable st1 ! d ! s)
       else timetable st1 ! d ! s)" if "d < 5" "s < 19" for d s
    using b2 that l1 by (simp add: block_written_def)
  have cells: "map (\<lambda>s. cell_type (timetable st1 ! 0 ! s)) [0, 1, 2, 3]
             = [Some ''LEC 1'', Some ''LEC 1'', Some ''LEC 1'', None]"
    "map (\<lambda>d. cell_type (timetable st1 ! d ! 0)) [1, 2, 3, 4] = [None, None, None, None]"
    "map (\<lambda>s. cell_type (timetable st2 ! 0 ! s)) [0, 1, 2, 3]
             = [Some ''LEC 1'', Some ''LEC 1'', Some ''LEC 1'', None]"
    "map (\<lambda>s. cell_type (timetable st2 ! 1 ! s)) [0, 1, 2, 3]
             = [Some ''LEC 2'', Some ''LEC 2'', Some ''LEC 2'', None]"
    "map (\<lambda>s. cell_position (timetable st2 ! 1 ! s)) [0, 1, 2] = [0, 1, 2]"
    "cell_faculty (timetable st2 ! 1 ! 0) = ''Dr Rao''"
    "cell_duration (timetable st2 ! 1 ! 0) = 3"
    by (simp_all add: g1 g2 session_cell_def empty_cell_def)
  \<comment> \<open>the records\<close>
  have recs: "map (slots_of (professor_schedule st2) ''Dr Rao'') [0, 1, 2]
             = [{0..<3}, {0..<3}, {}]"
    "map (slots_of (classroom_schedule st2) ''C101'') [0, 1, 2] = [{0..<3}, {0..<3}, {}]"
    using p1 p2 c1 c2 by (simp_all add: slots_added_def slots_of_empty)
  from rc e(4) have z: "random_calls st2 = 0" by simp
  have "\<exists>st1 st2.
         schedule_session ''CSE'' ''1'' example_course ''LEC 1'' generate_time_slots 5000
           (fresh_state generate_time_slots) = Inr (True, st1)
         \<and> schedule_session ''CSE'' ''1'' example_course ''LEC 2'' generate_time_slots 5000
             st1 = Inr (True, st2)
         \<and> map (\<lambda>s. cell_type (timetable st1 ! 0 ! s)) [0, 1, 2, 3]
             = [Some ''LEC 1'', Some ''LEC 1'', Some ''LEC 1'', None]
         \<and> map (\<lambda>d. cell_type (timetable st1 ! d ! 0)) [1, 2, 3, 4] = [None, None, None, None]
         \<and> map (\<lambda>s. cell_type (timetable st2 ! 0 ! s)) [0, 1, 2, 3]
             = [Some ''LEC 1'', Some ''LEC 1'', Some ''LEC 1'', None]
         \<and> map (\<lambda>s. cell_type (timetable st2 ! 1 ! s)) [0, 1, 2, 3]
             = [Some ''LEC 2'', Some ''LEC 2'', Some ''LEC 2'', None]
         \<and> map (\<lambda>s. cell_position (timetable st2 ! 1 ! s)) [0, 1, 2] = [0, 1, 2]
         \<and> cell_faculty (timetable st2 ! 1 ! 0) = ''Dr Rao''
         \<and> cell_duration (timetable st2 ! 1 ! 0) = 3
         \<and> map (slots_of (professor_schedule st2) ''Dr Rao'') [0, 1, 2]
             = [{0..<3}, {0..<3}, {}]
         \<and> map (slots_of (classroom_schedule st2) ''C101'') [0, 1, 2]
             = [{0..<3}, {0..<3}, {}]
         \<and> last (summary_ws st1) ! 8 = ''Monday 09:00''
         \<and> last (summary_ws st2) ! 8 = ''Tuesday 09:00''
         \<and> random_calls st2 = 0"
    by (intro exI [of _ st1] exI [of _ st2] conjI r1 r2 cells recs rows z)
  with q ok f show ?thesis by (intro conjI)
qed

subsection \<open>Session plan\<close>

text \<open>
  C9: a course with lecture count 3 issues exactly the two requests \<open>LEC 1\<close> and
  \<open>LEC 2\<close>, one after the other; a course with no lectures issues none; in general the
  requests issued are \<open>LEC 1\<close>, ..., \<open>LEC n\<close> with \<open>n = 2\<close> for the count 3 and \<open>n\<close> the
  count otherwise, one summary row and one scheduled-or-failed count per request.
\<close>

theorem lecture_requests_by_count:
  "(L course = 3
      \<longrightarrow> handle_lectures department semester course TIME_SLOTS attempt_limit st =
          (case schedule_session department semester course ''LEC 1'' TIME_SLOTS
                  attempt_limit st of
             Inl e \<Rightarrow> Inl e
           | Inr (first, st1) \<Rightarrow>
               (case schedule_session department semester course ''LEC 2'' TIME_SLOTS
                       attempt_limit st1 of
                  Inl e \<Rightarrow> Inl e
                | Inr (second, st2) \<Rightarrow>
                    Inr (((if first then 1 else 0) + (if second then 1 else 0),
                          (if first then 0 else 1) + (if second then 0 else 1)), st2))))
   \<and> (L course \<le> 0
      \<longrightarrow> handle_lectures department semester course TIME_SLOTS attempt_limit st
          = Inr ((0, 0), st))
   \<and> (state_ok TIME_SLOTS st \<and> LECTURE_DURATION \<le> length TIME_SLOTS
      \<longrightarrow> (\<exists>total_scheduled failed st' rows.
             handle_lectures department semester course TIME_SLOTS attempt_limit st
               = Inr ((total_scheduled, failed), st')
             \<and> summary_ws st' = summary_ws st @ rows
             \<and> map (\<lambda>row. row ! 4) rows
                 = map (\<lambda>i. ''LEC '' @ str_nat (i + 1))
                     [0..<(if L course = 3 then 2 else nat (L course))]
             \<and> total_scheduled + failed = (if L course = 3 then 2 else nat (L course))))"
proof (intro conjI impI)
  assume "L course = 3"
  moreover have "[0..<2] = [0, 1]" by (simp add: upt_rec)
  ultimately show "handle_lectures department semester course TIME_SLOTS attempt_limit st =
          (case schedule_session department semester course ''LEC 1'' TIME_SLOTS
                  attempt_limit st of
             Inl e \<Rightarrow> Inl e
           | Inr (first, st1) \<Rightarrow>
               (case schedule_session department semester course ''LEC 2'' TIME_SLOTS
                       attempt_limit st1 of
                  Inl e \<Rightarrow> Inl e
                | Inr (second, st2) \<Rightarrow>
                    Inr (((if first then 1 else 0) + (if second then 1 else 0),
                          (if first then 0 else 1) + (if second then 0 else 1)), st2)))"
    by (simp add: handle_lectures_def py_range_def str_nat_Suc_0 split: sum.splits)
next
  assume "L course \<le> 0"
  then show "handle_lectures department semester course TIME_SLOTS attempt_limit st
          = Inr ((0, 0), st)"
    by (simp add: handle_lectures_def py_range_def)
next
  assume a: "state_ok TIME_SLOTS st \<and> LECTURE_DURATION \<le> length TIME_SLOTS"
  then have ok: "state_ok TIME_SLOTS st" and d: "LECTURE_DURATION \<le> length TIME_SLOTS"
    by simp_all
  from lecture_loop_rows [OF d ok, of department semester course attempt_limit
      "[0..<(if L course = 3 then 2 else nat (L course))]" 0 0]
  show "\<exists>total_scheduled failed st' rows.
             handle_lectures department semester course TIME_SLOTS attempt_limit st
               = Inr ((total_scheduled, failed), st')
             \<and> summary_ws st' = summary_ws st @ rows
             \<and> map (\<lambda>row. row ! 4) rows
                 = map (\<lambda>i. ''LEC '' @ str_nat (i + 1))
                     [0..<(if L course = 3 then 2 else nat (L course))]
             \<and> total_scheduled + failed = (if L course = 3 then 2 else nat (L course))"
    by (cases "L course = 3") (auto simp: handle_lectures_def py_range_def)
qed

theorem lecture_requests_by_count_witness:
  "L example_course = 3
   \<and> state_ok morning_slots (fresh_state morning_slots)
   \<and> LECTURE_DURATION \<le> length morning_slots
   \<and> (\<exists>total_scheduled failed st' rows.
         handle_lectures ''CSE'' ''1'' example_course morning_slots 5000
           (fresh_state morning_slots) = Inr ((total_scheduled, failed), st')
         \<and> summary_ws st' = summary_ws (fresh_state morning_slots) @ rows
         \<and> map (\<lambda>row. row ! 4) rows = [''LEC 1'', ''LEC 2'']
         \<and> total_scheduled + failed = 2)"
proof -
  have l: "L example_course = 3" by (simp add: example_course_def)
  have d: "LECTURE_DURATION \<le> length morning_slots"
    by (simp add: LECTURE_DURATION_def length_morning_slots)
  have m: "map (\<lambda>i. ''LEC '' @ str_nat (i + 1)) [0..<2] = [''LEC 1'', ''LEC 2'']"
    by (simp add: upt_rec str_nat_Suc_0)
  from lecture_requests_by_count [where course = example_course and TIME_SLOTS = morning_slots
      and st = "fresh_state morning_slots" and department = "''CSE''" and semester = "''1''"
      and attempt_limit = 5000, THEN conjunct2, THEN conjunct2]
    fresh_state_ok [of morning_slots] d
  have "\<exists>total_scheduled failed st' rows.
         handle_lectures ''CSE'' ''1'' example_course morning_slots 5000
           (fresh_state morning_slots) = Inr ((total_scheduled, failed), st')
         \<and> summary_ws st' = summary_ws (fresh_state morning_slots) @ rows
         \<and> map (\<lambda>row. row ! 4) rows
             = map (\<lambda>i. ''LEC '' @ str_nat (i + 1)) [0..<2]
         \<and> total_scheduled + failed = 2"
    by (simp add: l)
  then show ?thesis
    unfolding m using l d fresh_state_ok [of morning_slots] by simp
qed

subsection \<open>Attempt budgets\<close>



subsection \<open>The cells of a block\<close>

text \<open>
  C8 fails on the code for the lunch block: on a new grid of the working day the lunch
  placer marks two cells of Monday (here the slots 7 and 8), the first with
  \<open>is_first\<close> and the duration 2, the second as a continuation with the duration 0,
  but it never assigns \<open>position\<close>, so the continuation cell keeps the position 0
  where the convention of a session has 1.
\<close>

theorem lunch_block_position:
  "(case schedule_random_lunch_breaks generate_time_slots (fresh_state generate_time_slots) of
      Inl e \<Rightarrow> None
    | Inr st' \<Rightarrow>
        Some (map (\<lambda>c. (cell_type c, cell_is_first c, cell_duration c, cell_position c))
                [timetable st' ! 0 ! 7, timetable st' ! 0 ! 8]))
   = Some [(Some ''LUNCH'', True, 2, 0), (Some ''LUNCH'', False, 0, 0)]"
  by (simp add: schedule_random_lunch_breaks_def lunch_start_indices_real
        length_generate_time_slots choice_def fresh_state_def initial_state_def
        mark_lunch_def dict_get_def lunch_cell_def new_timetable_def empty_cell_def upt_rec)

subsection \<open>No double booking across the run\<close>

text \<open>
  C1: a run over any list of departments and semesters returns, and in its final grids no
  two sessions of the same faculty designator that is not flexible overlap on a day,
  whichever grids they are in; the slots of every such session are recorded in the
  professor schedule that all grids share. A commit for a faculty designator that is not
  flexible adds the slots of its range to the record of that faculty on that day, and the
  feasibility check returns false for every candidate of that faculty whose range has a
  recorded slot.
\<close>

theorem no_double_booking:
  "(\<exists>st. generate_all_timetables groups source = Inr st
         \<and> no_clash (all_timetables st)
         \<and> booked (professor_schedule st) (all_timetables st))
   \<and> (state_ok TIME_SLOTS s \<and> day < length DAYS \<and> \<not> faculty_flexible faculty
       \<and> start_slot + duration \<le> length TIME_SLOTS
       \<longrightarrow> (\<exists>s'. update_schedule faculty classroom day start_slot duration session_type
                     code name s = Inr s'
               \<and> state_ok TIME_SLOTS s'
               \<and> slots_of (professor_schedule s') faculty day
                   = slots_of (professor_schedule s) faculty day
                     \<union> {start_slot..<start_slot + duration}))
   \<and> (state_ok TIME_SLOTS s \<and> day < length DAYS \<and> \<not> faculty_flexible faculty
       \<and> (\<exists>i<duration. start_slot + i \<in> slots_of (professor_schedule s) faculty day)
       \<longrightarrow> check_scheduling_possibility faculty classroom day start_slot duration
             TIME_SLOTS s = Inr False)"
proof (intro conjI impI)
  from generate_all_timetables_inv [of groups source]
  show "\<exists>st. generate_all_timetables groups source = Inr st
         \<and> no_clash (all_timetables st)
         \<and> booked (professor_schedule st) (all_timetables st)"
    unfolding run_inv_def by blast
next
  assume "state_ok TIME_SLOTS s \<and> day < length DAYS \<and> \<not> faculty_flexible faculty
       \<and> start_slot + duration \<le> length TIME_SLOTS"
  then show "\<exists>s'. update_schedule faculty classroom day start_slot duration session_type
                     code name s = Inr s'
               \<and> state_ok TIME_SLOTS s'
               \<and> slots_of (professor_schedule s') faculty day
                   = slots_of (professor_schedule s) faculty day
                     \<union> {start_slot..<start_slot + duration}"
    by (intro single_faculty_recorded) simp_all
next
  assume "state_ok TIME_SLOTS s \<and> day < length DAYS \<and> \<not> faculty_flexible faculty
       \<and> (\<exists>i<duration. start_slot + i \<in> slots_of (professor_schedule s) faculty day)"
  then show "check_scheduling_possibility faculty classroom day start_slot duration
             TIME_SLOTS s = Inr False"
    by (intro recorded_slot_rejected) simp_all
qed

theorem no_double_booking_witness:
  "(\<exists>st g1 g2. generate_all_timetables two_departments (\<lambda>n. 0) = Inr st
      \<and> all_timetables st ''CSE_1'' = Some g1 \<and> all_timetables st ''ECE_1'' = Some g2
      \<and> session_start (g1 ! 0 ! 0) \<and> cell_faculty (g1 ! 0 ! 0) = ''Dr Rao''
      \<and> session_start (g2 ! 0 ! 4) \<and> cell_faculty (g2 ! 0 ! 4) = ''Dr Rao''
      \<and> cell_duration (g1 ! 0 ! 0) = 3 \<and> cell_duration (g2 ! 0 ! 4) = 3
      \<and> {0..<0 + cell_duration (g1 ! 0 ! 0)} \<inter> {4..<4 + cell_duration (g2 ! 0 ! 4)} = {}
      \<and> {0..<0 + cell_duration (g1 ! 0 ! 0)} \<union> {4..<4 + cell_duration (g2 ! 0 ! 4)}
          \<subseteq> slots_of (professor_schedule st) ''Dr Rao'' 0)
   \<and> (\<exists>s'. update_schedule ''Dr Rao'' ''C101'' 0 0 3 ''LEC 1'' ''CS101'' ''Programming''
              (fresh_state generate_time_slots) = Inr s'
          \<and> slots_of (professor_schedule s') ''Dr Rao'' 0 = {0..<3}
          \<and> check_scheduling_possibility ''Dr Rao'' ''E201'' 0 2 3 generate_time_slots s'
              = Inr False)"
proof (rule conjI)
  from two_departments_run
  obtain st g1 g2 where r: "generate_all_timetables two_departments (\<lambda>n. 0) = Inr st"
    "all_timetables st ''CSE_1'' = Some g1" "all_timetables st ''ECE_1'' = Some g2"
    and b1: "block_written ''Dr Rao'' ''C101'' 0 0 3 ''LEC 1'' ''CS101'' ''Programming'' 3
          lunch_grid g1"
    and b2: "block_written ''Dr Rao'' ''E201'' 0 4 3 ''LEC 1'' ''EC101'' ''Circuits'' 3
          lunch_grid g2"
    by blast
  from no_double_booking [of two_departments "\<lambda>n. 0", THEN conjunct1] r(1)
  have nc: "no_clash (all_timetables st)"
    and bk: "booked (professor_schedule st) (all_timetables st)"
    by auto
  note c1 = lecture_on_lunch_grid [OF b1] and c2 = lecture_on_lunch_grid [OF b2]
  have l1: "0 < length g1" "0 < length (g1 ! 0)" "session_start (g1 ! 0 ! 0)"
    "cell_faculty (g1 ! 0 ! 0) = ''Dr Rao''" "cell_duration (g1 ! 0 ! 0) = 3"
    using c1 by simp_all
  have l2: "0 < length g2" "4 < length (g2 ! 0)" "session_start (g2 ! 0 ! 4)"
    "cell_faculty (g2 ! 0 ! 4) = ''Dr Rao''" "cell_duration (g2 ! 0 ! 4) = 3"
    using c2 by simp_all
  have "{0..<0 + cell_duration (g1 ! 0 ! 0)} \<inter> {4..<4 + cell_duration (g2 ! 0 ! 4)} = {}"
    using nc [unfolded no_clash_def, rule_format, of "''CSE_1''" g1 "''ECE_1''" g2 0 0 4]
      r(2,3) l1 l2 Dr_Rao_single(1)
    by simp
  moreover have "{0..<0 + cell_duration (g1 ! 0 ! 0)}
      \<subseteq> slots_of (professor_schedule st) ''Dr Rao'' 0"
    using bk [unfolded booked_def, rule_format, of "''CSE_1''" g1 0 0] r(2) l1 Dr_Rao_single(1)
    by simp
  moreover have "{4..<4 + cell_duration (g2 ! 0 ! 4)}
      \<subseteq> slots_of (professor_schedule st) ''Dr Rao'' 0"
    using bk [unfolded booked_def, rule_format, of "''ECE_1''" g2 0 4] r(3) l2 Dr_Rao_single(1)
    by simp
  ultimately show "\<exists>st g1 g2. generate_all_timetables two_departments (\<lambda>n. 0) = Inr st
      \<and> all_timetables st ''CSE_1'' = Some g1 \<and> all_timetables st ''ECE_1'' = Some g2
      \<and> session_start (g1 ! 0 ! 0) \<and> cell_faculty (g1 ! 0 ! 0) = ''Dr Rao''
      \<and> session_start (g2 ! 0 ! 4) \<and> cell_faculty (g2 ! 0 ! 4) = ''Dr Rao''
      \<and> cell_duration (g1 ! 0 ! 0) = 3 \<and> cell_duration (g2 ! 0 ! 4) = 3
      \<and> {0..<0 + cell_duration (g1 ! 0 ! 0)} \<inter> {4..<4 + cell_duration (g2 ! 0 ! 4)} = {}
      \<and> {0..<0 + cell_duration (g1 ! 0 ! 0)} \<union> {4..<4 + cell_duration (g2 ! 0 ! 4)}
          \<subseteq> slots_of (professor_schedule st) ''Dr Rao'' 0"
    using r l1(3-5) l2(3-5) by blast
next
  let ?TS = generate_time_slots
  have ok: "state_ok ?TS (fresh_state ?TS)" by (rule fresh_state_ok)
  have e: "slots_of (professor_schedule (fresh_state ?TS)) ''Dr Rao'' 0 = {}"
    by (simp add: fresh_state_def initial_state_def slots_of_empty)
  from no_double_booking [where TIME_SLOTS = ?TS and s = "fresh_state ?TS" and day = 0
      and faculty = "''Dr Rao''" and start_slot = 0 and duration = 3
      and classroom = "''C101''" and session_type = "''LEC 1''" and code = "''CS101''"
      and name = "''Programming''", THEN conjunct2, THEN conjunct1]
    ok Dr_Rao_single(1)
  obtain s' where s': "update_schedule ''Dr Rao'' ''C101'' 0 0 3 ''LEC 1'' ''CS101''
      ''Programming'' (fresh_state ?TS) = Inr s'"
    "state_ok ?TS s'" "slots_of (professor_schedule s') ''Dr Rao'' 0 = {0..<3}"
    by (auto simp: length_generate_time_slots e)
  have o: "\<exists>i<3. 2 + i \<in> slots_of (professor_schedule s') ''Dr Rao'' 0"
    unfolding s'(3) by (rule exI [of _ 0]) simp
  from no_double_booking [where TIME_SLOTS = ?TS and s = s' and day = 0
      and faculty = "''Dr Rao''" and start_slot = 2 and duration = 3
      and classroom = "''E201''", THEN conjunct2, THEN conjunct2]
    s'(2) Dr_Rao_single(1) o
  have "check_scheduling_possibility ''Dr Rao'' ''E201'' 0 2 3 ?TS s' = Inr False"
    by simp
  with s'(1,3) show "\<exists>s'. update_schedule ''Dr Rao'' ''C101'' 0 0 3 ''LEC 1'' ''CS101''
              ''Programming'' (fresh_state ?TS) = Inr s'
          \<and> slots_of (professor_schedule s') ''Dr Rao'' 0 = {0..<3}
          \<and> check_scheduling_possibility ''Dr Rao'' ''E201'' 0 2 3 ?TS s' = Inr False"
    by blast
qed

end
